theory Spec2Isabelle
  imports Main
begin

section \<open>Strings\<close>

text \<open>
  Go strings are byte sequences; a \<^typ>\<open>string\<close> is read as the bytes of the Go string.
  \<open>strings.ToLower\<close> is modelled on ASCII bytes: in \<open>generateAccountName\<close> it is only
  applied to the bytes that survive \<open>storageAccountInvalidCharRe\<close> (ASCII letters and
  digits) followed by the output of \<open>rand.String\<close>.
\<close>

definition digits :: string where
  "digits = ''0123456789''"

definition upperLetters :: string where
  "upperLetters = ''ABCDEFGHIJKLMNOPQRSTUVWXYZ''"

definition lowerLetters :: string where
  "lowerLetters = ''abcdefghijklmnopqrstuvwxyz''"

definition toLowerByte :: "char \<Rightarrow> char" where
  "toLowerByte c = (case map_of (zip upperLetters lowerLetters) c of Some l \<Rightarrow> l | None \<Rightarrow> c)"

definition ToLower :: "string \<Rightarrow> string" where
  "ToLower s = map toLowerByte s"

text \<open>\<open>strings.Replace(s, "-", "", -1)\<close>: every dash removed.\<close>

definition removeDashes :: "string \<Rightarrow> string" where
  "removeDashes s = filter (\<lambda>c. c \<noteq> CHR ''-'') s"

text \<open>
  \<open>storageAccountInvalidCharRe = [^0-9A-Za-z]\<close>: a byte of a multi-byte rune is never an
  ASCII letter or digit, so removing the matching runes is removing the matching bytes.
\<close>

definition storageAccountInvalidChar :: "char \<Rightarrow> bool" where
  "storageAccountInvalidChar c = (c \<notin> set (digits @ upperLetters @ lowerLetters))"

text \<open>The alphabet of \<open>rand.String\<close> (k8s.io/apimachinery/pkg/util/rand).\<close>

definition alphanums :: string where
  "alphanums = ''bcdfghjklmnpqrstvwxz2456789''"

section \<open>Errors and panics\<close>

text \<open>
  One constructor per error type that the sources create or inspect:
  \<open>fmt.Errorf\<close> values, Kubernetes API status errors (with their reason), the sentinel
  \<open>storage.ErrStorageNotConfigured\<close>, the controller's \<open>permanentError\<close>, the Azure
  driver's \<open>errNameNotAvailable\<close> and \<open>errDoesNotExist\<close>, \<open>autorest.DetailedError\<close>
  (status code), \<open>azblob.StorageError\<close> (service code) and \<open>awserr.Error\<close> (code).
  The last string of a library error is the text its \<open>Error()\<close> method renders.
\<close>

datatype error =
    errorString string
  | StatusError string string
  | ErrStorageNotConfigured
  | permanentError error string
  | errNameNotAvailable string string
  | errDoesNotExist error
  | DetailedError nat string
  | StorageError string string
  | awserrError string string

text \<open>
  Modelled from the spec: the text of the sentinel \<open>storage.ErrStorageNotConfigured\<close>,
  which is declared in pkg/storage and is not among the sources; the spec calls it
  "storage not configured".
\<close>

definition ErrStorageNotConfiguredText :: string where
  "ErrStorageNotConfiguredText = ''storage not configured''"

fun Error :: "error \<Rightarrow> string" where
  "Error (errorString m) = m"
| "Error (StatusError r m) = m"
| "Error ErrStorageNotConfigured = ErrStorageNotConfiguredText"
| "Error (permanentError e r) = Error e"
| "Error (errNameNotAvailable a m) =
     ''storage account name '' @ a @ '' is not available: '' @ m"
| "Error (errDoesNotExist e) = Error e"
| "Error (DetailedError c m) = m"
| "Error (StorageError c m) = m"
| "Error (awserrError c m) = m"

text \<open>\<open>fmt.Sprintf("%s", err)\<close> for an error that may be nil.\<close>

definition SprintError :: "error option \<Rightarrow> string" where
  "SprintError e = (case e of None \<Rightarrow> ''%!s(<nil>)'' | Some x \<Rightarrow> Error x)"

text \<open>\<open>errors.IsNotFound\<close> of k8s.io/apimachinery: a status error whose reason is NotFound.\<close>

definition IsNotFound :: "error \<Rightarrow> bool" where
  "IsNotFound e = (case e of StatusError r m \<Rightarrow> r = ''NotFound'' | _ \<Rightarrow> False)"

text \<open>The type assertion \<open>err.(permanentError)\<close>.\<close>

definition isPermanentError :: "error option \<Rightarrow> bool" where
  "isPermanentError e = (case e of Some (permanentError x r) \<Rightarrow> True | _ \<Rightarrow> False)"

definition newPermanentError :: "string \<Rightarrow> error \<Rightarrow> error" where
  "newPermanentError reason err = permanentError err reason"

text \<open>
  A Go function either returns or panics (a slice out of range, a nil dereference). A
  panic unwinds the operator: no result and no state come back from it.
\<close>

datatype 'a outcome = Return 'a | GoPanic string

section \<open>The registry resource\<close>

text \<open>
  The types of pkg/apis/imageregistry/v1 and of github.com/openshift/api are not among
  the sources. The records hold the fields that the sources read or write; pointers
  that may be nil are options.
\<close>

datatype ConditionStatus = ConditionTrue | ConditionFalse | ConditionUnknown

record OperatorCondition =
  condType :: string
  condStatus :: ConditionStatus
  condReason :: string
  condMessage :: string
  condLastTransitionTime :: nat

record ImageRegistryConfigStorageAzure =
  AccountName :: string
  Container :: string

record ImageRegistryConfigStorageS3CloudFront =
  BaseURL :: string
  PrivateKeyName :: string
  PrivateKeyKey :: string
  KeypairID :: string
  Duration :: int

record ImageRegistryConfigStorageS3 =
  Bucket :: string
  Region :: string
  RegionEndpoint :: string
  Encrypt :: bool
  KeyID :: string
  CloudFront :: "ImageRegistryConfigStorageS3CloudFront option"

record ImageRegistryConfigStorage =
  Azure :: "ImageRegistryConfigStorageAzure option"
  S3 :: "ImageRegistryConfigStorageS3 option"

record ObjectMeta =
  Generation :: int
  ResourceVersion :: string
  DeletionTimestamp :: "nat option"
  Finalizers :: "string list"

record ImageRegistrySpec =
  ManagementState :: string
  SpecStorage :: ImageRegistryConfigStorage

record ImageRegistryStatus =
  StorageManaged :: bool
  StatusStorage :: ImageRegistryConfigStorage
  Conditions :: "OperatorCondition list"
  ObservedGeneration :: int

record Config =
  Meta :: ObjectMeta
  Spec :: ImageRegistrySpec
  Status :: ImageRegistryStatus

text \<open>
  Constants of pkg/apis/imageregistry/v1 (not among the sources), taken with the values
  the operator declares for them.
\<close>

definition ImageRegistryName :: string where
  "ImageRegistryName = ''image-registry''"

definition ImageRegistryPrivateConfigurationUser :: string where
  "ImageRegistryPrivateConfigurationUser = ''image-registry-private-configuration-user''"

definition CloudCredentialsName :: string where
  "CloudCredentialsName = ''installer-cloud-credentials''"

definition ImageRegistryOperatorNamespace :: string where
  "ImageRegistryOperatorNamespace = ''openshift-image-registry''"

definition StorageExists :: string where
  "StorageExists = ''StorageExists''"

definition StorageTagged :: string where
  "StorageTagged = ''StorageTagged''"

definition StorageEncrypted :: string where
  "StorageEncrypted = ''StorageEncrypted''"

definition StoragePublicAccessBlocked :: string where
  "StoragePublicAccessBlocked = ''StoragePublicAccessBlocked''"

definition StorageIncompleteUploadCleanupEnabled :: string where
  "StorageIncompleteUploadCleanupEnabled = ''StorageIncompleteUploadCleanupEnabled''"

section \<open>Condition tracker\<close>

text \<open>
  Modelled from the spec: \<open>util.UpdateCondition\<close> lives in pkg/storage/util, which is not
  among the sources. The spec: conditions are keyed by type within a resource;
  setting one replaces or appends, and bumps \<open>lastTransitionTime\<close> only when the status
  actually changes. \<open>now\<close> is the clock reading of the call.
\<close>

definition mergeCondition ::
  "nat \<Rightarrow> ConditionStatus \<Rightarrow> string \<Rightarrow> string \<Rightarrow> OperatorCondition \<Rightarrow> OperatorCondition" where
  "mergeCondition now status reason message c =
     c\<lparr>condStatus := status,
       condReason := reason,
       condMessage := message,
       condLastTransitionTime :=
         (if condStatus c = status then condLastTransitionTime c else now)\<rparr>"

definition setCondition ::
  "nat \<Rightarrow> string \<Rightarrow> ConditionStatus \<Rightarrow> string \<Rightarrow> string \<Rightarrow>
   OperatorCondition list \<Rightarrow> OperatorCondition list" where
  "setCondition now conditionType status reason message cs =
     (if conditionType \<in> set (map condType cs)
      then map (\<lambda>c. if condType c = conditionType
                     then mergeCondition now status reason message c else c) cs
      else cs @ [\<lparr>condType = conditionType, condStatus = status, condReason = reason,
                   condMessage = message, condLastTransitionTime = now\<rparr>])"

definition UpdateCondition ::
  "nat \<Rightarrow> Config \<Rightarrow> string \<Rightarrow> ConditionStatus \<Rightarrow> string \<Rightarrow> string \<Rightarrow> Config" where
  "UpdateCondition now cr conditionType status reason message =
     cr\<lparr>Status := (Status cr)\<lparr>Conditions :=
       setCondition now conditionType status reason message (Conditions (Status cr))\<rparr>\<rparr>"

text \<open>The condition of a type, as a reader of the resource finds it.\<close>

definition findCondition :: "Config \<Rightarrow> string \<Rightarrow> OperatorCondition option" where
  "findCondition cr conditionType =
     find (\<lambda>c. condType c = conditionType) (Conditions (Status cr))"

section \<open>Driver state and its log\<close>

text \<open>
  A driver operation works on the resource \<open>cr\<close> and on the driver's own \<open>Config\<close>
  (\<open>d.Config\<close>), both mutated in place in the source and passed explicitly here. The
  sources do not hold the call sites of \<open>NewDriver\<close>; the driver's configuration is a
  value of its own here, not an alias into \<open>cr\<close>.

  \<open>trace\<close> is a log, newest entry first, of what the operation did: each provider
  operation it ran with whether it succeeded, each call of \<open>UpdateCondition\<close>, and each
  assignment to \<open>cr.Status.Storage\<close>.
\<close>

datatype event =
    ProviderCall string bool
  | ConditionUpdate string ConditionStatus string string
  | StatusStorageWrite

record 'c driver_state =
  cr :: Config
  dConfig :: 'c
  trace :: "event list"

definition enter :: "'c \<Rightarrow> Config \<Rightarrow> 'c driver_state" where
  "enter d c = \<lparr>cr = c, dConfig = d, trace = []\<rparr>"

definition updateCondition ::
  "nat \<Rightarrow> string \<Rightarrow> ConditionStatus \<Rightarrow> string \<Rightarrow> string \<Rightarrow>
   'c driver_state \<Rightarrow> 'c driver_state" where
  "updateCondition now conditionType status reason message s =
     s\<lparr>cr := UpdateCondition now (cr s) conditionType status reason message,
       trace := ConditionUpdate conditionType status reason message # trace s\<rparr>"

definition called :: "string \<Rightarrow> error option \<Rightarrow> 'c driver_state \<Rightarrow> 'c driver_state" where
  "called name err s = s\<lparr>trace := ProviderCall name (err = None) # trace s\<rparr>"

definition setStorageManaged :: "bool \<Rightarrow> 'c driver_state \<Rightarrow> 'c driver_state" where
  "setStorageManaged b s = s\<lparr>cr := (cr s)\<lparr>Status := (Status (cr s))\<lparr>StorageManaged := b\<rparr>\<rparr>\<rparr>"

section \<open>Listers\<close>

record Secret =
  secretNamespace :: string
  secretName :: string
  Data :: "string \<Rightarrow> string option"

record PlatformStatus =
  platformType :: string
  AWSRegion :: "string option"

record Infrastructure =
  InfrastructureName :: string
  platformStatus :: "PlatformStatus option"

text \<open>
  What the environment answers during one operation: the clock, the secret lister and
  \<open>util.GetInfrastructure\<close> (pkg/storage/util, not among the sources).
  \<open>AWSRegion\<close> is \<open>PlatformStatus.AWS.Region\<close>, \<open>None\<close> when the \<open>AWS\<close> pointer is nil.
\<close>

record listers =
  Now :: nat
  SecretsGet :: "string \<Rightarrow> error + Secret"
  GetInfrastructure :: "error + Infrastructure"

text \<open>\<open>string(creds.Data[key])\<close>: the empty string for a missing key.\<close>

definition dataString :: "Secret \<Rightarrow> string \<Rightarrow> string" where
  "dataString sec key = (case Data sec key of None \<Rightarrow> [] | Some v \<Rightarrow> v)"

text \<open>
  Modelled from the spec: \<open>util.GetValueFromSecret\<close> (pkg/storage/util, not among the
  sources): the value of a key of a secret, an error when the required key is absent.
\<close>

definition GetValueFromSecret :: "Secret \<Rightarrow> string \<Rightarrow> error + string" where
  "GetValueFromSecret sec key =
     (case Data sec key of
        Some v \<Rightarrow> Inr v
      | None \<Rightarrow> Inl (errorString (''secret '' @ secretNamespace sec @ ''/'' @ secretName sec
                   @ '' does not contain required key '' @ key)))"

section \<open>Azure driver\<close>

definition storageExistsReasonNotConfigured :: string where
  "storageExistsReasonNotConfigured = ''StorageNotConfigured''"

definition storageExistsReasonConfigError :: string where
  "storageExistsReasonConfigError = ''ConfigError''"

definition storageExistsReasonUserManaged :: string where
  "storageExistsReasonUserManaged = ''UserManaged''"

definition storageExistsReasonAzureError :: string where
  "storageExistsReasonAzureError = ''AzureError''"

definition storageExistsReasonContainerNotFound :: string where
  "storageExistsReasonContainerNotFound = ''ContainerNotFound''"

definition storageExistsReasonContainerExists :: string where
  "storageExistsReasonContainerExists = ''ContainerExists''"

definition storageExistsReasonContainerDeleted :: string where
  "storageExistsReasonContainerDeleted = ''ContainerDeleted''"

definition storageExistsReasonAccountDeleted :: string where
  "storageExistsReasonAccountDeleted = ''AccountDeleted''"

text \<open>The struct \<open>Azure\<close> of the azure package (\<open>azureRegion\<close> is its field \<open>Region\<close>).\<close>

record azure_Azure =
  SubscriptionID :: string
  ClientID :: string
  ClientSecret :: string
  TenantID :: string
  ResourceGroup :: string
  azureRegion :: string
  AccountKey :: string

text \<open>
  The Azure side of the environment. Every field is the answer of one library call:
  the authorizer behind \<open>storageAccountsClient\<close>, \<open>rand.String(5)\<close> of the i-th attempt,
  the four calls of \<open>createStorageAccount\<close> (by attempt), \<open>ListKeys\<close> (the key values),
  the credential and URL constructors, the container calls (account, key, container)
  and the deletion of the account (resource group, account).
\<close>

record azure_world = listers +
  Authorizer :: "azure_Azure \<Rightarrow> error option"
  randString :: "nat \<Rightarrow> string"
  CheckNameAvailability :: "nat \<Rightarrow> string \<Rightarrow> error + (bool \<times> string)"
  AccountsCreate :: "nat \<Rightarrow> string \<Rightarrow> string \<Rightarrow> string \<Rightarrow> error option"
  WaitForCompletionRef :: "nat \<Rightarrow> string \<Rightarrow> error option"
  FutureResult :: "nat \<Rightarrow> string \<Rightarrow> error option"
  ListKeys :: "string \<Rightarrow> string \<Rightarrow> error + string list"
  NewSharedKeyCredential :: "string \<Rightarrow> string \<Rightarrow> error option"
  urlParse :: "string \<Rightarrow> error option"
  ContainerCreate :: "string \<Rightarrow> string \<Rightarrow> string \<Rightarrow> error option"
  ContainerDelete :: "string \<Rightarrow> string \<Rightarrow> string \<Rightarrow> error option"
  ContainerGetProperties :: "string \<Rightarrow> string \<Rightarrow> string \<Rightarrow> error option"
  AccountsDelete :: "string \<Rightarrow> string \<Rightarrow> error option"

type_synonym azure_state = "ImageRegistryConfigStorageAzure driver_state"

definition getAzureConfigFromCloudSecret :: "Secret \<Rightarrow> error + azure_Azure" where
  "getAzureConfigFromCloudSecret creds =
     Inr \<lparr>SubscriptionID = dataString creds ''azure_subscription_id'',
          ClientID = dataString creds ''azure_client_id'',
          ClientSecret = dataString creds ''azure_client_secret'',
          TenantID = dataString creds ''azure_tenant_id'',
          ResourceGroup = dataString creds ''azure_resourcegroup'',
          azureRegion = dataString creds ''azure_region'',
          AccountKey = []\<rparr>"

definition getAzureConfigFromUserSecret :: "Secret \<Rightarrow> error + azure_Azure" where
  "getAzureConfigFromUserSecret sec =
     (case GetValueFromSecret sec ''REGISTRY_STORAGE_AZURE_ACCOUNTKEY'' of
        Inl err \<Rightarrow> Inl err
      | Inr key \<Rightarrow>
          if key = [] then
            Inl (errorString (''the secret '' @ secretNamespace sec @ ''/'' @ secretName sec
              @ '' has an empty value for REGISTRY_STORAGE_AZURE_ACCOUNTKEY; the secret should be removed so that the operator can use cluster-wide secrets or it should contain a valid storage account access key''))
          else
            Inr \<lparr>SubscriptionID = [], ClientID = [], ClientSecret = [], TenantID = [],
                 ResourceGroup = [], azureRegion = [], AccountKey = key\<rparr>)"

definition azure_GetConfig :: "'a listers_scheme \<Rightarrow> error + azure_Azure" where
  "azure_GetConfig w =
     (case SecretsGet w ImageRegistryPrivateConfigurationUser of
        Inl err \<Rightarrow>
          if \<not> IsNotFound err then
            Inl (errorString (''unable to get user provided secrets: '' @ Error err))
          else
            (case SecretsGet w CloudCredentialsName of
               Inl err \<Rightarrow>
                 Inl (errorString (''unable to get cluster minted credentials: '' @ Error err))
             | Inr creds \<Rightarrow> getAzureConfigFromCloudSecret creds)
      | Inr sec \<Rightarrow> getAzureConfigFromUserSecret sec)"

text \<open>\<open>rnd\<close> is what \<open>rand.String(5)\<close> returned.\<close>

definition generateAccountName :: "string \<Rightarrow> string \<Rightarrow> string" where
  "generateAccountName infrastructureName rnd =
     (let prefix = filter (\<lambda>c. \<not> storageAccountInvalidChar c) infrastructureName;
          prefix = (if prefix = [] then ''imageregistry'' else prefix);
          prefix = (if length prefix > 24 - 5 then take (24 - 5) prefix else prefix);
          prefix = prefix @ rnd
      in ToLower prefix)"

definition createStorageAccount ::
  "azure_world \<Rightarrow> nat \<Rightarrow> string \<Rightarrow> string \<Rightarrow> string \<Rightarrow> error option" where
  "createStorageAccount w i resourceGroupName accountName location =
     (case CheckNameAvailability w i accountName of
        Inl err \<Rightarrow>
          Some (errorString (''storage account check-name-availability failed: '' @ Error err))
      | Inr (nameAvailable, message) \<Rightarrow>
          if nameAvailable \<noteq> True then Some (errNameNotAvailable accountName message)
          else
            (case AccountsCreate w i resourceGroupName accountName location of
               Some err \<Rightarrow>
                 Some (errorString (''failed to start creating storage account: '' @ Error err))
             | None \<Rightarrow>
                 (case WaitForCompletionRef w i accountName of
                    Some err \<Rightarrow>
                      Some (errorString
                        (''failed to finish creating storage account: '' @ Error err))
                  | None \<Rightarrow>
                      (case FutureResult w i accountName of
                         Some err \<Rightarrow>
                           Some (errorString
                             (''failed to create storage account: '' @ Error err))
                       | None \<Rightarrow> None))))"

text \<open>\<open>(*keysResponse.Keys)[0]\<close> panics on an empty list of keys.\<close>

definition getAccountPrimaryKey ::
  "azure_world \<Rightarrow> string \<Rightarrow> string \<Rightarrow> (error + string) outcome" where
  "getAccountPrimaryKey w resourceGroupName accountName =
     (case ListKeys w resourceGroupName accountName of
        Inl err \<Rightarrow>
          (let wrappedErr = errorString (''failed to get keys for the storage account ''
                 @ accountName @ '': '' @ Error err)
           in case err of
                DetailedError statusCode m \<Rightarrow>
                  if statusCode = 404 then Return (Inl (errDoesNotExist wrappedErr))
                  else Return (Inl wrappedErr)
              | _ \<Rightarrow> Return (Inl wrappedErr))
      | Inr keys \<Rightarrow>
          (case keys of
             [] \<Rightarrow> GoPanic ''index out of range''
           | k # ks \<Rightarrow> Return (Inr k)))"

definition blobURL :: "string \<Rightarrow> string" where
  "blobURL accountName = ''https://'' @ accountName @ ''.blob.core.windows.net''"

definition getStorageContainer :: "azure_world \<Rightarrow> string \<Rightarrow> string \<Rightarrow> error option" where
  "getStorageContainer w accountName key =
     (case NewSharedKeyCredential w accountName key of
        Some err \<Rightarrow> Some err
      | None \<Rightarrow> urlParse w (blobURL accountName))"

definition createStorageContainer ::
  "azure_world \<Rightarrow> string \<Rightarrow> string \<Rightarrow> string \<Rightarrow> error option" where
  "createStorageContainer w accountName key containerName =
     (case getStorageContainer w accountName key of
        Some err \<Rightarrow> Some err
      | None \<Rightarrow> ContainerCreate w accountName key containerName)"

definition deleteStorageContainer ::
  "azure_world \<Rightarrow> string \<Rightarrow> string \<Rightarrow> string \<Rightarrow> error option" where
  "deleteStorageContainer w accountName key containerName =
     (case getStorageContainer w accountName key of
        Some err \<Rightarrow> Some err
      | None \<Rightarrow> ContainerDelete w accountName key containerName)"

text \<open>The type assertions \<open>err.(*errNameNotAvailable)\<close> and \<open>err.(*errDoesNotExist)\<close>.\<close>

definition isErrNameNotAvailable :: "error \<Rightarrow> bool" where
  "isErrNameNotAvailable e = (case e of errNameNotAvailable a m \<Rightarrow> True | _ \<Rightarrow> False)"

definition isErrDoesNotExist :: "error \<Rightarrow> bool" where
  "isErrDoesNotExist e = (case e of errDoesNotExist x \<Rightarrow> True | _ \<Rightarrow> False)"

text \<open>The assignments \<open>cr.Status.Storage.Azure = ...\<close> and \<open>cr.Spec.Storage.Azure = ...\<close>.\<close>

definition writeStatusAzure ::
  "ImageRegistryConfigStorageAzure option \<Rightarrow> 'c driver_state \<Rightarrow> 'c driver_state" where
  "writeStatusAzure v s =
     s\<lparr>cr := (cr s)\<lparr>Status := (Status (cr s))\<lparr>StatusStorage :=
           (StatusStorage (Status (cr s)))\<lparr>Azure := v\<rparr>\<rparr>\<rparr>,
       trace := StatusStorageWrite # trace s\<rparr>"

definition writeSpecAzure ::
  "ImageRegistryConfigStorageAzure option \<Rightarrow> 'c driver_state \<Rightarrow> 'c driver_state" where
  "writeSpecAzure v s =
     s\<lparr>cr := (cr s)\<lparr>Spec := (Spec (cr s))\<lparr>SpecStorage :=
           (SpecStorage (Spec (cr s)))\<lparr>Azure := v\<rparr>\<rparr>\<rparr>\<rparr>"

subsection \<open>StorageExists and StorageChanged\<close>




definition azure_StorageChanged ::
  "ImageRegistryConfigStorageAzure \<Rightarrow> Config \<Rightarrow> bool \<times> azure_state" where
  "azure_StorageChanged d c =
     (let s = enter d c in
      if Azure (StatusStorage (Status (cr s))) \<noteq> Azure (SpecStorage (Spec (cr s)))
      then (True, s) else (False, s))"

subsection \<open>CreateStorage\<close>

definition maxAttempts :: nat where
  "maxAttempts = 10"

text \<open>
  How a loop is left: by falling out of it (break, or the bound reached) with the value
  it carries, by a \<open>return err\<close> inside the body, or by a panic.
\<close>

datatype 'a loop_exit = LoopEnd 'a | LoopReturn error | LoopPanic string

text \<open>
  The loop \<open>for i := 0; i < maxAttempts; i++\<close> of \<open>CreateStorage\<close>, from iteration \<open>i\<close>
  with the current \<open>lastErr\<close>.
\<close>

function createAccountLoop ::
  "azure_world \<Rightarrow> azure_Azure \<Rightarrow> Infrastructure \<Rightarrow> nat \<Rightarrow> error option \<Rightarrow> azure_state \<Rightarrow>
   error option loop_exit \<times> azure_state" where
  "createAccountLoop w cfg infra i lastErr s =
     (if i < maxAttempts then
        (let accountName = generateAccountName (InfrastructureName infra) (randString w i);
             err = createStorageAccount w i (ResourceGroup cfg) accountName (azureRegion cfg);
             s1 = called ''createStorageAccount'' err s
         in case err of
              Some e \<Rightarrow>
                if isErrNameNotAvailable e
                then createAccountLoop w cfg infra (i + 1) (Some e) s1
                else (LoopReturn e, s1)
            | None \<Rightarrow>
                (let s2 = s1\<lparr>dConfig := (dConfig s1)\<lparr>AccountName := accountName\<rparr>\<rparr>;
                     s3 = setStorageManaged True s2;
                     s4 = writeStatusAzure (Some (dConfig s3)) s3;
                     s5 = writeSpecAzure (Some (dConfig s4)) s4
                 in (LoopEnd lastErr, s5)))
      else (LoopEnd lastErr, s))"
  by pat_completeness auto
termination
  by (relation "measure (\<lambda>(w, cfg, infra, i, lastErr, s). maxAttempts - i)") auto

declare createAccountLoop.simps [simp del]

text \<open>\<open>CreateStorage\<close> from \<open>if d.Config.Container == ""\<close> on.\<close>

definition azure_CreateStorage_container ::
  "azure_world \<Rightarrow> azure_Azure \<Rightarrow> azure_state \<Rightarrow> (error option \<times> azure_state) outcome" where
  "azure_CreateStorage_container w cfg s =
     (if Container (dConfig s) = [] then
        (case getAccountPrimaryKey w (ResourceGroup cfg) (AccountName (dConfig s)) of
           GoPanic m \<Rightarrow> GoPanic m
         | Return (Inl err) \<Rightarrow>
             Return (Some err,
               updateCondition (Now w) StorageExists ConditionFalse storageExistsReasonAzureError
                 (''Unable to get account primary key: '' @ Error err)
                 (called ''getAccountPrimaryKey'' (Some err) s))
         | Return (Inr key) \<Rightarrow>
             (let s1 = called ''getAccountPrimaryKey'' None s;
                  containerName = ''image-registry'';
                  err = createStorageContainer w (AccountName (dConfig s1)) key containerName;
                  s2 = called ''createStorageContainer'' err s1
              in case err of
                   Some e \<Rightarrow>
                     Return (Some (errorString (''unable to create storage container: '' @ Error e)),
                       updateCondition (Now w) StorageExists ConditionUnknown
                         storageExistsReasonAzureError
                         (''Unable to create storage container: '' @ Error e) s2)
                 | None \<Rightarrow>
                     (let s3 = s2\<lparr>dConfig := (dConfig s2)\<lparr>Container := containerName\<rparr>\<rparr>;
                          s4 = setStorageManaged True s3;
                          s5 = writeStatusAzure (Some (dConfig s4)) s4;
                          s6 = writeSpecAzure (Some (dConfig s5)) s5
                      in Return (None,
                           updateCondition (Now w) StorageExists ConditionTrue
                             storageExistsReasonContainerExists ''Storage container exists'' s6))))
      else
        Return (None,
          updateCondition (Now w) StorageExists ConditionTrue
            storageExistsReasonContainerExists ''Storage container exists'' s))"

definition azure_CreateStorage ::
  "azure_world \<Rightarrow> ImageRegistryConfigStorageAzure \<Rightarrow> Config \<Rightarrow>
   (error option \<times> azure_state) outcome" where
  "azure_CreateStorage w d c =
     (let s = enter d c in
      case azure_GetConfig w of
        Inl err \<Rightarrow>
          Return (Some err,
            updateCondition (Now w) StorageExists ConditionUnknown storageExistsReasonConfigError
              (''Unable to get configuration: '' @ Error err) s)
      | Inr cfg \<Rightarrow>
          if AccountKey cfg \<noteq> [] then
            (if AccountName (dConfig s) = [] then
               Return (None,
                 updateCondition (Now w) StorageExists ConditionFalse
                   storageExistsReasonNotConfigured
                   ''Storage account key is provided, but account name is not specified'' s)
             else if Container (dConfig s) = [] then
               Return (None,
                 updateCondition (Now w) StorageExists ConditionFalse
                   storageExistsReasonNotConfigured
                   ''Storage account is provided, but container is not specified'' s)
             else
               (let s1 = setStorageManaged False s;
                    s2 = writeStatusAzure (Some (dConfig s1)) s1
                in Return (None,
                     updateCondition (Now w) StorageExists ConditionTrue
                       storageExistsReasonUserManaged ''Storage is managed by the user'' s2)))
          else
            (case Authorizer w cfg of
               Some err \<Rightarrow>
                 Return (Some err,
                   updateCondition (Now w) StorageExists ConditionUnknown
                     storageExistsReasonAzureError
                     (''Unable to get accounts client: '' @ Error err) s)
             | None \<Rightarrow>
                 if AccountName (dConfig s) = [] then
                   (case GetInfrastructure w of
                      Inl err \<Rightarrow>
                        Return (Some err,
                          updateCondition (Now w) StorageExists ConditionFalse
                            storageExistsReasonConfigError
                            (''Unable to get infrastructure resource: '' @ Error err) s)
                    | Inr infra \<Rightarrow>
                        (case createAccountLoop w cfg infra 0 None s of
                           (LoopPanic m, s1) \<Rightarrow> GoPanic m
                         | (LoopReturn err, s1) \<Rightarrow> Return (Some err, s1)
                         | (LoopEnd lastErr, s1) \<Rightarrow>
                             if AccountName (dConfig s1) = [] then
                               Return (Some (errorString
                                   (''attmpts to create storage account failed, last error: ''
                                    @ SprintError lastErr)),
                                 updateCondition (Now w) StorageExists ConditionFalse
                                   storageExistsReasonAzureError
                                   (''Unable to create storage account: '' @ SprintError lastErr)
                                   s1)
                             else azure_CreateStorage_container w cfg s1))
                 else
                   (let err = createStorageAccount w 0 (ResourceGroup cfg)
                                (AccountName (dConfig s)) (azureRegion cfg);
                        s1 = called ''createStorageAccount'' err s
                    in case err of
                         Some e \<Rightarrow>
                           if \<not> isErrNameNotAvailable e then
                             Return (Some e,
                               updateCondition (Now w) StorageExists ConditionUnknown
                                 storageExistsReasonAzureError
                                 (''Unable to create storage account: '' @ Error e) s1)
                           else
                             azure_CreateStorage_container w cfg
                               (writeStatusAzure (Some (dConfig s1)) s1)
                       | None \<Rightarrow>
                           azure_CreateStorage_container w cfg
                             (writeStatusAzure (Some (dConfig s1)) s1))))"

subsection \<open>RemoveStorage\<close>

text \<open>
  \<open>cr.Spec.Storage.Azure.AccountName = ""\<close> then \<open>cr.Status.Storage.Azure.AccountName = ""\<close>
  (and the same for \<open>Container\<close>): each dereferences a pointer that may be nil.
\<close>

definition clearAccountName :: "azure_state \<Rightarrow> azure_state outcome" where
  "clearAccountName s =
     (case Azure (SpecStorage (Spec (cr s))) of
        None \<Rightarrow> GoPanic ''nil pointer dereference''
      | Some a \<Rightarrow>
          (let s1 = writeSpecAzure (Some (a\<lparr>AccountName := []\<rparr>)) s
           in case Azure (StatusStorage (Status (cr s1))) of
                None \<Rightarrow> GoPanic ''nil pointer dereference''
              | Some b \<Rightarrow> Return (writeStatusAzure (Some (b\<lparr>AccountName := []\<rparr>)) s1)))"

definition clearContainer :: "azure_state \<Rightarrow> azure_state outcome" where
  "clearContainer s =
     (case Azure (SpecStorage (Spec (cr s))) of
        None \<Rightarrow> GoPanic ''nil pointer dereference''
      | Some a \<Rightarrow>
          (let s1 = writeSpecAzure (Some (a\<lparr>Container := []\<rparr>)) s
           in case Azure (StatusStorage (Status (cr s1))) of
                None \<Rightarrow> GoPanic ''nil pointer dereference''
              | Some b \<Rightarrow> Return (writeStatusAzure (Some (b\<lparr>Container := []\<rparr>)) s1)))"

text \<open>\<open>RemoveStorage\<close> from \<open>storageAccountsClient.Delete\<close> on.\<close>

definition azure_RemoveStorage_account ::
  "azure_world \<Rightarrow> azure_Azure \<Rightarrow> azure_state \<Rightarrow> ((bool \<times> error option) \<times> azure_state) outcome" where
  "azure_RemoveStorage_account w cfg s =
     (let err = AccountsDelete w (ResourceGroup cfg) (AccountName (dConfig s));
          s1 = called ''Delete'' err s
      in case err of
           Some e \<Rightarrow>
             Return ((False, Some e),
               updateCondition (Now w) StorageExists ConditionFalse storageExistsReasonAzureError
                 (''Unable to delete storage account: '' @ Error e) s1)
         | None \<Rightarrow>
             (case clearAccountName (s1\<lparr>dConfig := (dConfig s1)\<lparr>AccountName := []\<rparr>\<rparr>) of
                GoPanic m \<Rightarrow> GoPanic m
              | Return s2 \<Rightarrow>
                  Return ((False, None),
                    updateCondition (Now w) StorageExists ConditionFalse
                      storageExistsReasonAccountDeleted ''Storage account has been deleted'' s2)))"

definition azure_RemoveStorage ::
  "azure_world \<Rightarrow> ImageRegistryConfigStorageAzure \<Rightarrow> Config \<Rightarrow>
   ((bool \<times> error option) \<times> azure_state) outcome" where
  "azure_RemoveStorage w d c =
     (let s = enter d c in
      if StorageManaged (Status (cr s)) \<noteq> True then Return ((False, None), s)
      else if AccountName (dConfig s) = [] then
        Return ((False, None),
          updateCondition (Now w) StorageExists ConditionFalse storageExistsReasonNotConfigured
            ''Storage is not configured'' s)
      else
        (case azure_GetConfig w of
           Inl err \<Rightarrow>
             Return ((False, Some err),
               updateCondition (Now w) StorageExists ConditionUnknown
                 storageExistsReasonConfigError
                 (''Unable to get configuration: '' @ Error err) s)
         | Inr cfg \<Rightarrow>
             (case Authorizer w cfg of
                Some err \<Rightarrow>
                  Return ((False, Some err),
                    updateCondition (Now w) StorageExists ConditionUnknown
                      storageExistsReasonAzureError
                      (''Unable to get accounts client: '' @ Error err) s)
              | None \<Rightarrow>
                  if Container (dConfig s) \<noteq> [] then
                    (case getAccountPrimaryKey w (ResourceGroup cfg) (AccountName (dConfig s)) of
                       GoPanic m \<Rightarrow> GoPanic m
                     | Return (Inl err) \<Rightarrow>
                         (let s1 = called ''getAccountPrimaryKey'' (Some err) s
                          in if isErrDoesNotExist err then
                               (case clearAccountName
                                       (s1\<lparr>dConfig := (dConfig s1)\<lparr>AccountName := []\<rparr>\<rparr>) of
                                  GoPanic m \<Rightarrow> GoPanic m
                                | Return s2 \<Rightarrow>
                                    Return ((False, None),
                                      updateCondition (Now w) StorageExists ConditionFalse
                                        storageExistsReasonContainerNotFound
                                        (''Container has been already deleted: '' @ Error err) s2))
                             else
                               Return ((False, Some err),
                                 updateCondition (Now w) StorageExists ConditionUnknown
                                   storageExistsReasonAzureError
                                   (''Unable to get account primary keys: '' @ Error err) s1))
                     | Return (Inr key) \<Rightarrow>
                         (let s1 = called ''getAccountPrimaryKey'' None s;
                              err = deleteStorageContainer w (AccountName (dConfig s1)) key
                                      (Container (dConfig s1));
                              s2 = called ''deleteStorageContainer'' err s1
                          in case err of
                               Some e \<Rightarrow>
                                 Return ((False, Some e),
                                   updateCondition (Now w) StorageExists ConditionUnknown
                                     storageExistsReasonAzureError
                                     (''Unable to delete storage container: '' @ Error e) s2)
                             | None \<Rightarrow>
                                 (case clearContainer
                                         (s2\<lparr>dConfig := (dConfig s2)\<lparr>Container := []\<rparr>\<rparr>) of
                                    GoPanic m \<Rightarrow> GoPanic m
                                  | Return s3 \<Rightarrow>
                                      azure_RemoveStorage_account w cfg
                                        (updateCondition (Now w) StorageExists ConditionFalse
                                           storageExistsReasonContainerDeleted
                                           ''Storage container has been deleted'' s3))))
                  else azure_RemoveStorage_account w cfg s)))"

section \<open>S3 driver\<close>

text \<open>The struct \<open>S3\<close> of the s3 package (\<open>s3Bucket\<close>, \<open>s3Region\<close>: its \<open>Bucket\<close>, \<open>Region\<close>).\<close>

record s3_S3 =
  AccessKey :: string
  SecretKey :: string
  s3Bucket :: string
  s3Region :: string

text \<open>
  The S3 side of the environment: \<open>session.NewSession\<close>, \<open>uuid.NewUUID()\<close> and
  \<open>CreateBucket\<close> of the i-th iteration of the creation loop, and the other calls of the
  S3 client by bucket name (\<open>PutBucketTagging\<close> also by tag key, \<open>PutBucketEncryption\<close>
  also by algorithm and key id).
\<close>

record s3_world = listers +
  NewSession :: "error option"
  HeadBucket :: "string \<Rightarrow> error option"
  NewUUID :: "nat \<Rightarrow> string"
  CreateBucket :: "nat \<Rightarrow> string \<Rightarrow> error option"
  WaitUntilBucketExists :: "string \<Rightarrow> error option"
  PutPublicAccessBlock :: "string \<Rightarrow> error option"
  PutBucketTagging :: "string \<Rightarrow> string \<Rightarrow> error option"
  PutBucketEncryption :: "string \<Rightarrow> string \<Rightarrow> string \<Rightarrow> error option"
  PutBucketLifecycleConfiguration :: "string \<Rightarrow> error option"
  DeleteBucket :: "string \<Rightarrow> error option"
  WaitUntilBucketNotExists :: "string \<Rightarrow> error option"

type_synonym s3_state = "ImageRegistryConfigStorageS3 driver_state"

text \<open>\<open>fmt.Sprintf("%q", s)\<close> for a string without characters to escape.\<close>

definition goQuote :: "string \<Rightarrow> string" where
  "goQuote s = CHR 0x22 # s @ [CHR 0x22]"

definition AWSPlatformType :: string where
  "AWSPlatformType = ''AWS''"

definition mintedSecretName :: string where
  "mintedSecretName = goQuote (ImageRegistryOperatorNamespace @ ''/'' @ CloudCredentialsName)"

definition userSecretName :: string where
  "userSecretName =
     goQuote (ImageRegistryOperatorNamespace @ ''/'' @ ImageRegistryPrivateConfigurationUser)"

definition missingKey :: "string \<Rightarrow> string \<Rightarrow> error" where
  "missingKey secret key =
     errorString (''secret '' @ secret @ '' does not contain required key '' @ goQuote key)"

text \<open>
  \<open>infra.Status.PlatformStatus.AWS.Region\<close> dereferences the \<open>AWS\<close> pointer of a platform
  status of type AWS.
\<close>

definition s3_GetConfig :: "'a listers_scheme \<Rightarrow> (error + s3_S3) outcome" where
  "s3_GetConfig w =
     (case GetInfrastructure w of
        Inl err \<Rightarrow> Return (Inl err)
      | Inr infra \<Rightarrow>
          (case (case platformStatus infra of
                   None \<Rightarrow> Return []
                 | Some ps \<Rightarrow>
                     if platformType ps = AWSPlatformType then
                       (case AWSRegion ps of
                          None \<Rightarrow> GoPanic ''nil pointer dereference''
                        | Some r \<Rightarrow> Return r)
                     else Return []) of
             GoPanic m \<Rightarrow> GoPanic m
           | Return region \<Rightarrow>
               (case SecretsGet w ImageRegistryPrivateConfigurationUser of
                  Inl err \<Rightarrow>
                    if IsNotFound err then
                      (case SecretsGet w CloudCredentialsName of
                         Inl err \<Rightarrow>
                           Return (Inl (errorString (''unable to get cluster minted credentials ''
                             @ mintedSecretName @ '': '' @ Error err)))
                       | Inr sec \<Rightarrow>
                           (case Data sec ''aws_access_key_id'' of
                              None \<Rightarrow> Return (Inl (missingKey mintedSecretName ''aws_access_key_id''))
                            | Some ak \<Rightarrow>
                                (case Data sec ''aws_secret_access_key'' of
                                   None \<Rightarrow>
                                     Return (Inl (missingKey mintedSecretName
                                       ''aws_secret_access_key''))
                                 | Some sk \<Rightarrow>
                                     Return (Inr \<lparr>AccessKey = ak, SecretKey = sk, s3Bucket = [],
                                       s3Region = region\<rparr>))))
                    else Return (Inl err)
                | Inr sec \<Rightarrow>
                    (case Data sec ''REGISTRY_STORAGE_S3_ACCESSKEY'' of
                       None \<Rightarrow>
                         Return (Inl (missingKey userSecretName ''REGISTRY_STORAGE_S3_ACCESSKEY''))
                     | Some ak \<Rightarrow>
                         (case Data sec ''REGISTRY_STORAGE_S3_SECRETKEY'' of
                            None \<Rightarrow>
                              Return (Inl (missingKey userSecretName
                                ''REGISTRY_STORAGE_S3_SECRETKEY''))
                          | Some sk \<Rightarrow>
                              Return (Inr \<lparr>AccessKey = ak, SecretKey = sk, s3Bucket = [],
                                s3Region = region\<rparr>))))))"

text \<open>
  The package variable \<open>s3Service\<close> is never assigned: \<open>s3Service := s3.New(sess)\<close>
  declares a local. So the first branch of \<open>getS3Service\<close> is never taken and every call
  reads the configuration again. The client itself carries no state of the model.
\<close>

definition getS3Service :: "s3_world \<Rightarrow> s3_state \<Rightarrow> (error option \<times> s3_state) outcome" where
  "getS3Service w s =
     (case s3_GetConfig w of
        GoPanic m \<Rightarrow> GoPanic m
      | Return (Inl err) \<Rightarrow> Return (Some err, s)
      | Return (Inr cfg) \<Rightarrow>
          (let s1 = (if length (Region (dConfig s)) = 0
                     then s\<lparr>dConfig := (dConfig s)\<lparr>Region := s3Region cfg\<rparr>\<rparr> else s)
           in case NewSession w of
                Some err \<Rightarrow> Return (Some err, s1)
              | None \<Rightarrow> Return (None, s1)))"

definition bucketExists ::
  "s3_world \<Rightarrow> string \<Rightarrow> s3_state \<Rightarrow> (error option \<times> s3_state) outcome" where
  "bucketExists w bucketName s =
     (if length bucketName = 0 then Return (None, s)
      else
        (case getS3Service w s of
           GoPanic m \<Rightarrow> GoPanic m
         | Return (Some err, s1) \<Rightarrow> Return (Some err, s1)
         | Return (None, s1) \<Rightarrow>
             (let err = HeadBucket w bucketName
              in Return (err, called ''HeadBucket'' err s1))))"

text \<open>\<open>err.(awserr.Error)\<close> and its \<open>Code()\<close>.\<close>

definition awsCode :: "error \<Rightarrow> string option" where
  "awsCode e = (case e of awserrError code m \<Rightarrow> Some code | _ \<Rightarrow> None)"

definition ErrCodeNoSuchBucket :: string where
  "ErrCodeNoSuchBucket = ''NoSuchBucket''"

definition ErrCodeBucketAlreadyExists :: string where
  "ErrCodeBucketAlreadyExists = ''BucketAlreadyExists''"

text \<open>\<open>case s3.ErrCodeNoSuchBucket, "Forbidden", "NotFound"\<close>.\<close>

definition isMissingBucketCode :: "string \<Rightarrow> bool" where
  "isMissingBucketCode code =
     (code = ErrCodeNoSuchBucket \<or> code = ''Forbidden'' \<or> code = ''NotFound'')"

definition writeStatusS3 ::
  "ImageRegistryConfigStorageS3 option \<Rightarrow> 'c driver_state \<Rightarrow> 'c driver_state" where
  "writeStatusS3 v s =
     s\<lparr>cr := (cr s)\<lparr>Status := (Status (cr s))\<lparr>StatusStorage :=
           (StatusStorage (Status (cr s)))\<lparr>S3 := v\<rparr>\<rparr>\<rparr>,
       trace := StatusStorageWrite # trace s\<rparr>"

definition writeSpecS3 ::
  "ImageRegistryConfigStorageS3 option \<Rightarrow> 'c driver_state \<Rightarrow> 'c driver_state" where
  "writeSpecS3 v s =
     s\<lparr>cr := (cr s)\<lparr>Spec := (Spec (cr s))\<lparr>SpecStorage :=
           (SpecStorage (Spec (cr s)))\<lparr>S3 := v\<rparr>\<rparr>\<rparr>\<rparr>"

subsection \<open>StorageExists and StorageChanged\<close>


definition s3_StorageChanged ::
  "'a listers_scheme \<Rightarrow> ImageRegistryConfigStorageS3 \<Rightarrow> Config \<Rightarrow> bool \<times> s3_state" where
  "s3_StorageChanged w d c =
     (let s = enter d c in
      if S3 (StatusStorage (Status (cr s))) \<noteq> S3 (SpecStorage (Spec (cr s))) then
        (True,
         updateCondition (Now w) StorageExists ConditionUnknown ''S3 Configuration Changed''
           ''S3 storage is in an unknown state'' s)
      else (False, s))"

subsection \<open>CreateStorage\<close>

text \<open>
  \<open>fmt.Sprintf("%s-%s-%s-%s", ...)[0:62]\<close>: the slice expression panics when the
  formatted name has fewer than 62 bytes, which \<open>None\<close> stands for.
\<close>

definition generateBucketName :: "s3_world \<Rightarrow> Infrastructure \<Rightarrow> nat \<Rightarrow> s3_state \<Rightarrow> string option" where
  "generateBucketName w infra i s =
     (let name = ImageRegistryName @ ''-'' @ Region (dConfig s) @ ''-''
                 @ removeDashes (InfrastructureName infra) @ ''-'' @ removeDashes (NewUUID w i)
      in if length name < 62 then None else Some (take 62 name))"

text \<open>The first statement of the loop body: \<open>if len(d.Config.Bucket) == 0 { ... }\<close>.\<close>

definition nameBucket ::
  "s3_world \<Rightarrow> Infrastructure \<Rightarrow> nat \<Rightarrow> bool \<Rightarrow> s3_state \<Rightarrow> (bool \<times> s3_state) option" where
  "nameBucket w infra i generatedName s =
     (if length (Bucket (dConfig s)) = 0 then
        (case generateBucketName w infra i s of
           None \<Rightarrow> None
         | Some name \<Rightarrow> Some (True, s\<lparr>dConfig := (dConfig s)\<lparr>Bucket := name\<rparr>\<rparr>))
      else Some (generatedName, s))"

text \<open>The statements of the loop body after the error handling, up to its \<open>break\<close>.\<close>

definition bucketCreated :: "s3_world \<Rightarrow> s3_state \<Rightarrow> s3_state" where
  "bucketCreated w s =
     (let s1 = setStorageManaged True s;
          s2 = writeStatusS3 (Some (dConfig s1)) s1;
          s3 = writeSpecS3 (Some (dConfig s2)) s2
      in updateCondition (Now w) StorageExists ConditionTrue ''Creation Successful''
           ''S3 bucket was successfully created'' s3)"

text \<open>
  The loop \<open>for i := 0; i < 5000; i++\<close>, from iteration \<open>i\<close> with the current
  \<open>generatedName\<close>. The \<open>break\<close> of the case \<open>ErrCodeBucketAlreadyExists\<close> leaves the
  \<open>switch\<close>, so the body goes on behind the error handling; an error that is not an
  \<open>awserr.Error\<close> is not handled and the body goes on as well.
\<close>

function createBucketLoop ::
  "s3_world \<Rightarrow> Infrastructure \<Rightarrow> nat \<Rightarrow> bool \<Rightarrow> s3_state \<Rightarrow> unit loop_exit \<times> s3_state" where
  "createBucketLoop w infra i generatedName s =
     (if i < 5000 then
        (case nameBucket w infra i generatedName s of
           None \<Rightarrow> (LoopPanic ''slice bounds out of range'', s)
         | Some (generatedName1, s1) \<Rightarrow>
             (let err = CreateBucket w i (Bucket (dConfig s1));
                  s2 = called ''CreateBucket'' err s1
              in case err of
                   Some e \<Rightarrow>
                     (case awsCode e of
                        Some code \<Rightarrow>
                          if code = ErrCodeBucketAlreadyExists then
                            if Bucket (dConfig s2) \<noteq> [] \<and> \<not> generatedName1 then
                              (LoopEnd (),
                               bucketCreated w
                                 (updateCondition (Now w) StorageExists ConditionFalse
                                    ''Unable to Access Bucket''
                                    ''The bucket exists, but we do not have permission to access it''
                                    s2))
                            else
                              createBucketLoop w infra (i + 1) generatedName1
                                (s2\<lparr>dConfig := (dConfig s2)\<lparr>Bucket := []\<rparr>\<rparr>)
                          else
                            (LoopReturn e,
                             updateCondition (Now w) StorageExists ConditionFalse code (Error e) s2)
                      | None \<Rightarrow> (LoopEnd (), bucketCreated w s2))
                 | None \<Rightarrow> (LoopEnd (), bucketCreated w s2)))
      else (LoopEnd (), s))"
  by pat_completeness auto
termination
  by (relation "measure (\<lambda>(w, infra, i, generatedName, s). 5000 - i)") auto

declare createBucketLoop.simps [simp del]

definition ServerSideEncryptionAwsKms :: string where
  "ServerSideEncryptionAwsKms = ''aws:kms''"

definition ServerSideEncryptionAes256 :: string where
  "ServerSideEncryptionAes256 = ''AES256''"

text \<open>A failed hardening step: the condition of the step, by the kind of the error.\<close>

definition stepFailed :: "s3_world \<Rightarrow> string \<Rightarrow> error \<Rightarrow> s3_state \<Rightarrow> s3_state" where
  "stepFailed w conditionType e s =
     (case awsCode e of
        Some code \<Rightarrow> updateCondition (Now w) conditionType ConditionFalse code (Error e) s
      | None \<Rightarrow>
          updateCondition (Now w) conditionType ConditionFalse ''Unknown Error Occurred''
            (Error e) s)"

definition blockPublicAccess :: "s3_world \<Rightarrow> s3_state \<Rightarrow> s3_state" where
  "blockPublicAccess w s =
     (if StorageManaged (Status (cr s)) then
        (let err = PutPublicAccessBlock w (Bucket (dConfig s));
             s1 = called ''PutPublicAccessBlock'' err s
         in case err of
              Some e \<Rightarrow> stepFailed w StoragePublicAccessBlocked e s1
            | None \<Rightarrow>
                (let s2 = updateCondition (Now w) StoragePublicAccessBlocked ConditionTrue
                            ''Public Access Block Successful''
                            ''Public access to the S3 bucket and its contents have been successfully blocked.''
                            s1;
                     s3 = writeStatusS3 (Some (dConfig s2)) s2
                 in writeSpecS3 (Some (dConfig s3)) s3))
      else s)"

definition tagBucket :: "s3_world \<Rightarrow> Infrastructure \<Rightarrow> s3_state \<Rightarrow> s3_state" where
  "tagBucket w infra s =
     (if StorageManaged (Status (cr s)) then
        (let err = PutBucketTagging w (Bucket (dConfig s))
                     (''kubernetes.io/cluster/'' @ InfrastructureName infra);
             s1 = called ''PutBucketTagging'' err s
         in case err of
              Some e \<Rightarrow> stepFailed w StorageTagged e s1
            | None \<Rightarrow>
                updateCondition (Now w) StorageTagged ConditionTrue ''Tagging Successful''
                  ''Tags were successfully applied to the S3 bucket'' s1)
      else s)"

definition encryptBucket :: "s3_world \<Rightarrow> s3_state \<Rightarrow> s3_state" where
  "encryptBucket w s =
     (if StorageManaged (Status (cr s)) then
        (let encryptionType = (if length (KeyID (dConfig s)) \<noteq> 0
                               then ServerSideEncryptionAwsKms else ServerSideEncryptionAes256);
             err = PutBucketEncryption w (Bucket (dConfig s)) encryptionType (KeyID (dConfig s));
             s1 = called ''PutBucketEncryption'' err s
         in case err of
              Some e \<Rightarrow> stepFailed w StorageEncrypted e s1
            | None \<Rightarrow>
                (let s2 = updateCondition (Now w) StorageEncrypted ConditionTrue
                            ''Encryption Successful''
                            (''Default '' @ encryptionType
                             @ '' encryption was successfully enabled on the S3 bucket'') s1;
                     s3 = s2\<lparr>dConfig := (dConfig s2)\<lparr>Encrypt := True\<rparr>\<rparr>;
                     s4 = writeStatusS3 (Some (dConfig s3)) s3
                 in writeSpecS3 (Some (dConfig s4)) s4))
      else
        (if S3 (StatusStorage (Status (cr s))) \<noteq> Some (dConfig s)
         then writeStatusS3 (Some (dConfig s)) s else s))"

definition enableUploadCleanup :: "s3_world \<Rightarrow> s3_state \<Rightarrow> s3_state" where
  "enableUploadCleanup w s =
     (if StorageManaged (Status (cr s)) then
        (let err = PutBucketLifecycleConfiguration w (Bucket (dConfig s));
             s1 = called ''PutBucketLifecycleConfiguration'' err s
         in case err of
              Some e \<Rightarrow> stepFailed w StorageIncompleteUploadCleanupEnabled e s1
            | None \<Rightarrow>
                updateCondition (Now w) StorageIncompleteUploadCleanupEnabled ConditionTrue
                  ''Enable Cleanup Successful''
                  ''Default cleanup of incomplete multipart uploads after one (1) day was successfully enabled''
                  s1)
      else s)"

text \<open>\<open>CreateStorage\<close> from \<open>svc.WaitUntilBucketExists\<close> on.\<close>

definition s3_CreateStorage_wait ::
  "s3_world \<Rightarrow> Infrastructure \<Rightarrow> s3_state \<Rightarrow> (error option \<times> s3_state) outcome" where
  "s3_CreateStorage_wait w infra s =
     (let err = WaitUntilBucketExists w (Bucket (dConfig s));
          s1 = called ''WaitUntilBucketExists'' err s
      in case err of
           Some e \<Rightarrow>
             Return (Some e,
               (case awsCode e of
                  Some code \<Rightarrow>
                    updateCondition (Now w) StorageExists ConditionFalse code (Error e) s1
                | None \<Rightarrow> s1))
         | None \<Rightarrow>
             Return (None,
               enableUploadCleanup w (encryptBucket w (tagBucket w infra (blockPublicAccess w s1)))))"

text \<open>The branch of \<open>CreateStorage\<close> that runs the creation loop.\<close>

definition s3_CreateStorage_create ::
  "s3_world \<Rightarrow> Infrastructure \<Rightarrow> s3_state \<Rightarrow> (error option \<times> s3_state) outcome" where
  "s3_CreateStorage_create w infra s =
     (case createBucketLoop w infra 0 False s of
        (LoopPanic m, s1) \<Rightarrow> GoPanic m
      | (LoopReturn err, s1) \<Rightarrow> Return (Some err, s1)
      | (LoopEnd u, s1) \<Rightarrow>
          if length (Bucket (dConfig s1)) = 0 then
            Return (Some (errorString ''unable to generate a unique s3 bucket name''),
              updateCondition (Now w) StorageExists ConditionFalse
                ''Unable to Generate Unique Bucket Name'' [] s1)
          else s3_CreateStorage_wait w infra s1)"

definition s3_CreateStorage ::
  "s3_world \<Rightarrow> ImageRegistryConfigStorageS3 \<Rightarrow> Config \<Rightarrow>
   (error option \<times> s3_state) outcome" where
  "s3_CreateStorage w d c =
     (let s = enter d c in
      case getS3Service w s of
        GoPanic m \<Rightarrow> GoPanic m
      | Return (Some err, s1) \<Rightarrow> Return (Some err, s1)
      | Return (None, s1) \<Rightarrow>
          (case GetInfrastructure w of
             Inl err \<Rightarrow> Return (Some err, s1)
           | Inr infra \<Rightarrow>
               if length (Bucket (dConfig s1)) \<noteq> 0 then
                 (case bucketExists w (Bucket (dConfig s1)) s1 of
                    GoPanic m \<Rightarrow> GoPanic m
                  | Return (Some err, s2) \<Rightarrow>
                      (case awsCode err of
                         Some code \<Rightarrow>
                           if isMissingBucketCode code then
                             s3_CreateStorage_create w infra
                               (updateCondition (Now w) StorageExists ConditionFalse code
                                  (Error err) s2)
                           else
                             Return (Some err,
                               updateCondition (Now w) StorageExists ConditionUnknown
                                 ''Unknown Error Occurred'' (Error err) s2)
                       | None \<Rightarrow>
                           Return (Some err,
                             updateCondition (Now w) StorageExists ConditionUnknown
                               ''Unknown Error Occurred'' (Error err) s2))
                  | Return (None, s2) \<Rightarrow>
                      s3_CreateStorage_wait w infra
                        (updateCondition (Now w) StorageExists ConditionTrue ''S3 Bucket Exists''
                           ''User supplied S3 bucket exists and is accessible''
                           (writeStatusS3 (Some (dConfig s2)) s2)))
               else s3_CreateStorage_create w infra s1))"

subsection \<open>RemoveStorage\<close>

definition s3_RemoveStorage ::
  "s3_world \<Rightarrow> ImageRegistryConfigStorageS3 \<Rightarrow> Config \<Rightarrow>
   ((bool \<times> error option) \<times> s3_state) outcome" where
  "s3_RemoveStorage w d c =
     (let s = enter d c in
      if \<not> StorageManaged (Status (cr s)) \<or> length (Bucket (dConfig s)) = 0
      then Return ((False, None), s)
      else
        (case getS3Service w s of
           GoPanic m \<Rightarrow> GoPanic m
         | Return (Some err, s1) \<Rightarrow> Return ((False, Some err), s1)
         | Return (None, s1) \<Rightarrow>
             (let err = DeleteBucket w (Bucket (dConfig s1));
                  s2 = called ''DeleteBucket'' err s1
              in case err of
                   Some e \<Rightarrow>
                     (case awsCode e of
                        Some code \<Rightarrow>
                          if code = ErrCodeNoSuchBucket then
                            Return ((False, None),
                              updateCondition (Now w) StorageExists ConditionFalse
                                ''S3 Bucket Deleted'' ''The S3 bucket did not exist.'' s2)
                          else
                            Return ((False, Some e),
                              updateCondition (Now w) StorageExists ConditionUnknown code
                                (Error e) s2)
                      | None \<Rightarrow> Return ((True, Some e), s2))
                 | None \<Rightarrow>
                     (let err = WaitUntilBucketNotExists w (Bucket (dConfig s2));
                          s3 = called ''WaitUntilBucketNotExists'' err s2
                      in case err of
                           Some e \<Rightarrow>
                             Return ((False, Some e),
                               (case awsCode e of
                                  Some code \<Rightarrow>
                                    updateCondition (Now w) StorageExists ConditionTrue code
                                      (Error e) s3
                                | None \<Rightarrow> s3))
                         | None \<Rightarrow>
                             (case S3 (SpecStorage (Spec (cr s3))) of
                                None \<Rightarrow> GoPanic ''nil pointer dereference''
                              | Some sp \<Rightarrow>
                                  (let s4 = (if length (Bucket sp) \<noteq> 0
                                             then writeSpecS3 (Some (sp\<lparr>Bucket := []\<rparr>)) s3
                                             else s3);
                                       s5 = s4\<lparr>dConfig := (dConfig s4)\<lparr>Bucket := []\<rparr>\<rparr>;
                                       s6 = (if S3 (StatusStorage (Status (cr s5)))
                                                 \<noteq> Some (dConfig s5)
                                             then writeStatusS3 (Some (dConfig s5)) s5 else s5)
                                   in Return ((False, None),
                                        updateCondition (Now w) StorageExists ConditionFalse
                                          ''S3 Bucket Deleted'' ''The S3 bucket has been removed.''
                                          s6)))))))"

section \<open>Controller\<close>

record Proxy =
  NoProxy :: string
  HTTPProxy :: string
  HTTPSProxy :: string

text \<open>
  What \<open>sync\<close> calls outside controller.go: the listers
  (\<open>'dep\<close> is the deployment object), \<open>os.Setenv\<close>, the clientset constructor and its
  two writes, and the functions of the operator and of pkg/resource that are not among
  the sources (\<open>Bootstrap\<close>, \<open>finalizeResources\<close>, \<open>RemoveResources\<close>, \<open>appendFinalizer\<close>,
  \<open>verifyResource\<close>, \<open>generator.Apply\<close>, \<open>generator.ApplyClusterOperator\<close>, \<open>syncStatus\<close>,
  \<open>strategy.Metadata\<close>). A function that receives \<open>cr\<close> by pointer and works on it returns
  the resource as it leaves it.
\<close>

record 'dep controller_world =
  ProxyConfigsGet :: "error + Proxy"
  Setenv :: "string \<Rightarrow> string \<Rightarrow> error option"
  RegistryConfigsGet :: "error + Config"
  Bootstrap :: "error option"
  finalizeResources :: "Config \<Rightarrow> Config \<times> error option"
  ApplyClusterOperator :: "Config \<Rightarrow> error option"
  RemoveResources :: "Config \<Rightarrow> Config \<times> error option"
  appendFinalizer :: "Config \<Rightarrow> Config"
  verifyResource :: "Config \<Rightarrow> Config \<times> error option"
  generatorApply :: "Config \<Rightarrow> Config \<times> error option"
  DeploymentsGet :: "error + 'dep"
  syncStatus :: "Config \<Rightarrow> 'dep option \<Rightarrow> error option \<Rightarrow> bool \<Rightarrow> Config"
  strategyMetadata :: "ObjectMeta \<Rightarrow> ObjectMeta \<Rightarrow> bool"
  NewForConfig :: "error option"
  clientUpdate :: "Config \<Rightarrow> error + Config"
  clientUpdateStatus :: "Config \<Rightarrow> error + Config"

definition ImageRegistryResourceName :: string where
  "ImageRegistryResourceName = ''cluster''"

definition Removed :: string where
  "Removed = ''Removed''"

definition Managed :: string where
  "Managed = ''Managed''"

definition Unmanaged :: string where
  "Unmanaged = ''Unmanaged''"

definition createOrUpdateResources :: "'dep controller_world \<Rightarrow> Config \<Rightarrow> Config \<times> error option" where
  "createOrUpdateResources w c =
     (let c1 = appendFinalizer w c
      in case verifyResource w c1 of
           (c2, Some err) \<Rightarrow>
             (c2, Some (newPermanentError ''VerificationFailed''
                    (errorString (''unable to complete resource: '' @ Error err))))
         | (c2, None) \<Rightarrow>
             (case generatorApply w c2 of
                (c3, err) \<Rightarrow>
                  if err = Some ErrStorageNotConfigured then
                    (c3, Some (newPermanentError ''StorageNotConfigured'' ErrStorageNotConfigured))
                  else if err \<noteq> None then (c3, err)
                  else (c3, None)))"

text \<open>
  The \<open>switch cr.Spec.ManagementState\<close> of \<open>sync\<close>: the resource, \<open>applyError\<close> and
  \<open>removed\<close> behind it.
\<close>

definition applyManagementState ::
  "'dep controller_world \<Rightarrow> Config \<Rightarrow> Config \<times> error option \<times> bool" where
  "applyManagementState w c =
     (if ManagementState (Spec c) = Removed then
        (case RemoveResources w c of (c1, err) \<Rightarrow> (c1, err, True))
      else if ManagementState (Spec c) = Managed then
        (case createOrUpdateResources w c of (c1, err) \<Rightarrow> (c1, err, False))
      else (c, None, False))"

text \<open>
  The two writes of \<open>sync\<close> to the registry resource, with the object each call sends, in
  the order of the calls.
\<close>

datatype api_write = Update Config | UpdateStatus Config

text \<open>\<open>sync\<close> from \<open>metadataChanged := ...\<close> to the \<open>Update\<close> call: an error to return, or
  the resource to go on with.\<close>

definition persistSpec ::
  "'dep controller_world \<Rightarrow> Config \<Rightarrow> Config \<Rightarrow> (error + Config) \<times> api_write list" where
  "persistSpec w prevCR c =
     (let metadataChanged = strategyMetadata w (Meta prevCR) (Meta c);
          specChanged = (Spec prevCR \<noteq> Spec c)
      in if metadataChanged \<or> specChanged then
           (case NewForConfig w of
              Some err \<Rightarrow> (Inl err, [])
            | None \<Rightarrow>
                (case clientUpdate w c of
                   Inl err \<Rightarrow> (Inl err, [Update c])
                 | Inr updatedCR \<Rightarrow>
                     (Inr (c\<lparr>Meta := (Meta c)\<lparr>ResourceVersion :=
                              ResourceVersion (Meta updatedCR)\<rparr>\<rparr>),
                      [Update c])))
         else (Inr c, []))"

text \<open>\<open>sync\<close> from \<open>cr.Status.ObservedGeneration = cr.Generation\<close> to the \<open>UpdateStatus\<close>
  call: the error to return, if any.\<close>

definition persistStatus ::
  "'dep controller_world \<Rightarrow> Config \<Rightarrow> Config \<Rightarrow> error option \<times> api_write list" where
  "persistStatus w prevCR c =
     (let c1 = c\<lparr>Status := (Status c)\<lparr>ObservedGeneration := Generation (Meta c)\<rparr>\<rparr>;
          statusChanged = (Status prevCR \<noteq> Status c1)
      in if statusChanged then
           (case NewForConfig w of
              Some err \<Rightarrow> (Some err, [])
            | None \<Rightarrow>
                (case clientUpdateStatus w c1 of
                   Inl err \<Rightarrow> (Some err, [UpdateStatus c1])
                 | Inr u \<Rightarrow> (None, [UpdateStatus c1])))
         else (None, []))"

text \<open>\<open>sync\<close> behind \<open>c.syncStatus\<close>.\<close>

definition persist ::
  "'dep controller_world \<Rightarrow> Config \<Rightarrow> Config \<Rightarrow> error option \<Rightarrow> error option \<times> api_write list" where
  "persist w prevCR c applyError =
     (case persistSpec w prevCR c of
        (Inl err, ws) \<Rightarrow> (Some err, ws)
      | (Inr c1, ws) \<Rightarrow>
          (case persistStatus w prevCR c1 of
             (Some err, ws1) \<Rightarrow> (Some err, ws @ ws1)
           | (None, ws1) \<Rightarrow>
               if \<not> isPermanentError applyError then (applyError, ws @ ws1)
               else (None, ws @ ws1)))"

text \<open>
  The lookup of the deployment in \<open>sync\<close>: \<open>nil\<close> when it is not found, the error that
  \<open>sync\<close> returns for any other failure.
\<close>

definition getDeployment :: "'dep controller_world \<Rightarrow> error + 'dep option" where
  "getDeployment w =
     (case DeploymentsGet w of
        Inl err \<Rightarrow>
          if IsNotFound err then Inr None
          else Inl (errorString (''failed to get '' @ goQuote ImageRegistryName
                 @ '' deployment: '' @ Error err))
      | Inr deploy \<Rightarrow> Inr (Some deploy))"

text \<open>\<open>sync\<close> behind the lookup of the registry resource (\<open>cr\<close> and \<open>prevCR\<close> are deep
  copies of the cached object).\<close>

definition syncResource :: "'dep controller_world \<Rightarrow> Config \<Rightarrow> error option \<times> api_write list" where
  "syncResource w cached =
     (let c = cached; prevCR = cached
      in if DeletionTimestamp (Meta c) \<noteq> None then
           (case finalizeResources w c of
              (c1, err) \<Rightarrow> (let genErr = ApplyClusterOperator w c1 in (err, [])))
         else
           (case applyManagementState w c of
              (c1, applyError, removed) \<Rightarrow>
                (case getDeployment w of
                   Inl err \<Rightarrow> (Some err, [])
                 | Inr deploy \<Rightarrow>
                     persist w prevCR (syncStatus w c1 deploy applyError removed) applyError)))"

text \<open>The proxy configuration of \<open>sync\<close>: the lookup, then the three environment variables.\<close>

definition setProxy :: "'dep controller_world \<Rightarrow> error option" where
  "setProxy w =
     (case (case ProxyConfigsGet w of
              Inl err \<Rightarrow>
                if IsNotFound err then Inr \<lparr>NoProxy = [], HTTPProxy = [], HTTPSProxy = []\<rparr>
                else Inl (errorString (''unable to get cluster proxy configuration: ''
                       @ Error err))
            | Inr p \<Rightarrow> Inr p) of
        Inl e \<Rightarrow> Some e
      | Inr proxyConfig \<Rightarrow>
          (case Setenv w ''NO_PROXY'' (NoProxy proxyConfig) of
             Some err \<Rightarrow> Some (errorString (''unable to set NO_PROXY env var: '' @ Error err))
           | None \<Rightarrow>
               (case Setenv w ''HTTP_PROXY'' (HTTPProxy proxyConfig) of
                  Some err \<Rightarrow>
                    Some (errorString (''unable to set HTTP_PROXY env var: '' @ Error err))
                | None \<Rightarrow>
                    (case Setenv w ''HTTPS_PROXY'' (HTTPSProxy proxyConfig) of
                       Some err \<Rightarrow>
                         Some (errorString (''unable to set HTTPS_PROXY env var: '' @ Error err))
                     | None \<Rightarrow> None))))"

definition sync :: "'dep controller_world \<Rightarrow> error option \<times> api_write list" where
  "sync w =
     (case setProxy w of
        Some e \<Rightarrow> (Some e, [])
      | None \<Rightarrow>
          (case RegistryConfigsGet w of
             Inl err \<Rightarrow>
               if IsNotFound err then (Bootstrap w, [])
               else
                 (Some (errorString (''failed to get '' @ goQuote ImageRegistryResourceName
                    @ '' registry operator resource: '' @ Error err)), [])
           | Inr cached \<Rightarrow> syncResource w cached))"

text \<open>
  One turn of \<open>eventProcessor\<close> for an object taken from the work queue
  (\<open>isString\<close>: the object is a string): what it tells the queue.
\<close>

datatype queue_op = Forget | AddRateLimited | Done

definition processEvent :: "'dep controller_world \<Rightarrow> bool \<Rightarrow> queue_op list" where
  "processEvent w isString =
     (if \<not> isString then [Forget, Done]
      else
        (case fst (sync w) of
           Some err \<Rightarrow> [AddRateLimited, Done]
         | None \<Rightarrow> [Forget, Done]))"

section \<open>Example environments of the controller\<close>

definition exampleResource :: Config where
  "exampleResource =
     \<lparr>Meta = \<lparr>Generation = 2, ResourceVersion = ''41'', DeletionTimestamp = None,
              Finalizers = []\<rparr>,
      Spec = \<lparr>ManagementState = ''Managed'', SpecStorage = \<lparr>Azure = None, S3 = None\<rparr>\<rparr>,
      Status = \<lparr>StorageManaged = False, StatusStorage = \<lparr>Azure = None, S3 = None\<rparr>,
                Conditions = [], ObservedGeneration = 1\<rparr>\<rparr>"

text \<open>
  A cluster without proxy configuration and without deployment, whose registry resource
  fails verification; the finalizer is new, and both writes succeed.
\<close>

definition exampleController :: "unit controller_world" where
  "exampleController =
     \<lparr>ProxyConfigsGet = Inl (StatusError ''NotFound'' ''proxy cluster not found''),
      Setenv = (\<lambda>k v. None),
      RegistryConfigsGet = Inr exampleResource,
      Bootstrap = None,
      finalizeResources = (\<lambda>c. (c, None)),
      ApplyClusterOperator = (\<lambda>c. None),
      RemoveResources = (\<lambda>c. (c, None)),
      appendFinalizer = (\<lambda>c. c\<lparr>Meta := (Meta c)\<lparr>Finalizers := [''finalizer'']\<rparr>\<rparr>),
      verifyResource = (\<lambda>c. (c, Some (errorString ''replicas must not be negative''))),
      generatorApply = (\<lambda>c. (c, None)),
      DeploymentsGet = Inl (StatusError ''NotFound'' ''deployment image-registry not found''),
      syncStatus = (\<lambda>c deploy applyError removed. c),
      strategyMetadata = (\<lambda>old new. Finalizers old \<noteq> Finalizers new),
      NewForConfig = None,
      clientUpdate = (\<lambda>c. Inr (c\<lparr>Meta := (Meta c)\<lparr>ResourceVersion := ''42''\<rparr>\<rparr>)),
      clientUpdateStatus = (\<lambda>c. Inr c)\<rparr>"

text \<open>The same cluster when the deployment lister fails.\<close>

definition brokenDeploymentLister :: "unit controller_world" where
  "brokenDeploymentLister =
     exampleController\<lparr>DeploymentsGet := Inl (errorString ''connection refused'')\<rparr>"

text \<open>The same cluster when the \<open>Update\<close> call meets a newer version of the resource.\<close>

definition updateConflict :: "unit controller_world" where
  "updateConflict =
     exampleController\<lparr>clientUpdate := (\<lambda>c. Inl (StatusError ''Conflict''
       ''the object has been modified; please apply your changes to the latest version and try again''))\<rparr>"

text \<open>The same cluster when no client can be made from the configuration.\<close>

definition noClient :: "unit controller_world" where
  "noClient =
     exampleController\<lparr>NewForConfig := Some (errorString ''unable to load configuration'')\<rparr>"

text \<open>
  The same cluster with a resource that passes verification, when \<open>Apply\<close> fails, and when
  \<open>Apply\<close> reports that no storage is configured.
\<close>

definition applyFails :: "unit controller_world" where
  "applyFails =
     exampleController\<lparr>verifyResource := (\<lambda>c. (c, None)),
       generatorApply := (\<lambda>c. (c, Some (errorString ''unable to apply objects'')))\<rparr>"

definition storageMissing :: "unit controller_world" where
  "storageMissing =
     exampleController\<lparr>verifyResource := (\<lambda>c. (c, None)),
       generatorApply := (\<lambda>c. (c, Some ErrStorageNotConfigured))\<rparr>"

section \<open>Observations\<close>

text \<open>The condition of a type has this status, reason and message.\<close>

definition conditionIs ::
  "Config \<Rightarrow> string \<Rightarrow> ConditionStatus \<Rightarrow> string \<Rightarrow> string \<Rightarrow> bool" where
  "conditionIs c conditionType status reason message =
     (case findCondition c conditionType of
        None \<Rightarrow> False
      | Some x \<Rightarrow> condStatus x = status \<and> condReason x = reason \<and> condMessage x = message)"

text \<open>The provider operations of a log.\<close>

fun isProviderCall :: "event \<Rightarrow> bool" where
  "isProviderCall (ProviderCall name ok) = True"
| "isProviderCall e = False"

definition providerCalls :: "event list \<Rightarrow> event list" where
  "providerCalls tr = filter isProviderCall tr"








section \<open>Example environments of the drivers\<close>

definition notFound :: error where
  "notFound = StatusError ''NotFound'' ''not found''"

definition exampleInfrastructure :: Infrastructure where
  "exampleInfrastructure =
     \<lparr>InfrastructureName = ''mycluster-x7k2p'',
      platformStatus = Some \<lparr>platformType = ''AWS'', AWSRegion = Some ''us-east-1''\<rparr>\<rparr>"

text \<open>
  The configuration that the minted credentials of the example cluster give, and an
  authorizer as that of the client credentials: it is refused when the client id, the
  client secret or the tenant is empty.
\<close>

definition mintedCredentials :: azure_Azure where
  "mintedCredentials =
     \<lparr>SubscriptionID = ''sub-0001'', ClientID = ''client-0001'', ClientSecret = ''c2VjcmV0'',
      TenantID = ''tenant-0001'', ResourceGroup = ''rg'', azureRegion = ''westeurope'',
      AccountKey = []\<rparr>"

definition clientCredentialsAuthorizer :: "azure_Azure \<Rightarrow> error option" where
  "clientCredentialsAuthorizer cfg =
     (if ClientID cfg = [] \<or> ClientSecret cfg = [] \<or> TenantID cfg = []
      then Some (errorString ''failed to get oauth token from client credentials'')
      else None)"

text \<open>
  A cluster with minted Azure credentials and no user secret, where every storage
  account name is taken.
\<close>

definition azureNamesTaken :: azure_world where
  "azureNamesTaken =
     \<lparr>Now = 7,
      SecretsGet = (\<lambda>name.
        if name = CloudCredentialsName then
          Inr \<lparr>secretNamespace = ''openshift-image-registry'', secretName = name,
               Data = [''azure_subscription_id'' \<mapsto> ''sub-0001'',
                       ''azure_client_id'' \<mapsto> ''client-0001'',
                       ''azure_client_secret'' \<mapsto> ''c2VjcmV0'',
                       ''azure_tenant_id'' \<mapsto> ''tenant-0001'',
                       ''azure_resourcegroup'' \<mapsto> ''rg'',
                       ''azure_region'' \<mapsto> ''westeurope'']\<rparr>
        else Inl notFound),
      GetInfrastructure = Inr exampleInfrastructure,
      Authorizer = clientCredentialsAuthorizer,
      randString = (\<lambda>i. ''bcdfg''),
      CheckNameAvailability = (\<lambda>i name. Inr (False, ''already taken'')),
      AccountsCreate = (\<lambda>i rg name location. None),
      WaitForCompletionRef = (\<lambda>i name. None),
      FutureResult = (\<lambda>i name. None),
      ListKeys = (\<lambda>rg name. Inr [''a2V5'']),
      NewSharedKeyCredential = (\<lambda>name key. None),
      urlParse = (\<lambda>u. None),
      ContainerCreate = (\<lambda>name key container. None),
      ContainerDelete = (\<lambda>name key container. None),
      ContainerGetProperties = (\<lambda>name key container. None),
      AccountsDelete = (\<lambda>rg name. None)\<rparr>"

text \<open>The same cluster with a user secret that holds an account key.\<close>

definition azureUserKey :: azure_world where
  "azureUserKey =
     azureNamesTaken\<lparr>SecretsGet := (\<lambda>name.
        if name = ImageRegistryPrivateConfigurationUser then
          Inr \<lparr>secretNamespace = ''openshift-image-registry'', secretName = name,
               Data = [''REGISTRY_STORAGE_AZURE_ACCOUNTKEY'' \<mapsto> ''a2V5'']\<rparr>
        else Inl notFound)\<rparr>"

definition userAccount :: ImageRegistryConfigStorageAzure where
  "userAccount = \<lparr>AccountName = ''registry'', Container = ''images''\<rparr>"

definition noAccount :: ImageRegistryConfigStorageAzure where
  "noAccount = \<lparr>AccountName = [], Container = []\<rparr>"

text \<open>
  A cluster with minted AWS credentials and no user secret, where every bucket name is
  taken.
\<close>

definition s3NamesTaken :: s3_world where
  "s3NamesTaken =
     \<lparr>Now = 7,
      SecretsGet = (\<lambda>name.
        if name = CloudCredentialsName then
          Inr \<lparr>secretNamespace = ''openshift-image-registry'', secretName = name,
               Data = [''aws_access_key_id'' \<mapsto> ''AKIA'', ''aws_secret_access_key'' \<mapsto> ''c2VjcmV0'']\<rparr>
        else Inl notFound),
      GetInfrastructure = Inr exampleInfrastructure,
      NewSession = None,
      HeadBucket = (\<lambda>name. Some (awserrError ''Forbidden'' ''Forbidden: access denied'')),
      NewUUID = (\<lambda>i. ''123e4567-e89b-12d3-a456-426614174000''),
      CreateBucket = (\<lambda>i name.
        Some (awserrError ''BucketAlreadyExists''
          ''BucketAlreadyExists: the requested bucket name is not available'')),
      WaitUntilBucketExists = (\<lambda>name. None),
      PutPublicAccessBlock = (\<lambda>name. None),
      PutBucketTagging = (\<lambda>name tag. None),
      PutBucketEncryption = (\<lambda>name algorithm key. None),
      PutBucketLifecycleConfiguration = (\<lambda>name. None),
      DeleteBucket = (\<lambda>name. None),
      WaitUntilBucketNotExists = (\<lambda>name. None)\<rparr>"

definition noBucket :: ImageRegistryConfigStorageS3 where
  "noBucket =
     \<lparr>Bucket = [], Region = [], RegionEndpoint = [], Encrypt = False, KeyID = [],
      CloudFront = None\<rparr>"

definition userBucket :: ImageRegistryConfigStorageS3 where
  "userBucket = noBucket\<lparr>Bucket := ''my-registry-bucket'', Region := ''us-east-1''\<rparr>"

text \<open>The example resource with the user's bucket in its spec and nothing in its status.\<close>

definition bucketResource :: Config where
  "bucketResource =
     exampleResource\<lparr>Spec := (Spec exampleResource)\<lparr>SpecStorage :=
       \<lparr>Azure = None, S3 = Some userBucket\<rparr>\<rparr>\<rparr>"


section \<open>Attempts of the creation loops\<close>

text \<open>What the j-th iteration of the account loop of \<open>CreateStorage\<close> gets from
  \<open>createStorageAccount\<close>.\<close>

definition accountAttempt ::
  "azure_world \<Rightarrow> azure_Azure \<Rightarrow> Infrastructure \<Rightarrow> nat \<Rightarrow> error option" where
  "accountAttempt w cfg infra j =
     createStorageAccount w j (ResourceGroup cfg)
       (generateAccountName (InfrastructureName infra) (randString w j)) (azureRegion cfg)"

text \<open>The example cluster of the S3 driver when the provider words its refusal differently.\<close>

definition s3NamesTakenToo :: s3_world where
  "s3NamesTakenToo =
     s3NamesTaken\<lparr>CreateBucket := (\<lambda>i name.
        Some (awserrError ''BucketAlreadyExists'' ''BucketAlreadyExists: try another name''))\<rparr>"

section \<open>More example environments\<close>





definition managedAccountResource :: Config where
  "managedAccountResource =
     exampleResource\<lparr>
       Spec := (Spec exampleResource)\<lparr>SpecStorage := \<lparr>Azure = Some userAccount, S3 = None\<rparr>\<rparr>,
       Status := (Status exampleResource)\<lparr>StorageManaged := True,
         StatusStorage := \<lparr>Azure = Some userAccount, S3 = None\<rparr>\<rparr>\<rparr>"



text \<open>
  Clusters where the first two names are taken and the third is free, and where the
  second attempt fails for another reason; every attempt draws its own random string.
\<close>

definition azureThirdFree :: azure_world where
  "azureThirdFree =
     azureNamesTaken\<lparr>
       randString := (\<lambda>i. if i = 0 then ''bcdfg'' else if i = 1 then ''hjklm'' else ''npqrs''),
       CheckNameAvailability := (\<lambda>i name.
         if i < 2 then Inr (False, ''already taken'') else Inr (True, []))\<rparr>"

definition azureSecondFails :: azure_world where
  "azureSecondFails =
     azureNamesTaken\<lparr>
       randString := (\<lambda>i. if i = 0 then ''bcdfg'' else if i = 1 then ''hjklm'' else ''npqrs''),
       CheckNameAvailability := (\<lambda>i name.
         if i < 1 then Inr (False, ''already taken'')
         else Inl (errorString ''too many requests''))\<rparr>"

definition s3ThirdFree :: s3_world where
  "s3ThirdFree =
     s3NamesTaken\<lparr>
       NewUUID := (\<lambda>i. if i = 0 then ''123e4567-e89b-12d3-a456-426614174000''
                       else if i = 1 then ''223e4567-e89b-12d3-a456-426614174001''
                       else ''323e4567-e89b-12d3-a456-426614174002''),
       CreateBucket := (\<lambda>i name.
         if i < 2 then
           Some (awserrError ''BucketAlreadyExists''
             ''BucketAlreadyExists: the requested bucket name is not available'')
         else None)\<rparr>"

definition s3SecondDenied :: s3_world where
  "s3SecondDenied =
     s3NamesTaken\<lparr>
       NewUUID := (\<lambda>i. if i = 0 then ''123e4567-e89b-12d3-a456-426614174000''
                       else if i = 1 then ''223e4567-e89b-12d3-a456-426614174001''
                       else ''323e4567-e89b-12d3-a456-426614174002''),
       CreateBucket := (\<lambda>i name.
         if i < 1 then
           Some (awserrError ''BucketAlreadyExists''
             ''BucketAlreadyExists: the requested bucket name is not available'')
         else Some (awserrError ''AccessDenied'' ''AccessDenied: Access Denied''))\<rparr>"

section \<open>The state of a driver\<close>

lemma find_appended:
  "t \<notin> set (map condType cs) \<Longrightarrow>
   find (\<lambda>c. condType c = t) (cs @ [x]) = find (\<lambda>c. condType c = t) [x]"
  by (induction cs) auto

lemma find_merged:
  "t \<in> set (map condType cs) \<Longrightarrow>
   \<exists>x. find (\<lambda>c. condType c = t)
       (map (\<lambda>c. if condType c = t then mergeCondition now st r m c else c) cs) = Some x \<and>
       condStatus x = st \<and> condReason x = r \<and> condMessage x = m"
  by (induction cs) (auto simp: mergeCondition_def)

lemma find_setCondition:
  "\<exists>x. find (\<lambda>c. condType c = t) (setCondition now t st r m cs) = Some x \<and>
       condStatus x = st \<and> condReason x = r \<and> condMessage x = m"
proof (cases "t \<in> set (map condType cs)")
  case False
  then show ?thesis
    using find_appended[OF False] by (simp add: setCondition_def)
next
  case True
  then show ?thesis
    using find_merged[OF True] by (simp add: setCondition_def)
qed

lemma conditionIs_UpdateCondition:
  "conditionIs (UpdateCondition now c t st r m) t st r m"
  using find_setCondition[of t now st r m "Conditions (Status c)"]
  by (auto simp: conditionIs_def findCondition_def UpdateCondition_def)

lemma UpdateCondition_frame:
  "Meta (UpdateCondition now c t st r m) = Meta c"
  "Spec (UpdateCondition now c t st r m) = Spec c"
  "StorageManaged (Status (UpdateCondition now c t st r m)) = StorageManaged (Status c)"
  "StatusStorage (Status (UpdateCondition now c t st r m)) = StatusStorage (Status c)"
  "ObservedGeneration (Status (UpdateCondition now c t st r m)) = ObservedGeneration (Status c)"
  by (simp_all add: UpdateCondition_def)

lemma updateCondition_simps:
  "cr (updateCondition now t st r m s) = UpdateCondition now (cr s) t st r m"
  "dConfig (updateCondition now t st r m s) = dConfig s"
  "trace (updateCondition now t st r m s) = ConditionUpdate t st r m # trace s"
  by (simp_all add: updateCondition_def)

lemma enter_simps:
  "cr (enter d c) = c" "dConfig (enter d c) = d" "trace (enter d c) = []"
  by (simp_all add: enter_def)

lemma called_simps:
  "cr (called n e s) = cr s" "dConfig (called n e s) = dConfig s"
  "trace (called n e s) = ProviderCall n (e = None) # trace s"
  by (simp_all add: called_def)

lemma setStorageManaged_simps:
  "cr (setStorageManaged b s) = (cr s)\<lparr>Status := (Status (cr s))\<lparr>StorageManaged := b\<rparr>\<rparr>"
  "dConfig (setStorageManaged b s) = dConfig s"
  "trace (setStorageManaged b s) = trace s"
  by (simp_all add: setStorageManaged_def)

lemma writeStatusAzure_simps:
  "cr (writeStatusAzure v s) = (cr s)\<lparr>Status := (Status (cr s))\<lparr>StatusStorage :=
           (StatusStorage (Status (cr s)))\<lparr>Azure := v\<rparr>\<rparr>\<rparr>"
  "dConfig (writeStatusAzure v s) = dConfig s"
  "trace (writeStatusAzure v s) = StatusStorageWrite # trace s"
  by (simp_all add: writeStatusAzure_def)

lemma writeStatusS3_simps:
  "cr (writeStatusS3 v s) = (cr s)\<lparr>Status := (Status (cr s))\<lparr>StatusStorage :=
           (StatusStorage (Status (cr s)))\<lparr>S3 := v\<rparr>\<rparr>\<rparr>"
  "dConfig (writeStatusS3 v s) = dConfig s"
  "trace (writeStatusS3 v s) = StatusStorageWrite # trace s"
  by (simp_all add: writeStatusS3_def)

lemma writeSpecS3_simps:
  "cr (writeSpecS3 v s) = (cr s)\<lparr>Spec := (Spec (cr s))\<lparr>SpecStorage :=
           (SpecStorage (Spec (cr s)))\<lparr>S3 := v\<rparr>\<rparr>\<rparr>"
  "dConfig (writeSpecS3 v s) = dConfig s"
  "trace (writeSpecS3 v s) = trace s"
  by (simp_all add: writeSpecS3_def)

lemma writeSpecAzure_simps:
  "cr (writeSpecAzure v s) = (cr s)\<lparr>Spec := (Spec (cr s))\<lparr>SpecStorage :=
           (SpecStorage (Spec (cr s)))\<lparr>Azure := v\<rparr>\<rparr>\<rparr>"
  "dConfig (writeSpecAzure v s) = dConfig s"
  "trace (writeSpecAzure v s) = trace s"
  by (simp_all add: writeSpecAzure_def)

lemma bucketCreated_simps:
  "dConfig (bucketCreated w s) = dConfig s"
  "trace (bucketCreated w s) =
     ConditionUpdate StorageExists ConditionTrue ''Creation Successful''
       ''S3 bucket was successfully created'' # StatusStorageWrite # trace s"
  "StorageManaged (Status (cr (bucketCreated w s))) = True"
  "S3 (StatusStorage (Status (cr (bucketCreated w s)))) = Some (dConfig s)"
  "S3 (SpecStorage (Spec (cr (bucketCreated w s)))) = Some (dConfig s)"
  "conditionIs (cr (bucketCreated w s)) StorageExists ConditionTrue ''Creation Successful''
     ''S3 bucket was successfully created''"
  by (simp_all add: bucketCreated_def Let_def updateCondition_simps writeSpecS3_simps
      writeStatusS3_simps setStorageManaged_simps UpdateCondition_frame
      conditionIs_UpdateCondition)

lemma getS3Service_frame:
  "getS3Service w s = Return (r, s1) \<Longrightarrow>
   cr s1 = cr s \<and> trace s1 = trace s \<and> Bucket (dConfig s1) = Bucket (dConfig s)"
  by (auto simp: getS3Service_def Let_def split: outcome.splits sum.splits option.splits
      if_splits)

lemma clearBucket_id: "Bucket r = [] \<Longrightarrow> r\<lparr>Bucket := []\<rparr> = r"
  by (cases r) simp

lemma generateBucketName_region:
  "Region (dConfig s') = Region (dConfig s) \<Longrightarrow>
   generateBucketName w infra j s' = generateBucketName w infra j s"
  by (simp add: generateBucketName_def)

section \<open>Facts about the example environments\<close>

lemma mintedCredentials_fields:
  "AccountKey mintedCredentials = []"
  "ResourceGroup mintedCredentials = ''rg''"
  "azureRegion mintedCredentials = ''westeurope''"
  "clientCredentialsAuthorizer mintedCredentials = None"
  by (simp_all add: mintedCredentials_def clientCredentialsAuthorizer_def)

lemma azureNamesTaken_fields:
  "Now azureNamesTaken = 7"
  "GetInfrastructure azureNamesTaken = Inr exampleInfrastructure"
  "Authorizer azureNamesTaken mintedCredentials = None"
  "randString azureNamesTaken i = ''bcdfg''"
  "CheckNameAvailability azureNamesTaken i name = Inr (False, ''already taken'')"
  "ListKeys azureNamesTaken rg name = Inr [''a2V5'']"
  "NewSharedKeyCredential azureNamesTaken name key = None"
  "urlParse azureNamesTaken u = None"
  "ContainerCreate azureNamesTaken name key container = None"
  "ContainerDelete azureNamesTaken name key container = None"
  "ContainerGetProperties azureNamesTaken name key container = None"
  "AccountsDelete azureNamesTaken rg name = None"
  by (simp_all add: azureNamesTaken_def clientCredentialsAuthorizer_def mintedCredentials_def)

lemma azureNamesTaken_config:
  "azure_GetConfig azureNamesTaken = Inr mintedCredentials"
  by (simp add: azure_GetConfig_def azureNamesTaken_def getAzureConfigFromCloudSecret_def
      dataString_def notFound_def IsNotFound_def ImageRegistryPrivateConfigurationUser_def
      CloudCredentialsName_def mintedCredentials_def)

lemma azureUserKey_config:
  "azure_GetConfig azureUserKey =
     Inr \<lparr>SubscriptionID = [], ClientID = [], ClientSecret = [], TenantID = [],
          ResourceGroup = [], azureRegion = [], AccountKey = ''a2V5''\<rparr>"
  by (simp add: azure_GetConfig_def azureUserKey_def azureNamesTaken_def
      getAzureConfigFromUserSecret_def GetValueFromSecret_def)

lemma azureNamesTaken_attempt:
  "accountAttempt azureNamesTaken cfg exampleInfrastructure j =
     Some (errNameNotAvailable ''myclusterx7k2pbcdfg'' ''already taken'')"
  by (simp add: accountAttempt_def createStorageAccount_def azureNamesTaken_fields
      exampleInfrastructure_def generateAccountName_def storageAccountInvalidChar_def
      digits_def upperLetters_def lowerLetters_def ToLower_def toLowerByte_def)

lemma s3NamesTaken_service_region:
  "getS3Service s3NamesTaken (enter noBucket exampleResource) = Return (None, ((enter noBucket exampleResource)\<lparr>dConfig := noBucket\<lparr>Region := ''us-east-1''\<rparr>\<rparr>))"
  by (simp add: getS3Service_def s3_GetConfig_def enter_def s3NamesTaken_def
      exampleInfrastructure_def AWSPlatformType_def notFound_def IsNotFound_def
      ImageRegistryPrivateConfigurationUser_def CloudCredentialsName_def noBucket_def)


lemma s3NamesTaken_fields:
  "Now s3NamesTaken = 7"
  "HeadBucket s3NamesTaken name = Some (awserrError ''Forbidden'' ''Forbidden: access denied'')"
  "CreateBucket s3NamesTaken i name =
     Some (awserrError ''BucketAlreadyExists''
       ''BucketAlreadyExists: the requested bucket name is not available'')"
  "NewUUID s3NamesTaken i = ''123e4567-e89b-12d3-a456-426614174000''"
  "GetInfrastructure s3NamesTaken = Inr exampleInfrastructure"
  by (simp_all add: s3NamesTaken_def)

lemma s3NamesTakenToo_fields:
  "Now s3NamesTakenToo = 7"
  "CreateBucket s3NamesTakenToo i name =
     Some (awserrError ''BucketAlreadyExists'' ''BucketAlreadyExists: try another name'')"
  "NewUUID s3NamesTakenToo i = ''123e4567-e89b-12d3-a456-426614174000''"
  "GetInfrastructure s3NamesTakenToo = Inr exampleInfrastructure"
  by (simp_all add: s3NamesTakenToo_def s3NamesTaken_def)

lemma s3NamesTakenToo_service_region:
  "getS3Service s3NamesTakenToo (enter noBucket exampleResource) = Return (None, ((enter noBucket exampleResource)\<lparr>dConfig := noBucket\<lparr>Region := ''us-east-1''\<rparr>\<rparr>))"
  by (simp add: getS3Service_def s3_GetConfig_def enter_def s3NamesTakenToo_def s3NamesTaken_def
      exampleInfrastructure_def AWSPlatformType_def notFound_def IsNotFound_def
      ImageRegistryPrivateConfigurationUser_def CloudCredentialsName_def noBucket_def)

lemma example_bucket_name:
  "NewUUID w j = ''123e4567-e89b-12d3-a456-426614174000'' \<Longrightarrow>
   generateBucketName w exampleInfrastructure j ((enter noBucket exampleResource)\<lparr>dConfig := noBucket\<lparr>Region := ''us-east-1''\<rparr>\<rparr>) = Some ''image-registry-us-east-1-myclusterx7k2p-123e4567e89b12d3a45642''"
  by (simp add: generateBucketName_def exampleInfrastructure_def removeDashes_def
      ImageRegistryName_def enter_def noBucket_def)





lemma managedAccountResource_fields:
  "StorageManaged (Status managedAccountResource) = True"
  "Azure (SpecStorage (Spec managedAccountResource)) = Some userAccount"
  "Azure (StatusStorage (Status managedAccountResource)) = Some userAccount"
  by (simp_all add: managedAccountResource_def)

lemma userAccount_fields:
  "AccountName userAccount = ''registry''" "Container userAccount = ''images''"
  by (simp_all add: userAccount_def)

lemma azureNamesTaken_removed:
  "\<exists>s. azure_RemoveStorage azureNamesTaken userAccount managedAccountResource
         = Return ((False, None), s)
       \<and> dConfig s = noAccount
       \<and> StorageManaged (Status (cr s)) = True
       \<and> Azure (StatusStorage (Status (cr s))) = Some noAccount
       \<and> trace s =
           [ConditionUpdate StorageExists ConditionFalse storageExistsReasonAccountDeleted
              ''Storage account has been deleted'',
            StatusStorageWrite, ProviderCall ''Delete'' True,
            ConditionUpdate StorageExists ConditionFalse storageExistsReasonContainerDeleted
              ''Storage container has been deleted'',
            StatusStorageWrite, ProviderCall ''deleteStorageContainer'' True,
            ProviderCall ''getAccountPrimaryKey'' True]"
  by (simp add: azure_RemoveStorage_def azure_RemoveStorage_account_def Let_def
      azureNamesTaken_config azureNamesTaken_fields mintedCredentials_fields
      managedAccountResource_fields userAccount_fields
      getAccountPrimaryKey_def deleteStorageContainer_def getStorageContainer_def
      clearAccountName_def clearContainer_def enter_simps updateCondition_simps called_simps
      writeStatusAzure_simps writeSpecAzure_def UpdateCondition_frame)
     (simp add: userAccount_def noAccount_def)



lemma azureThirdFree_fields:
  "Now azureThirdFree = 7"
  "GetInfrastructure azureThirdFree = Inr exampleInfrastructure"
  "Authorizer azureThirdFree mintedCredentials = None"
  "randString azureThirdFree i =
     (if i = 0 then ''bcdfg'' else if i = 1 then ''hjklm'' else ''npqrs'')"
  "CheckNameAvailability azureThirdFree i name =
     (if i < 2 then Inr (False, ''already taken'') else Inr (True, []))"
  "AccountsCreate azureThirdFree i rg name location = None"
  "WaitForCompletionRef azureThirdFree i name = None"
  "FutureResult azureThirdFree i name = None"
  "ListKeys azureThirdFree rg name = Inr [''a2V5'']"
  "NewSharedKeyCredential azureThirdFree name key = None"
  "urlParse azureThirdFree u = None"
  "ContainerCreate azureThirdFree name key container = None"
  by (simp_all add: azureThirdFree_def azureNamesTaken_def clientCredentialsAuthorizer_def
      mintedCredentials_def)

lemma azureThirdFree_config:
  "azure_GetConfig azureThirdFree = Inr mintedCredentials"
  by (simp add: azure_GetConfig_def azureThirdFree_def azureNamesTaken_def
      getAzureConfigFromCloudSecret_def
      dataString_def notFound_def IsNotFound_def ImageRegistryPrivateConfigurationUser_def
      CloudCredentialsName_def mintedCredentials_def)

lemma azureSecondFails_fields:
  "Now azureSecondFails = 7"
  "GetInfrastructure azureSecondFails = Inr exampleInfrastructure"
  "Authorizer azureSecondFails mintedCredentials = None"
  "randString azureSecondFails i =
     (if i = 0 then ''bcdfg'' else if i = 1 then ''hjklm'' else ''npqrs'')"
  "CheckNameAvailability azureSecondFails i name =
     (if i < 1 then Inr (False, ''already taken'')
      else Inl (errorString ''too many requests''))"
  by (simp_all add: azureSecondFails_def azureNamesTaken_def clientCredentialsAuthorizer_def
      mintedCredentials_def)

lemma azureSecondFails_config:
  "azure_GetConfig azureSecondFails = Inr mintedCredentials"
  by (simp add: azure_GetConfig_def azureSecondFails_def azureNamesTaken_def
      getAzureConfigFromCloudSecret_def
      dataString_def notFound_def IsNotFound_def ImageRegistryPrivateConfigurationUser_def
      CloudCredentialsName_def mintedCredentials_def)

lemma example_account_names:
  "generateAccountName (InfrastructureName exampleInfrastructure) ''bcdfg''
     = ''myclusterx7k2pbcdfg''"
  "generateAccountName (InfrastructureName exampleInfrastructure) ''hjklm''
     = ''myclusterx7k2phjklm''"
  "generateAccountName (InfrastructureName exampleInfrastructure) ''npqrs''
     = ''myclusterx7k2pnpqrs''"
  by (simp_all add: exampleInfrastructure_def generateAccountName_def
      storageAccountInvalidChar_def digits_def upperLetters_def lowerLetters_def ToLower_def
      toLowerByte_def)

lemma s3ThirdFree_fields:
  "Now s3ThirdFree = 7"
  "GetInfrastructure s3ThirdFree = Inr exampleInfrastructure"
  "NewUUID s3ThirdFree i =
     (if i = 0 then ''123e4567-e89b-12d3-a456-426614174000''
      else if i = 1 then ''223e4567-e89b-12d3-a456-426614174001''
      else ''323e4567-e89b-12d3-a456-426614174002'')"
  "CreateBucket s3ThirdFree i name =
     (if i < 2 then
        Some (awserrError ''BucketAlreadyExists''
          ''BucketAlreadyExists: the requested bucket name is not available'')
      else None)"
  "WaitUntilBucketExists s3ThirdFree name = None"
  "PutPublicAccessBlock s3ThirdFree name = None"
  "PutBucketTagging s3ThirdFree name tag = None"
  "PutBucketEncryption s3ThirdFree name algorithm key = None"
  "PutBucketLifecycleConfiguration s3ThirdFree name = None"
  by (simp_all add: s3ThirdFree_def s3NamesTaken_def)

lemma s3ThirdFree_service:
  "getS3Service s3ThirdFree (enter noBucket c) =
     Return (None, (enter noBucket c)\<lparr>dConfig := noBucket\<lparr>Region := ''us-east-1''\<rparr>\<rparr>)"
  by (simp add: getS3Service_def s3_GetConfig_def enter_simps s3ThirdFree_def s3NamesTaken_def
      exampleInfrastructure_def AWSPlatformType_def notFound_def IsNotFound_def
      ImageRegistryPrivateConfigurationUser_def CloudCredentialsName_def noBucket_def)

lemma s3SecondDenied_fields:
  "Now s3SecondDenied = 7"
  "GetInfrastructure s3SecondDenied = Inr exampleInfrastructure"
  "NewUUID s3SecondDenied i =
     (if i = 0 then ''123e4567-e89b-12d3-a456-426614174000''
      else if i = 1 then ''223e4567-e89b-12d3-a456-426614174001''
      else ''323e4567-e89b-12d3-a456-426614174002'')"
  "CreateBucket s3SecondDenied i name =
     (if i < 1 then
        Some (awserrError ''BucketAlreadyExists''
          ''BucketAlreadyExists: the requested bucket name is not available'')
      else Some (awserrError ''AccessDenied'' ''AccessDenied: Access Denied''))"
  by (simp_all add: s3SecondDenied_def s3NamesTaken_def)

lemma s3SecondDenied_service:
  "getS3Service s3SecondDenied (enter noBucket c) =
     Return (None, (enter noBucket c)\<lparr>dConfig := noBucket\<lparr>Region := ''us-east-1''\<rparr>\<rparr>)"
  by (simp add: getS3Service_def s3_GetConfig_def enter_simps s3SecondDenied_def
      s3NamesTaken_def
      exampleInfrastructure_def AWSPlatformType_def notFound_def IsNotFound_def
      ImageRegistryPrivateConfigurationUser_def CloudCredentialsName_def noBucket_def)

section \<open>Account names\<close>

lemma toLowerByte_fixed:
  assumes "c \<in> set (digits @ lowerLetters)"
  shows "toLowerByte c = c"
proof -
  from assms have "c \<in> set ''0123456789abcdefghijklmnopqrstuvwxyz''"
    by (simp add: digits_def lowerLetters_def)
  then show ?thesis
    unfolding set_simps insert_iff empty_iff
    by (elim disjE FalseE) (simp_all add: toLowerByte_def upperLetters_def lowerLetters_def)
qed

lemma toLowerByte_valid:
  assumes "c \<in> set (digits @ upperLetters @ lowerLetters)"
  shows "toLowerByte c \<in> set (digits @ lowerLetters)"
proof -
  from assms have "c \<in> set ''0123456789ABCDEFGHIJKLMNOPQRSTUVWXYZabcdefghijklmnopqrstuvwxyz''"
    by (simp add: digits_def lowerLetters_def upperLetters_def)
  then show ?thesis
    unfolding set_simps insert_iff empty_iff
    by (elim disjE FalseE)
       (simp_all add: toLowerByte_def upperLetters_def lowerLetters_def digits_def)
qed

lemma alphanums_valid:
  assumes "c \<in> set alphanums"
  shows "c \<in> set (digits @ upperLetters @ lowerLetters)"
proof -
  from assms have "c \<in> set ''bcdfghjklmnpqrstvwxz2456789''"
    by (simp add: alphanums_def)
  then show ?thesis
    unfolding set_simps insert_iff empty_iff
    by (elim disjE FalseE) (simp_all add: upperLetters_def lowerLetters_def digits_def)
qed

lemma ToLower_valid:
  assumes "set s \<subseteq> set (digits @ upperLetters @ lowerLetters)"
  shows "set (ToLower s) \<subseteq> set (digits @ lowerLetters)"
proof
  fix c assume "c \<in> set (ToLower s)"
  then obtain b where b: "b \<in> set s" and c: "c = toLowerByte b"
    unfolding ToLower_def by auto
  from b assms have "b \<in> set (digits @ upperLetters @ lowerLetters)" by blast
  then show "c \<in> set (digits @ lowerLetters)"
    unfolding c by (rule toLowerByte_valid)
qed

lemma ToLower_fixed:
  assumes "set s \<subseteq> set (digits @ lowerLetters)"
  shows "ToLower s = s"
proof -
  have "\<And>c. c \<in> set s \<Longrightarrow> toLowerByte c = c"
    using assms toLowerByte_fixed by blast
  then show ?thesis
    unfolding ToLower_def by (rule map_idI)
qed

lemma prefix_valid:
  "set (filter (\<lambda>c. \<not> storageAccountInvalidChar c) s) \<subseteq> set (digits @ upperLetters @ lowerLetters)"
  unfolding storageAccountInvalidChar_def by (induction s) simp_all

lemma imageregistry_valid:
  "set ''imageregistry'' \<subseteq> set (digits @ upperLetters @ lowerLetters)"
  by (simp add: digits_def upperLetters_def lowerLetters_def)

lemma alphanums_lower:
  assumes "c \<in> set alphanums"
  shows "c \<in> set (digits @ lowerLetters)"
proof -
  from assms have "c \<in> set ''bcdfghjklmnpqrstvwxz2456789''"
    by (simp add: alphanums_def)
  then show ?thesis
    unfolding set_simps insert_iff empty_iff
    by (elim disjE FalseE) (simp_all add: lowerLetters_def digits_def)
qed

text \<open>
  C7. Whatever the infrastructure name, \<open>generateAccountName\<close> returns the bytes of the
  name that are ASCII letters or digits (\<open>imageregistry\<close> when there is none), cut to
  their first 24 - 5 bytes and lower-cased, followed by the five bytes of
  \<open>rand.String(5)\<close>. So the name has at most 24 bytes, all of them digits or lower-case
  letters, lower-casing it again changes nothing, and its last five bytes are the random
  ones; for the infrastructure name \<open>abc-123!!\<close> the name is \<open>abc123\<close> followed by the
  random bytes. \<open>rnd\<close> is the result of \<open>rand.String(5)\<close>: five bytes of its alphabet.
\<close>

theorem generateAccountName_valid:
  assumes len: "length rnd = 5" and alpha: "set rnd \<subseteq> set alphanums"
  shows "length (generateAccountName infra rnd) \<le> 24
       \<and> set (generateAccountName infra rnd) \<subseteq> set (digits @ lowerLetters)
       \<and> ToLower (generateAccountName infra rnd) = generateAccountName infra rnd
       \<and> take 6 (generateAccountName ''abc-123!!'' rnd) = ''abc123''
       \<and> generateAccountName ''abc-123!!'' rnd = ''abc123'' @ rnd
       \<and> (filter (\<lambda>c. c \<in> set digits \<union> set upperLetters \<union> set lowerLetters) infra \<noteq> [] \<longrightarrow>
            generateAccountName infra rnd =
              map toLowerByte (take 19
                (filter (\<lambda>c. c \<in> set digits \<union> set upperLetters \<union> set lowerLetters) infra))
              @ rnd)
       \<and> (filter (\<lambda>c. c \<in> set digits \<union> set upperLetters \<union> set lowerLetters) infra = [] \<longrightarrow>
            generateAccountName infra rnd = ''imageregistry'' @ rnd)
       \<and> length (generateAccountName infra rnd) =
            min 19 (if filter (\<lambda>c. c \<in> set digits \<union> set upperLetters \<union> set lowerLetters) infra = []
                    then 13
                    else length (filter (\<lambda>c. c \<in> set digits \<union> set upperLetters \<union> set lowerLetters) infra)) + 5
       \<and> drop (length (generateAccountName infra rnd) - 5) (generateAccountName infra rnd) = rnd"
proof -
  define p0 where "p0 = filter (\<lambda>c. \<not> storageAccountInvalidChar c) infra"
  define p1 where "p1 = (if p0 = [] then ''imageregistry'' else p0)"
  define p2 where "p2 = (if length p1 > 24 - 5 then take (24 - 5) p1 else p1)"
  have f: "filter (\<lambda>c. c \<in> set digits \<union> set upperLetters \<union> set lowerLetters) infra = p0"
    unfolding p0_def storageAccountInvalidChar_def by simp
  have name: "generateAccountName infra rnd = ToLower (p2 @ rnd)"
    by (simp add: generateAccountName_def p0_def p1_def p2_def Let_def)
  have v0: "set p0 \<subseteq> set (digits @ upperLetters @ lowerLetters)"
    unfolding p0_def by (rule prefix_valid)
  have v1: "set p1 \<subseteq> set (digits @ upperLetters @ lowerLetters)"
  proof (cases "p0 = []")
    case True
    then show ?thesis unfolding p1_def using imageregistry_valid by simp
  next
    case False
    then show ?thesis unfolding p1_def using v0 by simp
  qed
  have "set (take 19 p1) \<subseteq> set p1"
    by (rule set_take_subset)
  with v1 have v2: "set p2 \<subseteq> set (digits @ upperLetters @ lowerLetters)"
    unfolding p2_def by (cases "19 < length p1") auto
  have l2: "length p2 \<le> 19"
    unfolding p2_def by simp
  have vr: "set rnd \<subseteq> set (digits @ upperLetters @ lowerLetters)"
    using alpha alphanums_valid by blast
  have "set (p2 @ rnd) \<subseteq> set (digits @ upperLetters @ lowerLetters)"
    using v2 vr by simp
  then have valid: "set (generateAccountName infra rnd) \<subseteq> set (digits @ lowerLetters)"
    unfolding name by (rule ToLower_valid)
  have short: "length (generateAccountName infra rnd) \<le> 24"
    unfolding name using l2 len by (simp add: ToLower_def)
  have "set rnd \<subseteq> set (digits @ lowerLetters)"
    using alpha alphanums_lower by blast
  then have rl: "ToLower rnd = rnd"
    by (rule ToLower_fixed)
  have p2t: "p2 = take 19 p1"
    unfolding p2_def by simp
  have split: "generateAccountName infra rnd = map toLowerByte (take 19 p1) @ rnd"
    unfolding name p2t using rl by (simp add: ToLower_def)
  have "filter (\<lambda>c. \<not> storageAccountInvalidChar c) ''abc-123!!'' = ''abc123''"
    by (simp add: storageAccountInvalidChar_def digits_def upperLetters_def lowerLetters_def)
  then have "generateAccountName ''abc-123!!'' rnd = ToLower ''abc123'' @ ToLower rnd"
    by (simp add: generateAccountName_def ToLower_def)
  moreover have "ToLower ''abc123'' = ''abc123''"
    by (simp add: ToLower_def toLowerByte_def upperLetters_def lowerLetters_def)
  ultimately have abc: "generateAccountName ''abc-123!!'' rnd = ''abc123'' @ rnd"
    using rl by simp
  then have abc6: "take 6 (generateAccountName ''abc-123!!'' rnd) = ''abc123''"
    by simp
  have some: "p0 \<noteq> [] \<longrightarrow> generateAccountName infra rnd = map toLowerByte (take 19 p0) @ rnd"
    using split by (simp add: p1_def)
  have "map toLowerByte ''imageregistry'' = ''imageregistry''"
    by (simp add: toLowerByte_def upperLetters_def lowerLetters_def)
  then have none: "p0 = [] \<longrightarrow> generateAccountName infra rnd = ''imageregistry'' @ rnd"
    using split by (simp add: p1_def)
  have count: "length (generateAccountName infra rnd) =
                 min 19 (if p0 = [] then 13 else length p0) + 5"
    unfolding split using len by (simp add: p1_def min_def)
  have suffix: "drop (length (generateAccountName infra rnd) - 5) (generateAccountName infra rnd)
                 = rnd"
    unfolding split using len by simp
  show ?thesis
    unfolding f
    using valid short ToLower_fixed[OF valid] abc abc6 some none count suffix
    by simp
qed

theorem generateAccountName_valid_witness:
  "length ''x7k2p'' = 5 \<and> set ''x7k2p'' \<subseteq> set alphanums
   \<and> generateAccountName ''My-Cluster_01.example'' ''x7k2p'' = ''mycluster01examplex7k2p''
   \<and> length (generateAccountName ''My-Cluster_01.example'' ''x7k2p'') \<le> 24
   \<and> set (generateAccountName ''My-Cluster_01.example'' ''x7k2p'') \<subseteq> set (digits @ lowerLetters)
   \<and> take 6 (generateAccountName ''abc-123!!'' ''x7k2p'') = ''abc123''
   \<and> generateAccountName ''abc-123!!'' ''x7k2p'' = ''abc123x7k2p''
   \<and> generateAccountName ''Production-Cluster-West-Europe-01'' ''x7k2p''
       = ''productionclusterwex7k2p''
   \<and> length (generateAccountName ''Production-Cluster-West-Europe-01'' ''x7k2p'') = 24
   \<and> generateAccountName ''--__--'' ''x7k2p'' = ''imageregistryx7k2p''"
proof -
  have l: "length ''x7k2p'' = 5" by simp
  have a: "set ''x7k2p'' \<subseteq> set alphanums" by (simp add: alphanums_def)
  have e: "generateAccountName ''My-Cluster_01.example'' ''x7k2p'' = ''mycluster01examplex7k2p''"
    by (simp add: generateAccountName_def storageAccountInvalidChar_def digits_def
        upperLetters_def lowerLetters_def ToLower_def toLowerByte_def)
  have f1: "filter (\<lambda>c. c \<in> set digits \<union> set upperLetters \<union> set lowerLetters)
              ''Production-Cluster-West-Europe-01'' = ''ProductionClusterWestEurope01''"
    by (simp add: digits_def upperLetters_def lowerLetters_def)
  have f2: "filter (\<lambda>c. c \<in> set digits \<union> set upperLetters \<union> set lowerLetters) ''--__--'' = []"
    by (simp add: digits_def upperLetters_def lowerLetters_def)
  note t1 = generateAccountName_valid[OF l a, of "''My-Cluster_01.example''"]
  note t2 = generateAccountName_valid[OF l a, of "''Production-Cluster-West-Europe-01''"]
  note t3 = generateAccountName_valid[OF l a, of "''--__--''"]
  note c1 = t1[THEN conjunct1]
  note c2 = t1[THEN conjunct2, THEN conjunct1]
  note c4 = t1[THEN conjunct2, THEN conjunct2, THEN conjunct2, THEN conjunct1]
  have c5: "generateAccountName ''abc-123!!'' ''x7k2p'' = ''abc123x7k2p''"
    using t1[THEN conjunct2, THEN conjunct2, THEN conjunct2, THEN conjunct2, THEN conjunct1]
    by simp
  have "generateAccountName ''Production-Cluster-West-Europe-01'' ''x7k2p''
       = map toLowerByte (take 19 ''ProductionClusterWestEurope01'') @ ''x7k2p''"
    using t2[THEN conjunct2, THEN conjunct2, THEN conjunct2, THEN conjunct2, THEN conjunct2,
        THEN conjunct1] unfolding f1 by simp
  then have long: "generateAccountName ''Production-Cluster-West-Europe-01'' ''x7k2p''
       = ''productionclusterwex7k2p''"
    by (simp add: toLowerByte_def upperLetters_def lowerLetters_def)
  have len: "length (generateAccountName ''Production-Cluster-West-Europe-01'' ''x7k2p'') = 24"
    unfolding long by simp
  have empty: "generateAccountName ''--__--'' ''x7k2p'' = ''imageregistryx7k2p''"
    using t3[THEN conjunct2, THEN conjunct2, THEN conjunct2, THEN conjunct2, THEN conjunct2,
        THEN conjunct2, THEN conjunct1] unfolding f2 by simp
  show ?thesis
    by (rule conjI[OF l conjI[OF a conjI[OF e conjI[OF c1 conjI[OF c2 conjI[OF c4
          conjI[OF c5 conjI[OF long conjI[OF len empty]]]]]]]]])
qed

section \<open>Properties of the controller\<close>

lemma persistSpec_writes:
  "snd (persistSpec w prev c) = [] \<or> snd (persistSpec w prev c) = [Update c]"
  by (simp add: persistSpec_def Let_def split: option.split sum.split)

lemma persistSpec_changed:
  "Update x \<in> set (snd (persistSpec w prev c)) \<Longrightarrow>
   x = c \<and> (strategyMetadata w (Meta prev) (Meta c) \<or> Spec prev \<noteq> Spec c)"
  by (auto simp: persistSpec_def Let_def split: option.splits sum.splits if_splits)

lemma persistSpec_no_status [simp]: "UpdateStatus x \<notin> set (snd (persistSpec w prev c))"
  using persistSpec_writes[of w prev c] by auto

lemma persistSpec_result:
  "fst (persistSpec w prev c) = Inr c1 \<Longrightarrow>
   Status c1 = Status c \<and> Generation (Meta c1) = Generation (Meta c)"
  by (auto simp: persistSpec_def Let_def split: option.splits sum.splits if_splits)

lemma persistStatus_writes:
  "snd (persistStatus w prev c) = [] \<or>
   snd (persistStatus w prev c) =
     [UpdateStatus (c\<lparr>Status := (Status c)\<lparr>ObservedGeneration := Generation (Meta c)\<rparr>\<rparr>)]"
  by (simp add: persistStatus_def Let_def split: option.split sum.split)

lemma persistStatus_changed:
  "UpdateStatus x \<in> set (snd (persistStatus w prev c)) \<Longrightarrow>
   ObservedGeneration (Status x) = Generation (Meta x) \<and> Status prev \<noteq> Status x"
  by (auto simp: persistStatus_def Let_def split: option.splits sum.splits if_splits)

lemma persistStatus_no_update [simp]: "Update x \<notin> set (snd (persistStatus w prev c))"
  using persistStatus_writes[of w prev c] by auto

lemma persist_writes:
  "snd (persist w prev c e) = snd (persistSpec w prev c) \<or>
   (\<exists>c1. fst (persistSpec w prev c) = Inr c1 \<and>
      snd (persist w prev c e) = snd (persistSpec w prev c) @ snd (persistStatus w prev c1))"
  by (cases "persistSpec w prev c"; cases "fst (persistSpec w prev c)")
     (auto simp: persist_def split: prod.splits option.splits sum.splits)

lemma persist_shape:
  "snd (persist w prev c e) = [] \<or> (\<exists>x. snd (persist w prev c e) = [Update x]) \<or>
   (\<exists>x. snd (persist w prev c e) = [UpdateStatus x]) \<or>
   (\<exists>x y. snd (persist w prev c e) = [Update x, UpdateStatus y])"
proof -
  from persist_writes[of w prev c e] show ?thesis
  proof
    assume "snd (persist w prev c e) = snd (persistSpec w prev c)"
    with persistSpec_writes[of w prev c] show ?thesis by auto
  next
    assume "\<exists>c1. fst (persistSpec w prev c) = Inr c1 \<and>
      snd (persist w prev c e) = snd (persistSpec w prev c) @ snd (persistStatus w prev c1)"
    then obtain c1 where
      "snd (persist w prev c e) = snd (persistSpec w prev c) @ snd (persistStatus w prev c1)"
      by blast
    with persistSpec_writes[of w prev c] persistStatus_writes[of w prev c1]
    show ?thesis by auto
  qed
qed

lemma persist_update:
  assumes "Update x \<in> set (snd (persist w prev c e))"
  shows "strategyMetadata w (Meta prev) (Meta x) \<or> Spec prev \<noteq> Spec x"
proof -
  from persist_writes[of w prev c e] assms
  have "Update x \<in> set (snd (persistSpec w prev c))" by auto
  then show ?thesis using persistSpec_changed by blast
qed

lemma persist_update_status:
  assumes "UpdateStatus x \<in> set (snd (persist w prev c e))"
  shows "ObservedGeneration (Status x) = Generation (Meta x) \<and> Status prev \<noteq> Status x"
proof -
  from persist_writes[of w prev c e] assms
  obtain c1 where "UpdateStatus x \<in> set (snd (persistStatus w prev c1))" by auto
  then show ?thesis by (rule persistStatus_changed)
qed

lemma syncResource_writes:
  "snd (syncResource w cached) = [] \<or>
   (\<exists>c e. snd (syncResource w cached) = snd (persist w cached c e))"
  by (auto simp: syncResource_def Let_def split: prod.splits sum.splits)

lemma sync_writes:
  "snd (sync w) = [] \<or>
   (\<exists>prev c e. RegistryConfigsGet w = Inr prev \<and> snd (sync w) = snd (persist w prev c e))"
proof (cases "setProxy w")
  case (Some e)
  then show ?thesis by (simp add: sync_def)
next
  case None
  show ?thesis
  proof (cases "RegistryConfigsGet w")
    case (Inl err)
    with None show ?thesis by (simp add: sync_def)
  next
    case (Inr cached)
    with None have "snd (sync w) = snd (syncResource w cached)" by (simp add: sync_def)
    with syncResource_writes[of w cached] Inr show ?thesis by auto
  qed
qed

text \<open>
  C9. The writes of one \<open>sync\<close> to the registry resource are, in this order, at most one
  \<open>Update\<close> and at most one \<open>UpdateStatus\<close>. \<open>Update\<close> is only called when the metadata or
  the spec differ from the copy taken before the mutation. The object sent by
  \<open>UpdateStatus\<close> has \<open>observedGeneration\<close> equal to its generation, and its status, with
  that value set, differs from the status of the copy.
\<close>

theorem sync_writes_ordered:
  "(snd (sync w) = [] \<or> (\<exists>c. snd (sync w) = [Update c]) \<or>
    (\<exists>c. snd (sync w) = [UpdateStatus c]) \<or>
    (\<exists>c c'. snd (sync w) = [Update c, UpdateStatus c']))
   \<and> (\<forall>c. Update c \<in> set (snd (sync w)) \<longrightarrow>
         (\<exists>prev. RegistryConfigsGet w = Inr prev \<and>
            (strategyMetadata w (Meta prev) (Meta c) \<or> Spec prev \<noteq> Spec c)))
   \<and> (\<forall>c. UpdateStatus c \<in> set (snd (sync w)) \<longrightarrow>
         ObservedGeneration (Status c) = Generation (Meta c) \<and>
         (\<exists>prev. RegistryConfigsGet w = Inr prev \<and> Status prev \<noteq> Status c))"
proof (cases "snd (sync w) = []")
  case True
  then show ?thesis by simp
next
  case False
  with sync_writes[of w] obtain prev c e where
    get: "RegistryConfigsGet w = Inr prev" and ws: "snd (sync w) = snd (persist w prev c e)"
    by blast
  have shape: "snd (sync w) = [] \<or> (\<exists>c. snd (sync w) = [Update c]) \<or>
    (\<exists>c. snd (sync w) = [UpdateStatus c]) \<or>
    (\<exists>c c'. snd (sync w) = [Update c, UpdateStatus c'])"
    unfolding ws by (rule persist_shape)
  have upd: "\<forall>x. Update x \<in> set (snd (sync w)) \<longrightarrow>
         (\<exists>prev. RegistryConfigsGet w = Inr prev \<and>
            (strategyMetadata w (Meta prev) (Meta x) \<or> Spec prev \<noteq> Spec x))"
    unfolding ws using get persist_update by blast
  have st: "\<forall>x. UpdateStatus x \<in> set (snd (sync w)) \<longrightarrow>
         ObservedGeneration (Status x) = Generation (Meta x) \<and>
         (\<exists>prev. RegistryConfigsGet w = Inr prev \<and> Status prev \<noteq> Status x)"
    unfolding ws using get persist_update_status by blast
  from shape upd st show ?thesis by blast
qed

lemma exampleController_apply:
  "applyManagementState exampleController exampleResource =
     (exampleResource\<lparr>Meta := (Meta exampleResource)\<lparr>Finalizers := [''finalizer'']\<rparr>\<rparr>,
      Some (permanentError (errorString
        ''unable to complete resource: replicas must not be negative'') ''VerificationFailed''),
      False)"
  by (simp add: applyManagementState_def createOrUpdateResources_def exampleController_def
      exampleResource_def Managed_def Removed_def newPermanentError_def)

lemma exampleController_sync:
  "sync exampleController =
     (None,
      [Update (exampleResource\<lparr>Meta := (Meta exampleResource)\<lparr>Finalizers := [''finalizer'']\<rparr>\<rparr>),
       UpdateStatus (exampleResource\<lparr>
         Meta := (Meta exampleResource)\<lparr>Finalizers := [''finalizer''], ResourceVersion := ''42''\<rparr>,
         Status := (Status exampleResource)\<lparr>ObservedGeneration := 2\<rparr>\<rparr>)])"
  by (simp add: sync_def setProxy_def syncResource_def getDeployment_def persist_def
      persistSpec_def persistStatus_def applyManagementState_def createOrUpdateResources_def
      isPermanentError_def newPermanentError_def Managed_def Removed_def
      IsNotFound_def Let_def exampleController_def exampleResource_def)

theorem sync_writes_ordered_witness:
  "snd (sync exampleController) =
     [Update (exampleResource\<lparr>Meta := (Meta exampleResource)\<lparr>Finalizers := [''finalizer'']\<rparr>\<rparr>),
      UpdateStatus (exampleResource\<lparr>
         Meta := (Meta exampleResource)\<lparr>Finalizers := [''finalizer''], ResourceVersion := ''42''\<rparr>,
         Status := (Status exampleResource)\<lparr>ObservedGeneration := 2\<rparr>\<rparr>)]
   \<and> (\<exists>prev. RegistryConfigsGet exampleController = Inr prev \<and>
         (strategyMetadata exampleController (Meta prev)
            (Meta (exampleResource\<lparr>Meta := (Meta exampleResource)\<lparr>Finalizers := [''finalizer'']\<rparr>\<rparr>))
          \<or> Spec prev \<noteq> Spec exampleResource))
   \<and> (\<exists>prev. RegistryConfigsGet exampleController = Inr prev \<and>
         Status prev \<noteq> (Status exampleResource)\<lparr>ObservedGeneration := 2\<rparr>)"
  using sync_writes_ordered[of exampleController] exampleController_sync
  by simp

lemma createOrUpdateResources_verification:
  "snd (verifyResource w (appendFinalizer w c)) = Some e \<Longrightarrow>
   snd (createOrUpdateResources w c) =
     Some (permanentError (errorString (''unable to complete resource: '' @ Error e))
       ''VerificationFailed'')"
  by (cases "verifyResource w (appendFinalizer w c)")
     (simp add: createOrUpdateResources_def newPermanentError_def)

lemma createOrUpdateResources_apply:
  "verifyResource w (appendFinalizer w c) = (c2, None) \<Longrightarrow>
   snd (createOrUpdateResources w c) =
     (if snd (generatorApply w c2) = Some ErrStorageNotConfigured
      then Some (permanentError ErrStorageNotConfigured ''StorageNotConfigured'')
      else snd (generatorApply w c2))"
  by (cases "generatorApply w c2")
     (auto simp: createOrUpdateResources_def newPermanentError_def)

lemma persistSpec_fails:
  "(fst (persistSpec w prev x) = Inl err) =
     ((strategyMetadata w (Meta prev) (Meta x) \<or> Spec prev \<noteq> Spec x) \<and>
      (NewForConfig w = Some err \<or> NewForConfig w = None \<and> clientUpdate w x = Inl err))"
  by (auto simp: persistSpec_def Let_def split: option.splits sum.splits)

lemma persistStatus_fails:
  "(fst (persistStatus w prev x) = Some err) =
     (Status prev \<noteq> (Status x)\<lparr>ObservedGeneration := Generation (Meta x)\<rparr> \<and>
      (NewForConfig w = Some err \<or>
       NewForConfig w = None \<and>
       clientUpdateStatus w
         (x\<lparr>Status := (Status x)\<lparr>ObservedGeneration := Generation (Meta x)\<rparr>\<rparr>) = Inl err))"
  by (auto simp: persistStatus_def Let_def split: option.splits sum.splits)

lemma getDeployment_fails:
  "(getDeployment w = Inl err) =
     (\<exists>e. DeploymentsGet w = Inl e \<and> \<not> IsNotFound e \<and>
        err = errorString (''failed to get '' @ goQuote ImageRegistryName
                 @ '' deployment: '' @ Error e))"
  by (auto simp: getDeployment_def split: sum.splits)

lemma persist_result:
  "fst (persist w prev x applyError) =
     (case fst (persistSpec w prev x) of
        Inl err \<Rightarrow> Some err
      | Inr c2 \<Rightarrow>
          (case fst (persistStatus w prev c2) of
             Some err \<Rightarrow> Some err
           | None \<Rightarrow> if isPermanentError applyError then None else applyError))"
  by (cases "persistSpec w prev x"; cases "fst (persistSpec w prev x)")
     (auto simp: persist_def split: prod.splits option.splits sum.splits)

text \<open>
  C1 (as amended). Behind its apply step, \<open>sync\<close> returns the first failure among the
  lookup of the deployment, the making of the client (\<open>NewForConfig\<close>) and the calls
  \<open>Update\<close> and \<open>UpdateStatus\<close>, whatever the apply error is, and the key is added to the
  queue again, rate limited. When none of them fails, it returns nil for a
  \<open>permanentError\<close> and the apply error itself otherwise, so that the key is forgotten for
  a \<open>permanentError\<close> (and when nothing failed) and added again for any other apply error.
  The lookup fails for any error of the lister except NotFound; a write fails when it is
  due (the metadata or the spec changed, or the status with the observed generation set
  did) and the client cannot be made or the call fails; the \<open>Update\<close> call leaves the
  status and the generation of the resource as they were. In the Managed state the apply error is that of
  \<open>createOrUpdateResources\<close>: a failed verification is a \<open>permanentError\<close> with reason
  VerificationFailed, \<open>ErrStorageNotConfigured\<close> from \<open>Apply\<close> one with reason
  StorageNotConfigured, and any other error of \<open>Apply\<close> is returned as it is.
\<close>

theorem sync_returns_apply_error:
  assumes "setProxy w = None"
      and "RegistryConfigsGet w = Inr c"
      and "DeletionTimestamp (Meta c) = None"
      and "applyManagementState w c = (c1, applyError, removed)"
  shows "fst (sync w) =
           (case getDeployment w of
              Inl err \<Rightarrow> Some err
            | Inr deploy \<Rightarrow>
                (case fst (persistSpec w c (syncStatus w c1 deploy applyError removed)) of
                   Inl err \<Rightarrow> Some err
                 | Inr c2 \<Rightarrow>
                     (case fst (persistStatus w c c2) of
                        Some err \<Rightarrow> Some err
                      | None \<Rightarrow> if isPermanentError applyError then None else applyError)))
       \<and> processEvent w True =
           (if fst (sync w) = None then [Forget, Done] else [AddRateLimited, Done])
       \<and> (\<forall>err. (getDeployment w = Inl err) =
            (\<exists>e. DeploymentsGet w = Inl e \<and> \<not> IsNotFound e \<and>
               err = errorString (''failed to get '' @ goQuote ImageRegistryName
                        @ '' deployment: '' @ Error e)))
       \<and> (\<forall>x err. (fst (persistSpec w c x) = Inl err) =
            ((strategyMetadata w (Meta c) (Meta x) \<or> Spec c \<noteq> Spec x) \<and>
             (NewForConfig w = Some err \<or> NewForConfig w = None \<and> clientUpdate w x = Inl err)))
       \<and> (\<forall>x err. (fst (persistStatus w c x) = Some err) =
            (Status c \<noteq> (Status x)\<lparr>ObservedGeneration := Generation (Meta x)\<rparr> \<and>
             (NewForConfig w = Some err \<or>
              NewForConfig w = None \<and>
              clientUpdateStatus w
                (x\<lparr>Status := (Status x)\<lparr>ObservedGeneration := Generation (Meta x)\<rparr>\<rparr>)
                = Inl err)))
       \<and> (\<forall>x c2. fst (persistSpec w c x) = Inr c2 \<longrightarrow>
            Status c2 = Status x \<and> Generation (Meta c2) = Generation (Meta x))
       \<and> (ManagementState (Spec c) = Managed \<longrightarrow>
            applyError = snd (createOrUpdateResources w c))
       \<and> (\<forall>e. snd (verifyResource w (appendFinalizer w c)) = Some e \<longrightarrow>
            snd (createOrUpdateResources w c) =
              Some (permanentError (errorString (''unable to complete resource: '' @ Error e))
                ''VerificationFailed''))
       \<and> (\<forall>c'. verifyResource w (appendFinalizer w c) = (c', None) \<longrightarrow>
            snd (createOrUpdateResources w c) =
              (if snd (generatorApply w c') = Some ErrStorageNotConfigured
               then Some (permanentError ErrStorageNotConfigured ''StorageNotConfigured'')
               else snd (generatorApply w c')))"
proof -
  have r: "fst (sync w) =
           (case getDeployment w of
              Inl err \<Rightarrow> Some err
            | Inr deploy \<Rightarrow>
                (case fst (persistSpec w c (syncStatus w c1 deploy applyError removed)) of
                   Inl err \<Rightarrow> Some err
                 | Inr c2 \<Rightarrow>
                     (case fst (persistStatus w c c2) of
                        Some err \<Rightarrow> Some err
                      | None \<Rightarrow> if isPermanentError applyError then None else applyError)))"
    using assms
    by (simp add: sync_def syncResource_def persist_result split: sum.split)
  have q: "processEvent w True =
           (if fst (sync w) = None then [Forget, Done] else [AddRateLimited, Done])"
    unfolding processEvent_def by (cases "fst (sync w)") auto
  have m: "ManagementState (Spec c) = Managed \<longrightarrow>
            applyError = snd (createOrUpdateResources w c)"
    using assms(4)
    by (auto simp: applyManagementState_def Managed_def Removed_def split: prod.splits)
  have l: "\<forall>err. (getDeployment w = Inl err) =
            (\<exists>e. DeploymentsGet w = Inl e \<and> \<not> IsNotFound e \<and>
               err = errorString (''failed to get '' @ goQuote ImageRegistryName
                        @ '' deployment: '' @ Error e))"
    using getDeployment_fails by blast
  have u: "\<forall>x err. (fst (persistSpec w c x) = Inl err) =
            ((strategyMetadata w (Meta c) (Meta x) \<or> Spec c \<noteq> Spec x) \<and>
             (NewForConfig w = Some err \<or> NewForConfig w = None \<and> clientUpdate w x = Inl err))"
    using persistSpec_fails by blast
  have t: "\<forall>x err. (fst (persistStatus w c x) = Some err) =
            (Status c \<noteq> (Status x)\<lparr>ObservedGeneration := Generation (Meta x)\<rparr> \<and>
             (NewForConfig w = Some err \<or>
              NewForConfig w = None \<and>
              clientUpdateStatus w
                (x\<lparr>Status := (Status x)\<lparr>ObservedGeneration := Generation (Meta x)\<rparr>\<rparr>)
                = Inl err))"
    using persistStatus_fails by blast
  have k: "\<forall>x c2. fst (persistSpec w c x) = Inr c2 \<longrightarrow>
            Status c2 = Status x \<and> Generation (Meta c2) = Generation (Meta x)"
    using persistSpec_result by blast
  have v: "\<forall>e. snd (verifyResource w (appendFinalizer w c)) = Some e \<longrightarrow>
            snd (createOrUpdateResources w c) =
              Some (permanentError (errorString (''unable to complete resource: '' @ Error e))
                ''VerificationFailed'')"
    using createOrUpdateResources_verification by blast
  have a: "\<forall>c'. verifyResource w (appendFinalizer w c) = (c', None) \<longrightarrow>
            snd (createOrUpdateResources w c) =
              (if snd (generatorApply w c') = Some ErrStorageNotConfigured
               then Some (permanentError ErrStorageNotConfigured ''StorageNotConfigured'')
               else snd (generatorApply w c'))"
    using createOrUpdateResources_apply by blast
  show ?thesis
    by (rule conjI[OF r conjI[OF q conjI[OF l conjI[OF u conjI[OF t conjI[OF k conjI[OF m
          conjI[OF v a]]]]]]]])
qed

theorem sync_returns_apply_error_witness:
  "snd (createOrUpdateResources exampleController exampleResource) =
       Some (permanentError (errorString
         ''unable to complete resource: replicas must not be negative'') ''VerificationFailed'')
   \<and> fst (sync exampleController) = None
   \<and> processEvent exampleController True = [Forget, Done]
   \<and> snd (createOrUpdateResources storageMissing exampleResource) =
       Some (permanentError ErrStorageNotConfigured ''StorageNotConfigured'')
   \<and> fst (sync storageMissing) = None
   \<and> processEvent storageMissing True = [Forget, Done]
   \<and> snd (createOrUpdateResources applyFails exampleResource) =
       Some (errorString ''unable to apply objects'')
   \<and> fst (sync applyFails) = Some (errorString ''unable to apply objects'')
   \<and> processEvent applyFails True = [AddRateLimited, Done]
   \<and> fst (sync updateConflict) =
       Some (StatusError ''Conflict''
         ''the object has been modified; please apply your changes to the latest version and try again'')
   \<and> processEvent updateConflict True = [AddRateLimited, Done]
   \<and> fst (sync noClient) = Some (errorString ''unable to load configuration'')
   \<and> processEvent noClient True = [AddRateLimited, Done]
   \<and> fst (sync brokenDeploymentLister) =
       Some (errorString (''failed to get '' @ goQuote ''image-registry''
         @ '' deployment: connection refused''))
   \<and> processEvent brokenDeploymentLister True = [AddRateLimited, Done]"
proof -
  let ?c1 = "exampleResource\<lparr>Meta := (Meta exampleResource)\<lparr>Finalizers := [''finalizer'']\<rparr>\<rparr>"
  let ?v = "Some (permanentError (errorString
         ''unable to complete resource: replicas must not be negative'') ''VerificationFailed'')"
  let ?m = "Some (permanentError ErrStorageNotConfigured ''StorageNotConfigured'')"
  let ?f = "Some (errorString ''unable to apply objects'')"
  note defs = applyManagementState_def createOrUpdateResources_def exampleController_def
    exampleResource_def Managed_def Removed_def newPermanentError_def
  note eval = getDeployment_def persistSpec_def persistStatus_def isPermanentError_def
    IsNotFound_def ImageRegistryName_def Let_def exampleController_def exampleResource_def
  have d: "DeletionTimestamp (Meta exampleResource) = None"
    by (simp add: exampleResource_def)
  have p: "setProxy exampleController = None" "setProxy storageMissing = None"
    "setProxy applyFails = None" "setProxy updateConflict = None" "setProxy noClient = None"
    "setProxy brokenDeploymentLister = None"
    by (simp_all add: setProxy_def exampleController_def IsNotFound_def storageMissing_def
        applyFails_def updateConflict_def noClient_def brokenDeploymentLister_def)
  have g: "RegistryConfigsGet exampleController = Inr exampleResource"
    "RegistryConfigsGet storageMissing = Inr exampleResource"
    "RegistryConfigsGet applyFails = Inr exampleResource"
    "RegistryConfigsGet updateConflict = Inr exampleResource"
    "RegistryConfigsGet noClient = Inr exampleResource"
    "RegistryConfigsGet brokenDeploymentLister = Inr exampleResource"
    by (simp_all add: exampleController_def storageMissing_def
        applyFails_def updateConflict_def noClient_def brokenDeploymentLister_def)
  have a1: "applyManagementState exampleController exampleResource = (?c1, ?v, False)"
    by (simp add: defs)
  have a2: "applyManagementState storageMissing exampleResource = (?c1, ?m, False)"
    by (simp add: defs storageMissing_def)
  have a3: "applyManagementState applyFails exampleResource = (?c1, ?f, False)"
    by (simp add: defs applyFails_def)
  have a4: "applyManagementState updateConflict exampleResource = (?c1, ?v, False)"
    by (simp add: defs updateConflict_def)
  have a5: "applyManagementState noClient exampleResource = (?c1, ?v, False)"
    by (simp add: defs noClient_def)
  have a6: "applyManagementState brokenDeploymentLister exampleResource = (?c1, ?v, False)"
    by (simp add: defs brokenDeploymentLister_def)
  have m: "ManagementState (Spec exampleResource) = Managed"
    by (simp add: exampleResource_def Managed_def)
  note t1 = sync_returns_apply_error[OF p(1) g(1) d a1]
  note t2 = sync_returns_apply_error[OF p(2) g(2) d a2]
  note t3 = sync_returns_apply_error[OF p(3) g(3) d a3]
  note t4 = sync_returns_apply_error[OF p(4) g(4) d a4]
  note t5 = sync_returns_apply_error[OF p(5) g(5) d a5]
  note t6 = sync_returns_apply_error[OF p(6) g(6) d a6]
  have e1: "snd (createOrUpdateResources exampleController exampleResource) = ?v"
    using a1 by (simp add: applyManagementState_def m Removed_def Managed_def split: prod.splits)
  have e2: "snd (createOrUpdateResources storageMissing exampleResource) = ?m"
    using a2 by (simp add: applyManagementState_def m Removed_def Managed_def split: prod.splits)
  have e3: "snd (createOrUpdateResources applyFails exampleResource) = ?f"
    using a3 by (simp add: applyManagementState_def m Removed_def Managed_def split: prod.splits)
  have r1: "fst (sync exampleController) = None"
    using t1[THEN conjunct1] by (simp add: eval)
  have r2: "fst (sync storageMissing) = None"
    using t2[THEN conjunct1] by (simp add: eval storageMissing_def)
  have r3: "fst (sync applyFails) = ?f"
    using t3[THEN conjunct1] by (simp add: eval applyFails_def)
  have r4: "fst (sync updateConflict) =
       Some (StatusError ''Conflict''
         ''the object has been modified; please apply your changes to the latest version and try again'')"
    using t4[THEN conjunct1] by (simp add: eval updateConflict_def)
  have r5: "fst (sync noClient) = Some (errorString ''unable to load configuration'')"
    using t5[THEN conjunct1] by (simp add: eval noClient_def)
  have r6: "fst (sync brokenDeploymentLister) =
       Some (errorString (''failed to get '' @ goQuote ''image-registry''
         @ '' deployment: connection refused''))"
    using t6[THEN conjunct1] by (simp add: eval brokenDeploymentLister_def)
  have q1: "processEvent exampleController True = [Forget, Done]"
    using t1[THEN conjunct2, THEN conjunct1] r1 by simp
  have q2: "processEvent storageMissing True = [Forget, Done]"
    using t2[THEN conjunct2, THEN conjunct1] r2 by simp
  have q3: "processEvent applyFails True = [AddRateLimited, Done]"
    using t3[THEN conjunct2, THEN conjunct1] r3 by simp
  have q4: "processEvent updateConflict True = [AddRateLimited, Done]"
    using t4[THEN conjunct2, THEN conjunct1] r4 by simp
  have q5: "processEvent noClient True = [AddRateLimited, Done]"
    using t5[THEN conjunct2, THEN conjunct1] r5 by simp
  have q6: "processEvent brokenDeploymentLister True = [AddRateLimited, Done]"
    using t6[THEN conjunct2, THEN conjunct1] r6 by simp
  show ?thesis
    by (rule conjI[OF e1 conjI[OF r1 conjI[OF q1 conjI[OF e2 conjI[OF r2 conjI[OF q2
          conjI[OF e3 conjI[OF r3 conjI[OF q3 conjI[OF r4 conjI[OF q4 conjI[OF r5 conjI[OF q5
          conjI[OF r6 q6]]]]]]]]]]]]]])
qed

text \<open>
  C1 as stated fails when a write fails: here verification fails, so the apply error is
  a \<open>permanentError\<close>; the deployment is looked up, the \<open>Update\<close> call meets a newer version
  of the resource, \<open>sync\<close> returns the conflict and the key is added to the queue again.
\<close>

theorem sync_permanent_error_requeued:
  "ManagementState (Spec exampleResource) = Managed
   \<and> snd (createOrUpdateResources updateConflict exampleResource) =
       Some (permanentError (errorString
         ''unable to complete resource: replicas must not be negative'') ''VerificationFailed'')
   \<and> getDeployment updateConflict = Inr None
   \<and> snd (sync updateConflict) =
       [Update (exampleResource\<lparr>Meta := (Meta exampleResource)\<lparr>Finalizers := [''finalizer'']\<rparr>\<rparr>)]
   \<and> fst (sync updateConflict) =
       Some (StatusError ''Conflict''
         ''the object has been modified; please apply your changes to the latest version and try again'')
   \<and> processEvent updateConflict True = [AddRateLimited, Done]"
  by (simp add: sync_def setProxy_def syncResource_def getDeployment_def processEvent_def
      persist_def persistSpec_def persistStatus_def
      applyManagementState_def createOrUpdateResources_def
      newPermanentError_def Managed_def Removed_def ImageRegistryName_def
      IsNotFound_def Let_def updateConflict_def exampleController_def exampleResource_def)

section \<open>Properties of the drivers\<close>

text \<open>
  C6. When \<open>status.storageManaged\<close> is not true, \<open>RemoveStorage\<close> of either driver
  returns \<open>(false, nil)\<close> at once: the resource and the driver's configuration are as
  they were, and the log is empty (no provider operation, no condition, no write).
\<close>

theorem RemoveStorage_not_managed:
  assumes "StorageManaged (Status c) \<noteq> True"
  shows "azure_RemoveStorage w d c = Return ((False, None), \<lparr>cr = c, dConfig = d, trace = []\<rparr>)
       \<and> s3_RemoveStorage w' d' c = Return ((False, None), \<lparr>cr = c, dConfig = d', trace = []\<rparr>)"
  using assms by (simp add: azure_RemoveStorage_def s3_RemoveStorage_def enter_def)

theorem RemoveStorage_not_managed_witness:
  "StorageManaged (Status bucketResource) \<noteq> True
   \<and> azure_RemoveStorage azureUserKey userAccount bucketResource =
       Return ((False, None), \<lparr>cr = bucketResource, dConfig = userAccount, trace = []\<rparr>)
   \<and> s3_RemoveStorage s3NamesTaken userBucket bucketResource =
       Return ((False, None), \<lparr>cr = bucketResource, dConfig = userBucket, trace = []\<rparr>)"
proof -
  have h: "StorageManaged (Status bucketResource) \<noteq> True"
    by (simp add: bucketResource_def exampleResource_def)
  show ?thesis
    using RemoveStorage_not_managed[OF h, of azureUserKey userAccount s3NamesTaken userBucket] h
    by simp
qed

text \<open>
  C5 (as amended). In user-managed mode (the configuration read from the secrets holds an account
  key) \<open>CreateStorage\<close> of the Azure driver returns nil without any provider operation.
  When the account name or the container name is missing, it only sets the condition
  StorageExists to False with reason StorageNotConfigured: \<open>storageManaged\<close>, the storage
  of the status, the spec and the metadata stay as they were. When both are there, it
  sets \<open>storageManaged\<close> to false, records the configuration in the status and sets the
  condition to True with reason UserManaged.
\<close>

theorem azure_CreateStorage_user_managed:
  assumes "azure_GetConfig w = Inr cfg" and "AccountKey cfg \<noteq> []"
  shows "(AccountName d = [] \<or> Container d = [] \<longrightarrow>
           (\<exists>m s. azure_CreateStorage w d c = Return (None, s)
              \<and> s = updateCondition (Now w) StorageExists ConditionFalse
                     storageExistsReasonNotConfigured m (enter d c)
              \<and> conditionIs (cr s) StorageExists ConditionFalse ''StorageNotConfigured'' m
              \<and> providerCalls (trace s) = []
              \<and> StorageManaged (Status (cr s)) = StorageManaged (Status c)
              \<and> StatusStorage (Status (cr s)) = StatusStorage (Status c)
              \<and> Spec (cr s) = Spec c \<and> Meta (cr s) = Meta c \<and> dConfig s = d))
       \<and> (AccountName d \<noteq> [] \<and> Container d \<noteq> [] \<longrightarrow>
           (\<exists>s. azure_CreateStorage w d c = Return (None, s)
              \<and> StorageManaged (Status (cr s)) = False
              \<and> Azure (StatusStorage (Status (cr s))) = Some d
              \<and> conditionIs (cr s) StorageExists ConditionTrue ''UserManaged''
                   ''Storage is managed by the user''
              \<and> providerCalls (trace s) = []
              \<and> Spec (cr s) = Spec c \<and> Meta (cr s) = Meta c \<and> dConfig s = d))"
proof (intro conjI impI)
  assume missing: "AccountName d = [] \<or> Container d = []"
  define m where "m = (if AccountName d = []
    then ''Storage account key is provided, but account name is not specified''
    else ''Storage account is provided, but container is not specified'')"
  define s where "s = updateCondition (Now w) StorageExists ConditionFalse
                     storageExistsReasonNotConfigured m (enter d c)"
  have run: "azure_CreateStorage w d c = Return (None, s)"
    using assms missing by (auto simp: azure_CreateStorage_def s_def m_def enter_simps)
  have cond: "conditionIs (cr s) StorageExists ConditionFalse ''StorageNotConfigured'' m"
    unfolding s_def updateCondition_simps storageExistsReasonNotConfigured_def
    by (rule conditionIs_UpdateCondition)
  have frame: "providerCalls (trace s) = []
              \<and> StorageManaged (Status (cr s)) = StorageManaged (Status c)
              \<and> StatusStorage (Status (cr s)) = StatusStorage (Status c)
              \<and> Spec (cr s) = Spec c \<and> Meta (cr s) = Meta c \<and> dConfig s = d"
    by (simp add: s_def updateCondition_simps enter_simps UpdateCondition_frame
        providerCalls_def)
  from run cond frame s_def
  show "\<exists>m s. azure_CreateStorage w d c = Return (None, s)
              \<and> s = updateCondition (Now w) StorageExists ConditionFalse
                     storageExistsReasonNotConfigured m (enter d c)
              \<and> conditionIs (cr s) StorageExists ConditionFalse ''StorageNotConfigured'' m
              \<and> providerCalls (trace s) = []
              \<and> StorageManaged (Status (cr s)) = StorageManaged (Status c)
              \<and> StatusStorage (Status (cr s)) = StatusStorage (Status c)
              \<and> Spec (cr s) = Spec c \<and> Meta (cr s) = Meta c \<and> dConfig s = d"
    by blast
next
  assume present: "AccountName d \<noteq> [] \<and> Container d \<noteq> []"
  define s where "s = updateCondition (Now w) StorageExists ConditionTrue
     storageExistsReasonUserManaged ''Storage is managed by the user''
     (writeStatusAzure (Some d) (setStorageManaged False (enter d c)))"
  have run: "azure_CreateStorage w d c = Return (None, s)"
    using assms present
    by (simp add: azure_CreateStorage_def s_def enter_simps setStorageManaged_simps Let_def)
  have cond: "conditionIs (cr s) StorageExists ConditionTrue ''UserManaged''
                   ''Storage is managed by the user''"
    unfolding s_def updateCondition_simps storageExistsReasonUserManaged_def
    by (rule conditionIs_UpdateCondition)
  have frame: "StorageManaged (Status (cr s)) = False
              \<and> Azure (StatusStorage (Status (cr s))) = Some d
              \<and> providerCalls (trace s) = []
              \<and> Spec (cr s) = Spec c \<and> Meta (cr s) = Meta c \<and> dConfig s = d"
    by (simp add: s_def updateCondition_simps enter_simps UpdateCondition_frame
        providerCalls_def writeStatusAzure_simps setStorageManaged_simps)
  from run cond frame
  show "\<exists>s. azure_CreateStorage w d c = Return (None, s)
              \<and> StorageManaged (Status (cr s)) = False
              \<and> Azure (StatusStorage (Status (cr s))) = Some d
              \<and> conditionIs (cr s) StorageExists ConditionTrue ''UserManaged''
                   ''Storage is managed by the user''
              \<and> providerCalls (trace s) = []
              \<and> Spec (cr s) = Spec c \<and> Meta (cr s) = Meta c \<and> dConfig s = d"
    by blast
qed

theorem azure_CreateStorage_user_managed_witness:
  "azure_GetConfig azureUserKey =
     Inr \<lparr>SubscriptionID = [], ClientID = [], ClientSecret = [], TenantID = [],
          ResourceGroup = [], azureRegion = [], AccountKey = ''a2V5''\<rparr>
   \<and> AccountName noAccount = []
   \<and> (\<exists>m s. azure_CreateStorage azureUserKey noAccount exampleResource = Return (None, s)
         \<and> conditionIs (cr s) StorageExists ConditionFalse ''StorageNotConfigured'' m
         \<and> providerCalls (trace s) = []
         \<and> StorageManaged (Status (cr s)) = False
         \<and> StatusStorage (Status (cr s)) = \<lparr>Azure = None, S3 = None\<rparr>)
   \<and> AccountName userAccount \<noteq> [] \<and> Container userAccount \<noteq> []
   \<and> (\<exists>s. azure_CreateStorage azureUserKey userAccount exampleResource = Return (None, s)
         \<and> StorageManaged (Status (cr s)) = False
         \<and> Azure (StatusStorage (Status (cr s))) = Some userAccount
         \<and> conditionIs (cr s) StorageExists ConditionTrue ''UserManaged''
              ''Storage is managed by the user''
         \<and> providerCalls (trace s) = [])
   \<and> (\<exists>m s. azure_CreateStorage azureUserKey noAccount managedAccountResource
            = Return (None, s)
         \<and> conditionIs (cr s) StorageExists ConditionFalse ''StorageNotConfigured'' m
         \<and> providerCalls (trace s) = []
         \<and> StorageManaged (Status (cr s)) = True
         \<and> StatusStorage (Status (cr s)) = \<lparr>Azure = Some userAccount, S3 = None\<rparr>)"
proof -
  have old: "azure_GetConfig azureUserKey =
     Inr \<lparr>SubscriptionID = [], ClientID = [], ClientSecret = [], TenantID = [],
          ResourceGroup = [], azureRegion = [], AccountKey = ''a2V5''\<rparr>
   \<and> AccountName noAccount = []
   \<and> (\<exists>m s. azure_CreateStorage azureUserKey noAccount exampleResource = Return (None, s)
         \<and> conditionIs (cr s) StorageExists ConditionFalse ''StorageNotConfigured'' m
         \<and> providerCalls (trace s) = []
         \<and> StorageManaged (Status (cr s)) = False
         \<and> StatusStorage (Status (cr s)) = \<lparr>Azure = None, S3 = None\<rparr>)
   \<and> AccountName userAccount \<noteq> [] \<and> Container userAccount \<noteq> []
   \<and> (\<exists>s. azure_CreateStorage azureUserKey userAccount exampleResource = Return (None, s)
         \<and> StorageManaged (Status (cr s)) = False
         \<and> Azure (StatusStorage (Status (cr s))) = Some userAccount
         \<and> conditionIs (cr s) StorageExists ConditionTrue ''UserManaged''
              ''Storage is managed by the user''
         \<and> providerCalls (trace s) = [])"
  proof -
    have k: "AccountKey \<lparr>SubscriptionID = [], ClientID = [], ClientSecret = [], TenantID = [],
            ResourceGroup = [], azureRegion = [], AccountKey = ''a2V5''\<rparr> \<noteq> []"
      by simp
    have n: "AccountName noAccount = []"
      by (simp add: noAccount_def)
    have u: "AccountName userAccount \<noteq> [] \<and> Container userAccount \<noteq> []"
      by (simp add: userAccount_def)
    have e: "StorageManaged (Status exampleResource) = False
             \<and> StatusStorage (Status exampleResource) = \<lparr>Azure = None, S3 = None\<rparr>"
      by (simp add: exampleResource_def)
    show ?thesis
      using azure_CreateStorage_user_managed[OF azureUserKey_config k, of noAccount exampleResource]
        azure_CreateStorage_user_managed[OF azureUserKey_config k, of userAccount exampleResource]
        azureUserKey_config n u e
      by (simp del: ex_simps) metis
  qed
  have k: "AccountKey \<lparr>SubscriptionID = [], ClientID = [], ClientSecret = [], TenantID = [],
          ResourceGroup = [], azureRegion = [], AccountKey = ''a2V5''\<rparr> \<noteq> []"
    by simp
  have n: "AccountName noAccount = [] \<or> Container noAccount = []"
    by (simp add: noAccount_def)
  from azure_CreateStorage_user_managed[OF azureUserKey_config k,
      of noAccount managedAccountResource, THEN conjunct1, THEN mp, OF n]
  obtain m s where
    "azure_CreateStorage azureUserKey noAccount managedAccountResource = Return (None, s)"
    "conditionIs (cr s) StorageExists ConditionFalse ''StorageNotConfigured'' m"
    "providerCalls (trace s) = []"
    "StorageManaged (Status (cr s)) = StorageManaged (Status managedAccountResource)"
    "StatusStorage (Status (cr s)) = StatusStorage (Status managedAccountResource)"
    by blast
  then have new: "(\<exists>m s. azure_CreateStorage azureUserKey noAccount managedAccountResource
              = Return (None, s)
           \<and> conditionIs (cr s) StorageExists ConditionFalse ''StorageNotConfigured'' m
           \<and> providerCalls (trace s) = []
           \<and> StorageManaged (Status (cr s)) = True
           \<and> StatusStorage (Status (cr s)) = \<lparr>Azure = Some userAccount, S3 = None\<rparr>)"
    by (auto simp: managedAccountResource_def)
  from old new show ?thesis
    by (elim conjE) (intro conjI; assumption)
qed

lemma azure_CreateStorage_no_name:
  assumes "azure_GetConfig w = Inr cfg" and "AccountKey cfg \<noteq> []" and "AccountName d = []"
  shows "azure_CreateStorage w d c =
           Return (None,
             updateCondition (Now w) StorageExists ConditionFalse
               storageExistsReasonNotConfigured
               ''Storage account key is provided, but account name is not specified''
               (enter d c))"
  using assms by (simp add: azure_CreateStorage_def enter_simps)

text \<open>
  C5 as stated fails where it says that \<open>storageManaged\<close> is left false: the branch for
  a missing name returns before the flag is touched. \<open>RemoveStorage\<close> of the Azure driver
  clears both names and leaves \<open>storageManaged\<close> true; when the user then supplies an
  account key, \<open>CreateStorage\<close> sets the condition to False with reason
  StorageNotConfigured, returns nil without a provider operation, and \<open>storageManaged\<close> is
  still true.
\<close>

theorem azure_CreateStorage_leaves_managed:
  "\<exists>s0 s. azure_RemoveStorage azureNamesTaken userAccount managedAccountResource
             = Return ((False, None), s0)
       \<and> AccountName (dConfig s0) = [] \<and> Container (dConfig s0) = []
       \<and> StorageManaged (Status (cr s0)) = True
       \<and> azure_GetConfig azureUserKey =
            Inr \<lparr>SubscriptionID = [], ClientID = [], ClientSecret = [], TenantID = [],
                 ResourceGroup = [], azureRegion = [], AccountKey = ''a2V5''\<rparr>
       \<and> azure_CreateStorage azureUserKey (dConfig s0) (cr s0) = Return (None, s)
       \<and> conditionIs (cr s) StorageExists ConditionFalse ''StorageNotConfigured''
            ''Storage account key is provided, but account name is not specified''
       \<and> providerCalls (trace s) = []
       \<and> StorageManaged (Status (cr s)) = True"
proof -
  from azureNamesTaken_removed obtain s0 where
    r: "azure_RemoveStorage azureNamesTaken userAccount managedAccountResource
          = Return ((False, None), s0)"
    and d: "dConfig s0 = noAccount" and m: "StorageManaged (Status (cr s0)) = True"
    by blast
  have n: "AccountName (dConfig s0) = []" "Container (dConfig s0) = []"
    unfolding d by (simp_all add: noAccount_def)
  define s where "s = updateCondition (Now azureUserKey) StorageExists ConditionFalse
               storageExistsReasonNotConfigured
               ''Storage account key is provided, but account name is not specified''
               (enter (dConfig s0) (cr s0))"
  have run: "azure_CreateStorage azureUserKey (dConfig s0) (cr s0) = Return (None, s)"
    unfolding s_def
    by (rule azure_CreateStorage_no_name[OF azureUserKey_config _ n(1)]) simp
  have cond: "conditionIs (cr s) StorageExists ConditionFalse ''StorageNotConfigured''
            ''Storage account key is provided, but account name is not specified''"
    unfolding s_def updateCondition_simps storageExistsReasonNotConfigured_def
    by (rule conditionIs_UpdateCondition)
  have rest: "providerCalls (trace s) = [] \<and> StorageManaged (Status (cr s)) = True"
    by (simp add: s_def updateCondition_simps enter_simps UpdateCondition_frame
        providerCalls_def m)
  from r n m azureUserKey_config run cond rest show ?thesis by blast
qed

text \<open>
  C8 (as amended). \<open>StorageChanged\<close> returns true exactly when the storage of the status
  and the storage of the spec differ for the driver's provider. The Azure driver leaves
  the resource as it was. The S3 driver, when it returns true, sets the condition
  StorageExists to Unknown with reason "S3 Configuration Changed", and leaves the
  resource as it was otherwise. Neither runs a provider operation.
\<close>

theorem StorageChanged_compares:
  "fst (azure_StorageChanged d c) =
     (Azure (StatusStorage (Status c)) \<noteq> Azure (SpecStorage (Spec c)))
   \<and> snd (azure_StorageChanged d c) = \<lparr>cr = c, dConfig = d, trace = []\<rparr>
   \<and> fst (s3_StorageChanged w d' c) =
     (S3 (StatusStorage (Status c)) \<noteq> S3 (SpecStorage (Spec c)))
   \<and> snd (s3_StorageChanged w d' c) =
     (if S3 (StatusStorage (Status c)) \<noteq> S3 (SpecStorage (Spec c))
      then \<lparr>cr = UpdateCondition (Now w) c StorageExists ConditionUnknown
                   ''S3 Configuration Changed'' ''S3 storage is in an unknown state'',
            dConfig = d',
            trace = [ConditionUpdate StorageExists ConditionUnknown
                       ''S3 Configuration Changed'' ''S3 storage is in an unknown state'']\<rparr>
      else \<lparr>cr = c, dConfig = d', trace = []\<rparr>)
   \<and> providerCalls (trace (snd (s3_StorageChanged w d' c))) = []"
  by (simp add: azure_StorageChanged_def s3_StorageChanged_def enter_def updateCondition_def
      providerCalls_def Let_def)

text \<open>
  C8 as stated fails for the S3 driver, which is not pure: for a resource whose spec
  names a bucket and whose status names none, it returns true and the resource gets a
  condition that it did not have.
\<close>

theorem s3_StorageChanged_sets_condition:
  "fst (s3_StorageChanged s3NamesTaken userBucket bucketResource) = True
   \<and> findCondition bucketResource StorageExists = None
   \<and> findCondition (cr (snd (s3_StorageChanged s3NamesTaken userBucket bucketResource)))
       StorageExists =
       Some \<lparr>condType = ''StorageExists'', condStatus = ConditionUnknown,
             condReason = ''S3 Configuration Changed'',
             condMessage = ''S3 storage is in an unknown state'',
             condLastTransitionTime = 7\<rparr>
   \<and> cr (snd (s3_StorageChanged s3NamesTaken userBucket bucketResource)) \<noteq> bucketResource"
proof -
  have a: "fst (s3_StorageChanged s3NamesTaken userBucket bucketResource) = True"
    by (simp add: s3_StorageChanged_def enter_def bucketResource_def exampleResource_def)
  have b: "findCondition bucketResource StorageExists = None"
    by (simp add: findCondition_def bucketResource_def exampleResource_def)
  have c: "findCondition (cr (snd (s3_StorageChanged s3NamesTaken userBucket bucketResource)))
       StorageExists =
       Some \<lparr>condType = ''StorageExists'', condStatus = ConditionUnknown,
             condReason = ''S3 Configuration Changed'',
             condMessage = ''S3 storage is in an unknown state'',
             condLastTransitionTime = 7\<rparr>"
    by (simp add: s3_StorageChanged_def enter_def updateCondition_def UpdateCondition_def
        setCondition_def findCondition_def StorageExists_def bucketResource_def
        exampleResource_def s3NamesTaken_def)
  from b c have "cr (snd (s3_StorageChanged s3NamesTaken userBucket bucketResource))
                 \<noteq> bucketResource"
    by auto
  with a b c show ?thesis by simp
qed

















lemma createBucketLoop_exists:
  assumes "i < 5000" and "Bucket (dConfig s) \<noteq> []"
      and "CreateBucket w i (Bucket (dConfig s)) = Some (awserrError ErrCodeBucketAlreadyExists m)"
  shows "createBucketLoop w infra i False s =
           (LoopEnd (),
            bucketCreated w
              (updateCondition (Now w) StorageExists ConditionFalse ''Unable to Access Bucket''
                 ''The bucket exists, but we do not have permission to access it''
                 (called ''CreateBucket''
                    (Some (awserrError ErrCodeBucketAlreadyExists m)) s)))"
  using assms
  by (subst createBucketLoop.simps)
     (simp add: nameBucket_def Let_def awsCode_def called_simps)

text \<open>
  C10. When an iteration of the creation loop of the S3 driver runs with a bucket name
  that was not generated and \<open>CreateBucket\<close> fails with BucketAlreadyExists, the loop
  ends as if the bucket had been created: \<open>storageManaged\<close> is true, the driver's
  configuration is in the spec and in the status, and the condition StorageExists is
  True with reason "Creation Successful", the condition "Unable to Access Bucket"
  having been set just before. \<open>CreateStorage\<close> reaches the loop in that way for a
  configured bucket that the provider reports as missing or forbidden, and goes on with
  the wait for the bucket.
\<close>

theorem createBucketLoop_user_bucket_taken:
  assumes "i < 5000" and "Bucket (dConfig s) \<noteq> []"
      and "CreateBucket w i (Bucket (dConfig s)) = Some (awserrError ErrCodeBucketAlreadyExists m)"
  shows "fst (createBucketLoop w infra i False s) = LoopEnd ()
       \<and> StorageManaged (Status (cr (snd (createBucketLoop w infra i False s)))) = True
       \<and> S3 (StatusStorage (Status (cr (snd (createBucketLoop w infra i False s)))))
           = Some (dConfig s)
       \<and> S3 (SpecStorage (Spec (cr (snd (createBucketLoop w infra i False s)))))
           = Some (dConfig s)
       \<and> conditionIs (cr (snd (createBucketLoop w infra i False s))) StorageExists
           ConditionTrue ''Creation Successful'' ''S3 bucket was successfully created''
       \<and> trace (snd (createBucketLoop w infra i False s)) =
           ConditionUpdate StorageExists ConditionTrue ''Creation Successful''
             ''S3 bucket was successfully created''
           # StatusStorageWrite
           # ConditionUpdate StorageExists ConditionFalse ''Unable to Access Bucket''
               ''The bucket exists, but we do not have permission to access it''
           # ProviderCall ''CreateBucket'' False
           # trace s
       \<and> dConfig (snd (createBucketLoop w infra i False s)) = dConfig s
       \<and> (\<forall>d c s1 code m'.
            getS3Service w (enter d c) = Return (None, s1)
            \<and> getS3Service w s1 = Return (None, s1)
            \<and> GetInfrastructure w = Inr infra
            \<and> Bucket (dConfig s1) \<noteq> []
            \<and> HeadBucket w (Bucket (dConfig s1)) = Some (awserrError code m')
            \<and> isMissingBucketCode code
            \<and> CreateBucket w 0 (Bucket (dConfig s1))
                = Some (awserrError ErrCodeBucketAlreadyExists m)
            \<longrightarrow> s3_CreateStorage w d c =
                s3_CreateStorage_wait w infra
                  (bucketCreated w
                    (updateCondition (Now w) StorageExists ConditionFalse
                       ''Unable to Access Bucket''
                       ''The bucket exists, but we do not have permission to access it''
                       (called ''CreateBucket''
                          (Some (awserrError ErrCodeBucketAlreadyExists m))
                          (updateCondition (Now w) StorageExists ConditionFalse code m'
                             (called ''HeadBucket'' (Some (awserrError code m')) s1))))))"
proof -
  note loop = createBucketLoop_exists[OF assms, of infra]
  have whole: "\<And>d c s1 code m'.
            getS3Service w (enter d c) = Return (None, s1)
            \<and> getS3Service w s1 = Return (None, s1)
            \<and> GetInfrastructure w = Inr infra
            \<and> Bucket (dConfig s1) \<noteq> []
            \<and> HeadBucket w (Bucket (dConfig s1)) = Some (awserrError code m')
            \<and> isMissingBucketCode code
            \<and> CreateBucket w 0 (Bucket (dConfig s1))
                = Some (awserrError ErrCodeBucketAlreadyExists m)
            \<Longrightarrow> s3_CreateStorage w d c =
                s3_CreateStorage_wait w infra
                  (bucketCreated w
                    (updateCondition (Now w) StorageExists ConditionFalse
                       ''Unable to Access Bucket''
                       ''The bucket exists, but we do not have permission to access it''
                       (called ''CreateBucket''
                          (Some (awserrError ErrCodeBucketAlreadyExists m))
                          (updateCondition (Now w) StorageExists ConditionFalse code m'
                             (called ''HeadBucket'' (Some (awserrError code m')) s1)))))"
  proof -
    fix d c s1 code m'
    assume a: "getS3Service w (enter d c) = Return (None, s1)
            \<and> getS3Service w s1 = Return (None, s1)
            \<and> GetInfrastructure w = Inr infra
            \<and> Bucket (dConfig s1) \<noteq> []
            \<and> HeadBucket w (Bucket (dConfig s1)) = Some (awserrError code m')
            \<and> isMissingBucketCode code
            \<and> CreateBucket w 0 (Bucket (dConfig s1))
                = Some (awserrError ErrCodeBucketAlreadyExists m)"
    let ?s2 = "updateCondition (Now w) StorageExists ConditionFalse code m'
                 (called ''HeadBucket'' (Some (awserrError code m')) s1)"
    have "createBucketLoop w infra 0 False ?s2 =
           (LoopEnd (),
            bucketCreated w
              (updateCondition (Now w) StorageExists ConditionFalse ''Unable to Access Bucket''
                 ''The bucket exists, but we do not have permission to access it''
                 (called ''CreateBucket''
                    (Some (awserrError ErrCodeBucketAlreadyExists m)) ?s2)))"
      using a by (intro createBucketLoop_exists) (simp_all add: updateCondition_simps called_simps)
    then have "s3_CreateStorage_create w infra ?s2 =
        s3_CreateStorage_wait w infra
          (bucketCreated w
              (updateCondition (Now w) StorageExists ConditionFalse ''Unable to Access Bucket''
                 ''The bucket exists, but we do not have permission to access it''
                 (called ''CreateBucket''
                    (Some (awserrError ErrCodeBucketAlreadyExists m)) ?s2)))"
      using a
      by (simp add: s3_CreateStorage_create_def bucketCreated_simps updateCondition_simps
          called_simps)
    with a show "s3_CreateStorage w d c =
                s3_CreateStorage_wait w infra
                  (bucketCreated w
                    (updateCondition (Now w) StorageExists ConditionFalse
                       ''Unable to Access Bucket''
                       ''The bucket exists, but we do not have permission to access it''
                       (called ''CreateBucket''
                          (Some (awserrError ErrCodeBucketAlreadyExists m)) ?s2)))"
      by (simp add: s3_CreateStorage_def bucketExists_def Let_def awsCode_def)
  qed
  show ?thesis
    unfolding loop
    using whole
    by (simp add: bucketCreated_simps updateCondition_simps called_simps)
qed

theorem createBucketLoop_user_bucket_taken_witness:
  "(0::nat) < 5000
   \<and> Bucket (dConfig (enter userBucket bucketResource)) \<noteq> []
   \<and> CreateBucket s3NamesTaken 0 (Bucket (dConfig (enter userBucket bucketResource))) =
       Some (awserrError ErrCodeBucketAlreadyExists
         ''BucketAlreadyExists: the requested bucket name is not available'')
   \<and> fst (createBucketLoop s3NamesTaken exampleInfrastructure 0 False
              (enter userBucket bucketResource)) = LoopEnd ()
   \<and> StorageManaged (Status (cr (snd (createBucketLoop s3NamesTaken exampleInfrastructure 0
         False (enter userBucket bucketResource))))) = True
   \<and> S3 (StatusStorage (Status (cr (snd (createBucketLoop s3NamesTaken exampleInfrastructure 0
         False (enter userBucket bucketResource)))))) = Some userBucket
   \<and> S3 (SpecStorage (Spec (cr (snd (createBucketLoop s3NamesTaken exampleInfrastructure 0
         False (enter userBucket bucketResource)))))) = Some userBucket
   \<and> conditionIs (cr (snd (createBucketLoop s3NamesTaken exampleInfrastructure 0 False
         (enter userBucket bucketResource)))) StorageExists
         ConditionTrue ''Creation Successful'' ''S3 bucket was successfully created''
   \<and> trace (snd (createBucketLoop s3NamesTaken exampleInfrastructure 0 False
         (enter userBucket bucketResource))) =
         [ConditionUpdate StorageExists ConditionTrue ''Creation Successful''
            ''S3 bucket was successfully created'',
          StatusStorageWrite,
          ConditionUpdate StorageExists ConditionFalse ''Unable to Access Bucket''
            ''The bucket exists, but we do not have permission to access it'',
          ProviderCall ''CreateBucket'' False]"
proof -
  have h1: "(0::nat) < 5000" by simp
  have h2: "Bucket (dConfig (enter userBucket bucketResource)) \<noteq> []"
    by (simp add: enter_simps userBucket_def noBucket_def)
  have h3: "CreateBucket s3NamesTaken 0 (Bucket (dConfig (enter userBucket bucketResource))) =
       Some (awserrError ErrCodeBucketAlreadyExists
         ''BucketAlreadyExists: the requested bucket name is not available'')"
    by (simp add: s3NamesTaken_fields ErrCodeBucketAlreadyExists_def)
  from createBucketLoop_user_bucket_taken[OF h1 h2 h3, of exampleInfrastructure] h1 h2 h3
  show ?thesis
    by (simp add: enter_simps)
qed

lemma createAccountLoop_exhausted:
  assumes "\<forall>j. i \<le> j \<and> j < maxAttempts \<longrightarrow>
             isErrNameNotAvailable (the (createStorageAccount w j (ResourceGroup cfg)
               (generateAccountName (InfrastructureName infra) (randString w j))
               (azureRegion cfg)))
             \<and> createStorageAccount w j (ResourceGroup cfg)
               (generateAccountName (InfrastructureName infra) (randString w j))
               (azureRegion cfg) \<noteq> None"
  shows "createAccountLoop w cfg infra i lastErr s =
           (LoopEnd (if i < maxAttempts
                     then createStorageAccount w (maxAttempts - 1) (ResourceGroup cfg)
                            (generateAccountName (InfrastructureName infra)
                               (randString w (maxAttempts - 1)))
                            (azureRegion cfg)
                     else lastErr),
            s\<lparr>trace := replicate (maxAttempts - i) (ProviderCall ''createStorageAccount'' False)
                          @ trace s\<rparr>)"
  using assms
proof (induction "maxAttempts - i" arbitrary: i lastErr s)
  case 0
  then have "\<not> i < maxAttempts" by simp
  then show ?case
    by (subst createAccountLoop.simps) simp
next
  case (Suc n)
  then have lt: "i < maxAttempts" by simp
  let ?a = "createStorageAccount w i (ResourceGroup cfg)
               (generateAccountName (InfrastructureName infra) (randString w i))
               (azureRegion cfg)"
  from Suc.prems lt obtain e where e: "?a = Some e" and n: "isErrNameNotAvailable e"
    by (cases ?a) auto
  have step: "createAccountLoop w cfg infra i lastErr s =
      createAccountLoop w cfg infra (i + 1) (Some e) (called ''createStorageAccount'' (Some e) s)"
    using lt e n by (subst createAccountLoop.simps) (simp add: Let_def)
  have m: "n = maxAttempts - (i + 1)" using Suc.hyps(2) by simp
  have rest: "\<forall>j. i + 1 \<le> j \<and> j < maxAttempts \<longrightarrow>
             isErrNameNotAvailable (the (createStorageAccount w j (ResourceGroup cfg)
               (generateAccountName (InfrastructureName infra) (randString w j))
               (azureRegion cfg)))
             \<and> createStorageAccount w j (ResourceGroup cfg)
               (generateAccountName (InfrastructureName infra) (randString w j))
               (azureRegion cfg) \<noteq> None"
    using Suc.prems by simp
  have last: "\<not> i + 1 < maxAttempts \<Longrightarrow> maxAttempts - 1 = i"
    using lt by simp
  have count: "maxAttempts - i = Suc (maxAttempts - (i + 1))"
    using lt by simp
  show ?case
    unfolding step Suc.hyps(1)[OF m rest]
    using lt e last
    by (auto simp: called_def count replicate_app_Cons_same)
qed

lemma createBucketLoop_exhausted:
  assumes "Bucket (dConfig s) = []"
      and "\<forall>j. i \<le> j \<and> j < 5000 \<longrightarrow>
             (\<exists>n m. generateBucketName w infra j s = Some n \<and>
                CreateBucket w j n = Some (awserrError ErrCodeBucketAlreadyExists m))"
  shows "createBucketLoop w infra i g s =
           (LoopEnd (),
            s\<lparr>trace := replicate (5000 - i) (ProviderCall ''CreateBucket'' False) @ trace s\<rparr>)"
  using assms
proof (induction "5000 - i" arbitrary: i g s)
  case 0
  then have "\<not> i < 5000" by simp
  then show ?case
    by (subst createBucketLoop.simps) simp
next
  case (Suc k)
  then have lt: "i < 5000" by simp
  from Suc.prems(2) lt obtain n m where
    n: "generateBucketName w infra i s = Some n" and
    c: "CreateBucket w i n = Some (awserrError ErrCodeBucketAlreadyExists m)"
    by blast
  let ?s1 = "(called ''CreateBucket'' (Some (awserrError ErrCodeBucketAlreadyExists m))
               (s\<lparr>dConfig := (dConfig s)\<lparr>Bucket := n\<rparr>\<rparr>))
               \<lparr>dConfig := (dConfig s)\<lparr>Bucket := []\<rparr>\<rparr>"
  have step: "createBucketLoop w infra i g s = createBucketLoop w infra (i + 1) True ?s1"
    using lt n c Suc.prems(1)
    by (subst createBucketLoop.simps) (simp add: nameBucket_def Let_def awsCode_def called_def)
  have k: "k = 5000 - (i + 1)" using Suc.hyps(2) by simp
  have b: "Bucket (dConfig ?s1) = []" by simp
  have rest: "\<forall>j. i + 1 \<le> j \<and> j < 5000 \<longrightarrow>
             (\<exists>n m. generateBucketName w infra j ?s1 = Some n \<and>
                CreateBucket w j n = Some (awserrError ErrCodeBucketAlreadyExists m))"
    using Suc.prems(2) by (simp add: generateBucketName_def called_def)
  have count: "5000 - i = Suc (5000 - (i + 1))"
    using lt by simp
  have same: "(dConfig s)\<lparr>Bucket := []\<rparr> = dConfig s"
    using Suc.prems(1) by (rule clearBucket_id)
  show ?case
    unfolding step Suc.hyps(1)[OF k b rest]
    by (simp add: called_def count replicate_app_Cons_same same)
qed

lemma azure_exhausted:
  assumes "azure_GetConfig w = Inr cfg" and "AccountKey cfg = []"
      and "Authorizer w cfg = None" and "AccountName d = []"
      and "GetInfrastructure w = Inr infra"
      and "\<forall>j<maxAttempts. \<exists>e. accountAttempt w cfg infra j = Some e \<and> isErrNameNotAvailable e"
  shows "\<exists>e. accountAttempt w cfg infra 9 = Some e
          \<and> azure_CreateStorage w d c =
              Return (Some (errorString
                  (''attmpts to create storage account failed, last error: '' @ Error e)),
                updateCondition (Now w) StorageExists ConditionFalse
                  storageExistsReasonAzureError
                  (''Unable to create storage account: '' @ Error e)
                  ((enter d c)\<lparr>trace :=
                     replicate 10 (ProviderCall ''createStorageAccount'' False)\<rparr>))"
proof -
  have "(9::nat) < maxAttempts" by (simp add: maxAttempts_def)
  with assms(6) obtain e where e: "accountAttempt w cfg infra 9 = Some e"
    by blast
  have all: "\<forall>j. 0 \<le> j \<and> j < maxAttempts \<longrightarrow>
             isErrNameNotAvailable (the (createStorageAccount w j (ResourceGroup cfg)
               (generateAccountName (InfrastructureName infra) (randString w j))
               (azureRegion cfg)))
             \<and> createStorageAccount w j (ResourceGroup cfg)
               (generateAccountName (InfrastructureName infra) (randString w j))
               (azureRegion cfg) \<noteq> None"
    using assms(6) unfolding accountAttempt_def by fastforce
  have loop: "createAccountLoop w cfg infra 0 None (enter d c) =
      (LoopEnd (Some e),
       (enter d c)\<lparr>trace := replicate 10 (ProviderCall ''createStorageAccount'' False)\<rparr>)"
    using createAccountLoop_exhausted[OF all, of None "enter d c"] e
    by (simp add: maxAttempts_def accountAttempt_def enter_simps)
  have "azure_CreateStorage w d c =
              Return (Some (errorString
                  (''attmpts to create storage account failed, last error: '' @ Error e)),
                updateCondition (Now w) StorageExists ConditionFalse
                  storageExistsReasonAzureError
                  (''Unable to create storage account: '' @ Error e)
                  ((enter d c)\<lparr>trace :=
                     replicate 10 (ProviderCall ''createStorageAccount'' False)\<rparr>))"
    using assms(1-5)
    by (simp add: azure_CreateStorage_def Let_def enter_simps loop SprintError_def)
  with e show ?thesis by blast
qed

lemma s3_exhausted:
  assumes "getS3Service w (enter d c) = Return (None, s1)"
      and "GetInfrastructure w = Inr infra" and "Bucket d = []"
      and "\<forall>j<5000. \<exists>n m. generateBucketName w infra j s1 = Some n \<and>
             CreateBucket w j n = Some (awserrError ErrCodeBucketAlreadyExists m)"
  shows "s3_CreateStorage w d c =
           Return (Some (errorString ''unable to generate a unique s3 bucket name''),
             updateCondition (Now w) StorageExists ConditionFalse
               ''Unable to Generate Unique Bucket Name'' []
               (s1\<lparr>trace := replicate 5000 (ProviderCall ''CreateBucket'' False)\<rparr>))"
proof -
  from getS3Service_frame[OF assms(1)] assms(3)
  have b: "Bucket (dConfig s1) = []" and t: "trace s1 = []"
    by (simp_all add: enter_simps)
  have all: "\<forall>j. 0 \<le> j \<and> j < 5000 \<longrightarrow>
             (\<exists>n m. generateBucketName w infra j s1 = Some n \<and>
                CreateBucket w j n = Some (awserrError ErrCodeBucketAlreadyExists m))"
    using assms(4) by simp
  have loop: "createBucketLoop w infra 0 False s1 =
      (LoopEnd (), s1\<lparr>trace := replicate 5000 (ProviderCall ''CreateBucket'' False)\<rparr>)"
    using createBucketLoop_exhausted[OF b all, of False] t by simp
  show ?thesis
    using assms(1,2) b
    by (simp add: s3_CreateStorage_def s3_CreateStorage_create_def Let_def loop)
qed

lemma generateAccountName_nonempty: "generateAccountName infra rnd \<noteq> []"
proof -
  define p0 where "p0 = filter (\<lambda>c. \<not> storageAccountInvalidChar c) infra"
  define p1 where "p1 = (if p0 = [] then ''imageregistry'' else p0)"
  have "p1 \<noteq> []" by (simp add: p1_def)
  then have "take 19 p1 \<noteq> []" by simp
  then show ?thesis
    by (simp add: generateAccountName_def Let_def ToLower_def p0_def[symmetric]
        p1_def[symmetric])
qed

lemma generateBucketName_nonempty: "generateBucketName w infra i s = Some n \<Longrightarrow> n \<noteq> []"
  by (auto simp: generateBucketName_def Let_def split: if_splits)

lemma trace_same: "s\<lparr>trace := trace s\<rparr> = s"
  by simp

lemma createAccountLoop_prefix:
  assumes "k \<le> maxAttempts" and "i \<le> k"
      and "\<forall>j. i \<le> j \<and> j < k \<longrightarrow>
             (\<exists>e. accountAttempt w cfg infra j = Some e \<and> isErrNameNotAvailable e)"
  shows "createAccountLoop w cfg infra i lastErr s =
           createAccountLoop w cfg infra k
             (if i < k then accountAttempt w cfg infra (k - 1) else lastErr)
             (s\<lparr>trace := replicate (k - i) (ProviderCall ''createStorageAccount'' False)
                           @ trace s\<rparr>)"
  using assms
proof (induction "k - i" arbitrary: i lastErr s)
  case 0
  then have "i = k" by simp
  then show ?case by simp
next
  case (Suc n)
  then have lt: "i < k" by simp
  with Suc.prems(1) have lt': "i < maxAttempts" by simp
  from Suc.prems(3) lt obtain e where e: "accountAttempt w cfg infra i = Some e"
    and nna: "isErrNameNotAvailable e"
    by blast
  have step: "createAccountLoop w cfg infra i lastErr s =
      createAccountLoop w cfg infra (i + 1) (Some e) (called ''createStorageAccount'' (Some e) s)"
    using lt' e nna
    by (subst createAccountLoop.simps) (simp add: Let_def accountAttempt_def)
  have m: "n = k - (i + 1)" using Suc.hyps(2) by simp
  have le: "i + 1 \<le> k" using lt by simp
  have rest: "\<forall>j. i + 1 \<le> j \<and> j < k \<longrightarrow>
             (\<exists>e. accountAttempt w cfg infra j = Some e \<and> isErrNameNotAvailable e)"
    using Suc.prems(3) by simp
  have last: "\<not> i + 1 < k \<Longrightarrow> k - 1 = i"
    using lt by simp
  have count: "k - i = Suc (k - (i + 1))"
    using lt by simp
  show ?case
    unfolding step Suc.hyps(1)[OF m Suc.prems(1) le rest]
    using lt e last
    by (auto simp: called_def count replicate_app_Cons_same)
qed

lemma createAccountLoop_success:
  assumes "k < maxAttempts" and "accountAttempt w cfg infra k = None"
  shows "createAccountLoop w cfg infra k lastErr s =
           (LoopEnd lastErr,
            writeSpecAzure
              (Some ((dConfig s)\<lparr>AccountName :=
                 generateAccountName (InfrastructureName infra) (randString w k)\<rparr>))
              (writeStatusAzure
                (Some ((dConfig s)\<lparr>AccountName :=
                   generateAccountName (InfrastructureName infra) (randString w k)\<rparr>))
                (setStorageManaged True
                  ((called ''createStorageAccount'' None s)\<lparr>dConfig :=
                     (dConfig s)\<lparr>AccountName :=
                       generateAccountName (InfrastructureName infra) (randString w k)\<rparr>\<rparr>))))"
  using assms
  by (subst createAccountLoop.simps)
     (simp add: Let_def accountAttempt_def called_simps setStorageManaged_simps
       writeStatusAzure_simps)

lemma createAccountLoop_failure:
  assumes "k < maxAttempts" and "accountAttempt w cfg infra k = Some e"
      and "\<not> isErrNameNotAvailable e"
  shows "createAccountLoop w cfg infra k lastErr s =
           (LoopReturn e, called ''createStorageAccount'' (Some e) s)"
  using assms
  by (subst createAccountLoop.simps) (simp add: Let_def accountAttempt_def)

lemma azure_attempts:
  assumes "azure_GetConfig w = Inr cfg" and "AccountKey cfg = []"
      and "Authorizer w cfg = None" and "AccountName d = []"
      and "GetInfrastructure w = Inr infra"
      and "k < maxAttempts"
      and "\<forall>j<k. \<exists>e. accountAttempt w cfg infra j = Some e \<and> isErrNameNotAvailable e"
  shows "(accountAttempt w cfg infra k = None \<longrightarrow>
           azure_CreateStorage w d c =
             azure_CreateStorage_container w cfg
               (writeSpecAzure
                 (Some (d\<lparr>AccountName :=
                    generateAccountName (InfrastructureName infra) (randString w k)\<rparr>))
                 (writeStatusAzure
                   (Some (d\<lparr>AccountName :=
                      generateAccountName (InfrastructureName infra) (randString w k)\<rparr>))
                   (setStorageManaged True
                     \<lparr>cr = c,
                      dConfig = d\<lparr>AccountName :=
                        generateAccountName (InfrastructureName infra) (randString w k)\<rparr>,
                      trace = ProviderCall ''createStorageAccount'' True
                              # replicate k (ProviderCall ''createStorageAccount'' False)\<rparr>))))
       \<and> (\<forall>e. accountAttempt w cfg infra k = Some e \<and> \<not> isErrNameNotAvailable e \<longrightarrow>
           azure_CreateStorage w d c =
             Return (Some e,
               \<lparr>cr = c, dConfig = d,
                trace = replicate (k + 1) (ProviderCall ''createStorageAccount'' False)\<rparr>))"
proof -
  have pre: "\<forall>j. 0 \<le> j \<and> j < k \<longrightarrow>
             (\<exists>e. accountAttempt w cfg infra j = Some e \<and> isErrNameNotAvailable e)"
    using assms(7) by simp
  have le: "k \<le> maxAttempts" using assms(6) by simp
  note p = createAccountLoop_prefix[OF le _ pre, of None "enter d c", simplified]
  have ok: "accountAttempt w cfg infra k = None \<longrightarrow>
           azure_CreateStorage w d c =
             azure_CreateStorage_container w cfg
               (writeSpecAzure
                 (Some (d\<lparr>AccountName :=
                    generateAccountName (InfrastructureName infra) (randString w k)\<rparr>))
                 (writeStatusAzure
                   (Some (d\<lparr>AccountName :=
                      generateAccountName (InfrastructureName infra) (randString w k)\<rparr>))
                   (setStorageManaged True
                     \<lparr>cr = c,
                      dConfig = d\<lparr>AccountName :=
                        generateAccountName (InfrastructureName infra) (randString w k)\<rparr>,
                      trace = ProviderCall ''createStorageAccount'' True
                              # replicate k (ProviderCall ''createStorageAccount'' False)\<rparr>)))"
  proof
    assume a: "accountAttempt w cfg infra k = None"
    show "azure_CreateStorage w d c =
             azure_CreateStorage_container w cfg
               (writeSpecAzure
                 (Some (d\<lparr>AccountName :=
                    generateAccountName (InfrastructureName infra) (randString w k)\<rparr>))
                 (writeStatusAzure
                   (Some (d\<lparr>AccountName :=
                      generateAccountName (InfrastructureName infra) (randString w k)\<rparr>))
                   (setStorageManaged True
                     \<lparr>cr = c,
                      dConfig = d\<lparr>AccountName :=
                        generateAccountName (InfrastructureName infra) (randString w k)\<rparr>,
                      trace = ProviderCall ''createStorageAccount'' True
                              # replicate k (ProviderCall ''createStorageAccount'' False)\<rparr>)))"
      using assms(1-5)
      by (simp add: azure_CreateStorage_def Let_def enter_simps p
          createAccountLoop_success[OF assms(6) a] generateAccountName_nonempty
          writeSpecAzure_simps writeStatusAzure_simps setStorageManaged_simps)
         (simp add: enter_def called_def)
  qed
  have bad: "\<forall>e. accountAttempt w cfg infra k = Some e \<and> \<not> isErrNameNotAvailable e \<longrightarrow>
           azure_CreateStorage w d c =
             Return (Some e,
               \<lparr>cr = c, dConfig = d,
                trace = replicate (k + 1) (ProviderCall ''createStorageAccount'' False)\<rparr>)"
  proof (intro allI impI)
    fix e assume a: "accountAttempt w cfg infra k = Some e \<and> \<not> isErrNameNotAvailable e"
    show "azure_CreateStorage w d c =
             Return (Some e,
               \<lparr>cr = c, dConfig = d,
                trace = replicate (k + 1) (ProviderCall ''createStorageAccount'' False)\<rparr>)"
      using assms(1-5)
      by (simp add: azure_CreateStorage_def Let_def enter_simps p
          createAccountLoop_failure[OF assms(6) conjunct1[OF a] conjunct2[OF a]])
         (simp add: enter_def called_def)
  qed
  from ok bad show ?thesis by (rule conjI)
qed

lemma createBucketLoop_prefix:
  assumes "Bucket (dConfig s) = []" and "k \<le> 5000" and "i \<le> k"
      and "\<forall>j. i \<le> j \<and> j < k \<longrightarrow>
             (\<exists>n m. generateBucketName w infra j s = Some n \<and>
                CreateBucket w j n = Some (awserrError ErrCodeBucketAlreadyExists m))"
  shows "createBucketLoop w infra i g s =
           createBucketLoop w infra k (if i < k then True else g)
             (s\<lparr>trace := replicate (k - i) (ProviderCall ''CreateBucket'' False) @ trace s\<rparr>)"
  using assms
proof (induction "k - i" arbitrary: i g s)
  case 0
  then have "i = k" by simp
  then show ?case by simp
next
  case (Suc x)
  then have lt: "i < k" by simp
  with Suc.prems(2) have lt': "i < 5000" by simp
  from Suc.prems(4) lt obtain n m where
    n: "generateBucketName w infra i s = Some n" and
    c: "CreateBucket w i n = Some (awserrError ErrCodeBucketAlreadyExists m)"
    by blast
  let ?s1 = "(called ''CreateBucket'' (Some (awserrError ErrCodeBucketAlreadyExists m))
               (s\<lparr>dConfig := (dConfig s)\<lparr>Bucket := n\<rparr>\<rparr>))
               \<lparr>dConfig := (dConfig s)\<lparr>Bucket := []\<rparr>\<rparr>"
  have step: "createBucketLoop w infra i g s = createBucketLoop w infra (i + 1) True ?s1"
    using lt' n c Suc.prems(1)
    by (subst createBucketLoop.simps) (simp add: nameBucket_def Let_def awsCode_def called_def)
  have x: "x = k - (i + 1)" using Suc.hyps(2) by simp
  have b: "Bucket (dConfig ?s1) = []" by simp
  have le: "i + 1 \<le> k" using lt by simp
  have rest: "\<forall>j. i + 1 \<le> j \<and> j < k \<longrightarrow>
             (\<exists>n m. generateBucketName w infra j ?s1 = Some n \<and>
                CreateBucket w j n = Some (awserrError ErrCodeBucketAlreadyExists m))"
    using Suc.prems(4) by (simp add: generateBucketName_def called_def)
  have count: "k - i = Suc (k - (i + 1))"
    using lt by simp
  have same: "(dConfig s)\<lparr>Bucket := []\<rparr> = dConfig s"
    using Suc.prems(1) by (rule clearBucket_id)
  show ?case
    unfolding step Suc.hyps(1)[OF x b Suc.prems(2) le rest]
    using lt
    by (simp add: called_def count replicate_app_Cons_same same)
qed

lemma createBucketLoop_success:
  assumes "k < 5000" and "Bucket (dConfig s) = []"
      and "generateBucketName w infra k s = Some n" and "CreateBucket w k n = None"
  shows "createBucketLoop w infra k g s =
           (LoopEnd (),
            bucketCreated w
              (called ''CreateBucket'' None (s\<lparr>dConfig := (dConfig s)\<lparr>Bucket := n\<rparr>\<rparr>)))"
  using assms
  by (subst createBucketLoop.simps) (simp add: nameBucket_def Let_def)

lemma createBucketLoop_failure:
  assumes "k < 5000" and "Bucket (dConfig s) = []"
      and "generateBucketName w infra k s = Some n"
      and "CreateBucket w k n = Some (awserrError code m)"
      and "code \<noteq> ErrCodeBucketAlreadyExists"
  shows "createBucketLoop w infra k g s =
           (LoopReturn (awserrError code m),
            updateCondition (Now w) StorageExists ConditionFalse code m
              (called ''CreateBucket'' (Some (awserrError code m))
                 (s\<lparr>dConfig := (dConfig s)\<lparr>Bucket := n\<rparr>\<rparr>)))"
  using assms
  by (subst createBucketLoop.simps) (simp add: nameBucket_def Let_def awsCode_def)

lemma s3_attempts:
  assumes "getS3Service w (enter d c) = Return (None, sv)"
      and "GetInfrastructure w = Inr infra" and "Bucket d = []"
      and "k < 5000"
      and "\<forall>j<k. \<exists>n m. generateBucketName w infra j sv = Some n \<and>
             CreateBucket w j n = Some (awserrError ErrCodeBucketAlreadyExists m)"
      and "generateBucketName w infra k sv = Some n"
  shows "(CreateBucket w k n = None \<longrightarrow>
           s3_CreateStorage w d c =
             s3_CreateStorage_wait w infra
               (bucketCreated w
                  (sv\<lparr>dConfig := (dConfig sv)\<lparr>Bucket := n\<rparr>,
                      trace := ProviderCall ''CreateBucket'' True
                               # replicate k (ProviderCall ''CreateBucket'' False)\<rparr>)))
       \<and> (\<forall>code m. CreateBucket w k n = Some (awserrError code m)
              \<and> code \<noteq> ErrCodeBucketAlreadyExists \<longrightarrow>
           s3_CreateStorage w d c =
             Return (Some (awserrError code m),
               updateCondition (Now w) StorageExists ConditionFalse code m
                 (sv\<lparr>dConfig := (dConfig sv)\<lparr>Bucket := n\<rparr>,
                     trace := replicate (k + 1) (ProviderCall ''CreateBucket'' False)\<rparr>)))"
proof -
  from getS3Service_frame[OF assms(1)] assms(3)
  have b: "Bucket (dConfig sv) = []" and t: "trace sv = []"
    by (simp_all add: enter_simps)
  have pre: "\<forall>j. 0 \<le> j \<and> j < k \<longrightarrow>
             (\<exists>n m. generateBucketName w infra j sv = Some n \<and>
                CreateBucket w j n = Some (awserrError ErrCodeBucketAlreadyExists m))"
    using assms(5) by simp
  have le: "k \<le> 5000" using assms(4) by simp
  let ?sk = "sv\<lparr>trace := replicate k (ProviderCall ''CreateBucket'' False)\<rparr>"
  have p: "createBucketLoop w infra 0 False sv =
           createBucketLoop w infra k (if 0 < k then True else False) ?sk"
    using createBucketLoop_prefix[OF b le _ pre, of False] t by simp
  have bk: "Bucket (dConfig ?sk) = []" using b by simp
  have gk: "generateBucketName w infra k ?sk = Some n"
    using assms(6) by (simp add: generateBucketName_def)
  have ne: "n \<noteq> []" using assms(6) by (rule generateBucketName_nonempty)
  have ok: "CreateBucket w k n = None \<longrightarrow>
           s3_CreateStorage w d c =
             s3_CreateStorage_wait w infra
               (bucketCreated w
                  (sv\<lparr>dConfig := (dConfig sv)\<lparr>Bucket := n\<rparr>,
                      trace := ProviderCall ''CreateBucket'' True
                               # replicate k (ProviderCall ''CreateBucket'' False)\<rparr>))"
  proof
    assume a: "CreateBucket w k n = None"
    show "s3_CreateStorage w d c =
             s3_CreateStorage_wait w infra
               (bucketCreated w
                  (sv\<lparr>dConfig := (dConfig sv)\<lparr>Bucket := n\<rparr>,
                      trace := ProviderCall ''CreateBucket'' True
                               # replicate k (ProviderCall ''CreateBucket'' False)\<rparr>))"
      using assms(1,2) b ne
      by (simp add: s3_CreateStorage_def s3_CreateStorage_create_def Let_def p
          createBucketLoop_success[OF assms(4) bk gk a] bucketCreated_simps called_simps)
         (simp add: called_def)
  qed
  have bad: "\<forall>code m. CreateBucket w k n = Some (awserrError code m)
              \<and> code \<noteq> ErrCodeBucketAlreadyExists \<longrightarrow>
           s3_CreateStorage w d c =
             Return (Some (awserrError code m),
               updateCondition (Now w) StorageExists ConditionFalse code m
                 (sv\<lparr>dConfig := (dConfig sv)\<lparr>Bucket := n\<rparr>,
                     trace := replicate (k + 1) (ProviderCall ''CreateBucket'' False)\<rparr>))"
  proof (intro allI impI)
    fix code m
    assume a: "CreateBucket w k n = Some (awserrError code m)
              \<and> code \<noteq> ErrCodeBucketAlreadyExists"
    show "s3_CreateStorage w d c =
             Return (Some (awserrError code m),
               updateCondition (Now w) StorageExists ConditionFalse code m
                 (sv\<lparr>dConfig := (dConfig sv)\<lparr>Bucket := n\<rparr>,
                     trace := replicate (k + 1) (ProviderCall ''CreateBucket'' False)\<rparr>))"
      using assms(1,2) b
      by (simp add: s3_CreateStorage_def s3_CreateStorage_create_def Let_def p
          createBucketLoop_failure[OF assms(4) bk gk conjunct1[OF a] conjunct2[OF a]])
         (simp add: called_def)
  qed
  from ok bad show ?thesis by (rule conjI)
qed

text \<open>
  C2 (as amended). In managed mode with no account name configured, \<open>CreateStorage\<close> of
  the Azure driver tries one generated name after the other, each from a random string
  of its own. When the first \<open>k\<close> attempts (\<open>k\<close> below 10) end with a name that is not
  available and the next one succeeds, it has run \<open>createStorageAccount\<close> \<open>k + 1\<close> times
  and goes on to the container with the last name as the account name, \<open>storageManaged\<close>
  true and the configuration in the status and the spec; when the next one fails for
  another reason, it returns that error after \<open>k + 1\<close> attempts, and sets no condition.
  When each of the ten attempts ends with a name that is not available, it has run
  \<open>createStorageAccount\<close> exactly ten times, sets the condition StorageExists to False
  with reason AzureError and returns an error whose text ends with the text of the last
  attempt's error. With no bucket name configured, \<open>CreateStorage\<close> of the S3 driver tries
  generated names in the same way (the names having their 62 bytes): after \<open>k\<close>
  attempts (\<open>k\<close> below 5000) that end with BucketAlreadyExists, a successful
  \<open>CreateBucket\<close> leaves the loop with the bucket recorded as created and goes on to wait
  for it, and a failure with another AWS code sets the condition to False with that code
  as the reason and returns the error. When each of the 5000 attempts ends with
  BucketAlreadyExists, it has run \<open>CreateBucket\<close> exactly 5000 times, sets the condition
  to False with the reason "Unable to Generate Unique Bucket Name" and an empty message,
  and returns the fixed error "unable to generate a unique s3 bucket name".
\<close>

theorem CreateStorage_retries:
  "(azure_GetConfig w = Inr cfg \<and> AccountKey cfg = [] \<and> Authorizer w cfg = None
      \<and> AccountName d = [] \<and> GetInfrastructure w = Inr infra
      \<and> (\<forall>j<maxAttempts. \<exists>e. accountAttempt w cfg infra j = Some e \<and> isErrNameNotAvailable e)
    \<longrightarrow> (\<exists>e. accountAttempt w cfg infra 9 = Some e
          \<and> azure_CreateStorage w d c =
              Return (Some (errorString
                  (''attmpts to create storage account failed, last error: '' @ Error e)),
                updateCondition (Now w) StorageExists ConditionFalse
                  storageExistsReasonAzureError
                  (''Unable to create storage account: '' @ Error e)
                  ((enter d c)\<lparr>trace :=
                     replicate 10 (ProviderCall ''createStorageAccount'' False)\<rparr>))))
   \<and> (getS3Service w' (enter d' c) = Return (None, sv)
      \<and> GetInfrastructure w' = Inr infra' \<and> Bucket d' = []
      \<and> (\<forall>j<5000. \<exists>n m. generateBucketName w' infra' j sv = Some n \<and>
             CreateBucket w' j n = Some (awserrError ErrCodeBucketAlreadyExists m))
    \<longrightarrow> s3_CreateStorage w' d' c =
           Return (Some (errorString ''unable to generate a unique s3 bucket name''),
             updateCondition (Now w') StorageExists ConditionFalse
               ''Unable to Generate Unique Bucket Name'' []
               (sv\<lparr>trace := replicate 5000 (ProviderCall ''CreateBucket'' False)\<rparr>)))
   \<and> (azure_GetConfig w = Inr cfg \<and> AccountKey cfg = [] \<and> Authorizer w cfg = None
      \<and> AccountName d = [] \<and> GetInfrastructure w = Inr infra
      \<and> k < maxAttempts
      \<and> (\<forall>j<k. \<exists>e. accountAttempt w cfg infra j = Some e \<and> isErrNameNotAvailable e)
    \<longrightarrow>
      (accountAttempt w cfg infra k = None \<longrightarrow>
           azure_CreateStorage w d c =
             azure_CreateStorage_container w cfg
               (writeSpecAzure
                 (Some (d\<lparr>AccountName :=
                    generateAccountName (InfrastructureName infra) (randString w k)\<rparr>))
                 (writeStatusAzure
                   (Some (d\<lparr>AccountName :=
                      generateAccountName (InfrastructureName infra) (randString w k)\<rparr>))
                   (setStorageManaged True
                     \<lparr>cr = c,
                      dConfig = d\<lparr>AccountName :=
                        generateAccountName (InfrastructureName infra) (randString w k)\<rparr>,
                      trace = ProviderCall ''createStorageAccount'' True
                              # replicate k (ProviderCall ''createStorageAccount'' False)\<rparr>))))
       \<and> (\<forall>e. accountAttempt w cfg infra k = Some e \<and> \<not> isErrNameNotAvailable e \<longrightarrow>
           azure_CreateStorage w d c =
             Return (Some e,
               \<lparr>cr = c, dConfig = d,
                trace = replicate (k + 1) (ProviderCall ''createStorageAccount'' False)\<rparr>)))
   \<and> (getS3Service w' (enter d' c) = Return (None, sv)
      \<and> GetInfrastructure w' = Inr infra' \<and> Bucket d' = []
      \<and> k' < 5000
      \<and> (\<forall>j<k'. \<exists>n m. generateBucketName w' infra' j sv = Some n \<and>
             CreateBucket w' j n = Some (awserrError ErrCodeBucketAlreadyExists m))
      \<and> generateBucketName w' infra' k' sv = Some n
    \<longrightarrow>
      (CreateBucket w' k' n = None \<longrightarrow>
           s3_CreateStorage w' d' c =
             s3_CreateStorage_wait w' infra'
               (bucketCreated w'
                  (sv\<lparr>dConfig := (dConfig sv)\<lparr>Bucket := n\<rparr>,
                      trace := ProviderCall ''CreateBucket'' True
                               # replicate k' (ProviderCall ''CreateBucket'' False)\<rparr>)))
       \<and> (\<forall>code m. CreateBucket w' k' n = Some (awserrError code m)
              \<and> code \<noteq> ErrCodeBucketAlreadyExists \<longrightarrow>
           s3_CreateStorage w' d' c =
             Return (Some (awserrError code m),
               updateCondition (Now w') StorageExists ConditionFalse code m
                 (sv\<lparr>dConfig := (dConfig sv)\<lparr>Bucket := n\<rparr>,
                     trace := replicate (k' + 1) (ProviderCall ''CreateBucket'' False)\<rparr>))))"
proof -
  have c1: "(azure_GetConfig w = Inr cfg \<and> AccountKey cfg = [] \<and> Authorizer w cfg = None
      \<and> AccountName d = [] \<and> GetInfrastructure w = Inr infra
      \<and> (\<forall>j<maxAttempts. \<exists>e. accountAttempt w cfg infra j = Some e \<and> isErrNameNotAvailable e)
    \<longrightarrow> (\<exists>e. accountAttempt w cfg infra 9 = Some e
          \<and> azure_CreateStorage w d c =
              Return (Some (errorString
                  (''attmpts to create storage account failed, last error: '' @ Error e)),
                updateCondition (Now w) StorageExists ConditionFalse
                  storageExistsReasonAzureError
                  (''Unable to create storage account: '' @ Error e)
                  ((enter d c)\<lparr>trace :=
                     replicate 10 (ProviderCall ''createStorageAccount'' False)\<rparr>))))"
    using azure_exhausted[of w cfg d infra c] by blast
  have c2: "(getS3Service w' (enter d' c) = Return (None, sv)
      \<and> GetInfrastructure w' = Inr infra' \<and> Bucket d' = []
      \<and> (\<forall>j<5000. \<exists>n m. generateBucketName w' infra' j sv = Some n \<and>
             CreateBucket w' j n = Some (awserrError ErrCodeBucketAlreadyExists m))
    \<longrightarrow> s3_CreateStorage w' d' c =
           Return (Some (errorString ''unable to generate a unique s3 bucket name''),
             updateCondition (Now w') StorageExists ConditionFalse
               ''Unable to Generate Unique Bucket Name'' []
               (sv\<lparr>trace := replicate 5000 (ProviderCall ''CreateBucket'' False)\<rparr>)))"
    using s3_exhausted[of w' d' c sv infra'] by blast
  have c3: "(azure_GetConfig w = Inr cfg \<and> AccountKey cfg = [] \<and> Authorizer w cfg = None
      \<and> AccountName d = [] \<and> GetInfrastructure w = Inr infra
      \<and> k < maxAttempts
      \<and> (\<forall>j<k. \<exists>e. accountAttempt w cfg infra j = Some e \<and> isErrNameNotAvailable e)
    \<longrightarrow>
      (accountAttempt w cfg infra k = None \<longrightarrow>
           azure_CreateStorage w d c =
             azure_CreateStorage_container w cfg
               (writeSpecAzure
                 (Some (d\<lparr>AccountName :=
                    generateAccountName (InfrastructureName infra) (randString w k)\<rparr>))
                 (writeStatusAzure
                   (Some (d\<lparr>AccountName :=
                      generateAccountName (InfrastructureName infra) (randString w k)\<rparr>))
                   (setStorageManaged True
                     \<lparr>cr = c,
                      dConfig = d\<lparr>AccountName :=
                        generateAccountName (InfrastructureName infra) (randString w k)\<rparr>,
                      trace = ProviderCall ''createStorageAccount'' True
                              # replicate k (ProviderCall ''createStorageAccount'' False)\<rparr>))))
       \<and> (\<forall>e. accountAttempt w cfg infra k = Some e \<and> \<not> isErrNameNotAvailable e \<longrightarrow>
           azure_CreateStorage w d c =
             Return (Some e,
               \<lparr>cr = c, dConfig = d,
                trace = replicate (k + 1) (ProviderCall ''createStorageAccount'' False)\<rparr>)))"
    using azure_attempts[of w cfg d infra k c] by blast
  have c4: "(getS3Service w' (enter d' c) = Return (None, sv)
      \<and> GetInfrastructure w' = Inr infra' \<and> Bucket d' = []
      \<and> k' < 5000
      \<and> (\<forall>j<k'. \<exists>n m. generateBucketName w' infra' j sv = Some n \<and>
             CreateBucket w' j n = Some (awserrError ErrCodeBucketAlreadyExists m))
      \<and> generateBucketName w' infra' k' sv = Some n
    \<longrightarrow>
      (CreateBucket w' k' n = None \<longrightarrow>
           s3_CreateStorage w' d' c =
             s3_CreateStorage_wait w' infra'
               (bucketCreated w'
                  (sv\<lparr>dConfig := (dConfig sv)\<lparr>Bucket := n\<rparr>,
                      trace := ProviderCall ''CreateBucket'' True
                               # replicate k' (ProviderCall ''CreateBucket'' False)\<rparr>)))
       \<and> (\<forall>code m. CreateBucket w' k' n = Some (awserrError code m)
              \<and> code \<noteq> ErrCodeBucketAlreadyExists \<longrightarrow>
           s3_CreateStorage w' d' c =
             Return (Some (awserrError code m),
               updateCondition (Now w') StorageExists ConditionFalse code m
                 (sv\<lparr>dConfig := (dConfig sv)\<lparr>Bucket := n\<rparr>,
                     trace := replicate (k' + 1) (ProviderCall ''CreateBucket'' False)\<rparr>))))"
    using s3_attempts[of w' d' c sv infra' k' n] by blast
  show ?thesis
    by (rule conjI[OF c1 conjI[OF c2 conjI[OF c3 c4]]])
qed

theorem CreateStorage_retries_witness:
  "azure_GetConfig azureNamesTaken = Inr mintedCredentials
   \<and> AccountName noAccount = []
   \<and> accountAttempt azureNamesTaken mintedCredentials exampleInfrastructure 9 =
       Some (errNameNotAvailable ''myclusterx7k2pbcdfg'' ''already taken'')
   \<and> azure_CreateStorage azureNamesTaken noAccount exampleResource =
       Return (Some (errorString ''attmpts to create storage account failed, last error: storage account name myclusterx7k2pbcdfg is not available: already taken''),
         (updateCondition 7 StorageExists ConditionFalse storageExistsReasonAzureError
         ''Unable to create storage account: storage account name myclusterx7k2pbcdfg is not available: already taken''
         ((enter noAccount exampleResource)\<lparr>trace :=
            replicate 10 (ProviderCall ''createStorageAccount'' False)\<rparr>)))
   \<and> Bucket noBucket = []
   \<and> generateBucketName s3NamesTaken exampleInfrastructure 4999 ((enter noBucket exampleResource)\<lparr>dConfig := noBucket\<lparr>Region := ''us-east-1''\<rparr>\<rparr>) = Some ''image-registry-us-east-1-myclusterx7k2p-123e4567e89b12d3a45642''
   \<and> CreateBucket s3NamesTaken 4999 ''image-registry-us-east-1-myclusterx7k2p-123e4567e89b12d3a45642'' =
       Some (awserrError ErrCodeBucketAlreadyExists
         ''BucketAlreadyExists: the requested bucket name is not available'')
   \<and> s3_CreateStorage s3NamesTaken noBucket exampleResource =
       Return (Some (errorString ''unable to generate a unique s3 bucket name''), (updateCondition 7 StorageExists ConditionFalse ''Unable to Generate Unique Bucket Name'' []
         (((enter noBucket exampleResource)\<lparr>dConfig := noBucket\<lparr>Region := ''us-east-1''\<rparr>\<rparr>)\<lparr>trace := replicate 5000 (ProviderCall ''CreateBucket'' False)\<rparr>)))
   \<and> accountAttempt azureThirdFree mintedCredentials exampleInfrastructure 0 =
       Some (errNameNotAvailable ''myclusterx7k2pbcdfg'' ''already taken'')
   \<and> accountAttempt azureThirdFree mintedCredentials exampleInfrastructure 1 =
       Some (errNameNotAvailable ''myclusterx7k2phjklm'' ''already taken'')
   \<and> accountAttempt azureThirdFree mintedCredentials exampleInfrastructure 2 = None
   \<and> (\<exists>s. azure_CreateStorage azureThirdFree noAccount exampleResource = Return (None, s)
         \<and> dConfig s = \<lparr>AccountName = ''myclusterx7k2pnpqrs'', Container = ''image-registry''\<rparr>
         \<and> StorageManaged (Status (cr s)) = True
         \<and> providerCalls (trace s) =
             [ProviderCall ''createStorageContainer'' True,
              ProviderCall ''getAccountPrimaryKey'' True,
              ProviderCall ''createStorageAccount'' True,
              ProviderCall ''createStorageAccount'' False,
              ProviderCall ''createStorageAccount'' False])
   \<and> accountAttempt azureSecondFails mintedCredentials exampleInfrastructure 1 =
       Some (errorString ''storage account check-name-availability failed: too many requests'')
   \<and> azure_CreateStorage azureSecondFails noAccount exampleResource =
       Return (Some (errorString
           ''storage account check-name-availability failed: too many requests''),
         \<lparr>cr = exampleResource, dConfig = noAccount,
          trace = [ProviderCall ''createStorageAccount'' False,
                   ProviderCall ''createStorageAccount'' False]\<rparr>)
   \<and> (\<exists>s. s3_CreateStorage s3ThirdFree noBucket exampleResource = Return (None, s)
         \<and> Bucket (dConfig s) =
             ''image-registry-us-east-1-myclusterx7k2p-323e4567e89b12d3a45642''
         \<and> StorageManaged (Status (cr s)) = True
         \<and> providerCalls (trace s) =
             [ProviderCall ''PutBucketLifecycleConfiguration'' True,
              ProviderCall ''PutBucketEncryption'' True,
              ProviderCall ''PutBucketTagging'' True,
              ProviderCall ''PutPublicAccessBlock'' True,
              ProviderCall ''WaitUntilBucketExists'' True,
              ProviderCall ''CreateBucket'' True,
              ProviderCall ''CreateBucket'' False,
              ProviderCall ''CreateBucket'' False])
   \<and> s3_CreateStorage s3SecondDenied noBucket exampleResource =
       Return (Some (awserrError ''AccessDenied'' ''AccessDenied: Access Denied''),
         updateCondition 7 StorageExists ConditionFalse ''AccessDenied''
           ''AccessDenied: Access Denied''
           \<lparr>cr = exampleResource,
            dConfig = noBucket\<lparr>Region := ''us-east-1'',
              Bucket := ''image-registry-us-east-1-myclusterx7k2p-223e4567e89b12d3a45642''\<rparr>,
            trace = [ProviderCall ''CreateBucket'' False,
                     ProviderCall ''CreateBucket'' False]\<rparr>)"
proof -
  have old: "azure_GetConfig azureNamesTaken = Inr mintedCredentials
   \<and> AccountName noAccount = []
   \<and> accountAttempt azureNamesTaken mintedCredentials exampleInfrastructure 9 =
       Some (errNameNotAvailable ''myclusterx7k2pbcdfg'' ''already taken'')
   \<and> azure_CreateStorage azureNamesTaken noAccount exampleResource =
       Return (Some (errorString ''attmpts to create storage account failed, last error: storage account name myclusterx7k2pbcdfg is not available: already taken''),
         (updateCondition 7 StorageExists ConditionFalse storageExistsReasonAzureError
         ''Unable to create storage account: storage account name myclusterx7k2pbcdfg is not available: already taken''
         ((enter noAccount exampleResource)\<lparr>trace :=
            replicate 10 (ProviderCall ''createStorageAccount'' False)\<rparr>)))
   \<and> Bucket noBucket = []
   \<and> generateBucketName s3NamesTaken exampleInfrastructure 4999 ((enter noBucket exampleResource)\<lparr>dConfig := noBucket\<lparr>Region := ''us-east-1''\<rparr>\<rparr>) = Some ''image-registry-us-east-1-myclusterx7k2p-123e4567e89b12d3a45642''
   \<and> CreateBucket s3NamesTaken 4999 ''image-registry-us-east-1-myclusterx7k2p-123e4567e89b12d3a45642'' =
       Some (awserrError ErrCodeBucketAlreadyExists
         ''BucketAlreadyExists: the requested bucket name is not available'')
   \<and> s3_CreateStorage s3NamesTaken noBucket exampleResource =
       Return (Some (errorString ''unable to generate a unique s3 bucket name''), (updateCondition 7 StorageExists ConditionFalse ''Unable to Generate Unique Bucket Name'' []
         (((enter noBucket exampleResource)\<lparr>dConfig := noBucket\<lparr>Region := ''us-east-1''\<rparr>\<rparr>)\<lparr>trace := replicate 5000 (ProviderCall ''CreateBucket'' False)\<rparr>)))"
  proof -
    let ?cfg = "mintedCredentials"
    have k: "AccountKey ?cfg = []" by (simp add: mintedCredentials_def)
    have n: "AccountName noAccount = []" by (simp add: noAccount_def)
    have b: "Bucket noBucket = []" by (simp add: noBucket_def)
    have a: "\<forall>j<maxAttempts. \<exists>e. accountAttempt azureNamesTaken ?cfg exampleInfrastructure j = Some e
               \<and> isErrNameNotAvailable e"
      by (simp add: azureNamesTaken_attempt isErrNameNotAvailable_def)
    have g: "\<forall>j<5000. \<exists>n m. generateBucketName s3NamesTaken exampleInfrastructure j ((enter noBucket exampleResource)\<lparr>dConfig := noBucket\<lparr>Region := ''us-east-1''\<rparr>\<rparr>) = Some n \<and>
               CreateBucket s3NamesTaken j n = Some (awserrError ErrCodeBucketAlreadyExists m)"
      by (simp add: example_bucket_name s3NamesTaken_fields ErrCodeBucketAlreadyExists_def)
    note t = CreateStorage_retries[where w = azureNamesTaken and cfg = ?cfg
        and d = noAccount and infra = exampleInfrastructure and c = exampleResource
        and w' = s3NamesTaken and d' = noBucket and sv = "(enter noBucket exampleResource)\<lparr>dConfig := noBucket\<lparr>Region := ''us-east-1''\<rparr>\<rparr>"
        and infra' = exampleInfrastructure]
    have az: "\<exists>e. accountAttempt azureNamesTaken ?cfg exampleInfrastructure 9 = Some e
            \<and> azure_CreateStorage azureNamesTaken noAccount exampleResource =
                Return (Some (errorString
                    (''attmpts to create storage account failed, last error: '' @ Error e)),
                  updateCondition (Now azureNamesTaken) StorageExists ConditionFalse
                    storageExistsReasonAzureError
                    (''Unable to create storage account: '' @ Error e)
                    ((enter noAccount exampleResource)\<lparr>trace :=
                       replicate 10 (ProviderCall ''createStorageAccount'' False)\<rparr>))"
      using t[THEN conjunct1] azureNamesTaken_config k azureNamesTaken_fields(2,3) n a
      by blast
    have s3: "s3_CreateStorage s3NamesTaken noBucket exampleResource =
             Return (Some (errorString ''unable to generate a unique s3 bucket name''),
               updateCondition (Now s3NamesTaken) StorageExists ConditionFalse
                 ''Unable to Generate Unique Bucket Name'' []
                 (((enter noBucket exampleResource)\<lparr>dConfig := noBucket\<lparr>Region := ''us-east-1''\<rparr>\<rparr>)\<lparr>trace := replicate 5000 (ProviderCall ''CreateBucket'' False)\<rparr>))"
      using t[THEN conjunct2, THEN conjunct1] s3NamesTaken_service_region s3NamesTaken_fields(5) b g
      by blast
    from az have az': "azure_CreateStorage azureNamesTaken noAccount exampleResource =
         Return (Some (errorString ''attmpts to create storage account failed, last error: storage account name myclusterx7k2pbcdfg is not available: already taken''),
           (updateCondition 7 StorageExists ConditionFalse storageExistsReasonAzureError
           ''Unable to create storage account: storage account name myclusterx7k2pbcdfg is not available: already taken''
           ((enter noAccount exampleResource)\<lparr>trace :=
              replicate 10 (ProviderCall ''createStorageAccount'' False)\<rparr>)))"
      by (simp add: azureNamesTaken_attempt azureNamesTaken_fields)
    show ?thesis
      using az' s3 azureNamesTaken_config n b
      by (simp add: azureNamesTaken_attempt example_bucket_name s3NamesTaken_fields
          ErrCodeBucketAlreadyExists_def)
  qed
  let ?sv = "((enter noBucket exampleResource)\<lparr>dConfig := noBucket\<lparr>Region := ''us-east-1''\<rparr>\<rparr>)"
  have two: "\<And>j::nat. j < 2 \<Longrightarrow> j = 0 \<or> j = 1"
    by auto
  have n: "AccountName noAccount = []" by (simp add: noAccount_def)
  have b: "Bucket noBucket = []" by (simp add: noBucket_def)
  have a0: "accountAttempt azureThirdFree mintedCredentials exampleInfrastructure 0 =
       Some (errNameNotAvailable ''myclusterx7k2pbcdfg'' ''already taken'')"
    and a1: "accountAttempt azureThirdFree mintedCredentials exampleInfrastructure 1 =
       Some (errNameNotAvailable ''myclusterx7k2phjklm'' ''already taken'')"
    and a2: "accountAttempt azureThirdFree mintedCredentials exampleInfrastructure 2 = None"
    by (simp_all add: accountAttempt_def createStorageAccount_def azureThirdFree_fields
        example_account_names)
  have f0: "accountAttempt azureSecondFails mintedCredentials exampleInfrastructure 0 =
       Some (errNameNotAvailable ''myclusterx7k2pbcdfg'' ''already taken'')"
    and f1: "accountAttempt azureSecondFails mintedCredentials exampleInfrastructure 1 =
       Some (errorString ''storage account check-name-availability failed: too many requests'')"
    by (simp_all add: accountAttempt_def createStorageAccount_def azureSecondFails_fields
        example_account_names)
  have ha: "\<forall>j<2. \<exists>e. accountAttempt azureThirdFree mintedCredentials exampleInfrastructure j
              = Some e \<and> isErrNameNotAvailable e"
  proof (intro allI impI)
    fix j :: nat assume "j < 2"
    then have "j = 0 \<or> j = 1" by (rule two)
    then show "\<exists>e. accountAttempt azureThirdFree mintedCredentials exampleInfrastructure j
              = Some e \<and> isErrNameNotAvailable e"
      using a0 a1 by (auto simp: isErrNameNotAvailable_def)
  qed
  have hf: "\<forall>j<1. \<exists>e. accountAttempt azureSecondFails mintedCredentials exampleInfrastructure j
              = Some e \<and> isErrNameNotAvailable e"
    using f0 by (simp add: isErrNameNotAvailable_def)
  have lt: "(2::nat) < maxAttempts" "(1::nat) < maxAttempts"
    by (simp_all add: maxAttempts_def)
  note az = CreateStorage_retries[where w = azureThirdFree and cfg = mintedCredentials
      and d = noAccount and infra = exampleInfrastructure and c = exampleResource and k = 2,
      THEN conjunct2, THEN conjunct2, THEN conjunct1, THEN mp, THEN conjunct1, THEN mp]
  have r1: "azure_CreateStorage azureThirdFree noAccount exampleResource =
             azure_CreateStorage_container azureThirdFree mintedCredentials
               (writeSpecAzure
                 (Some (noAccount\<lparr>AccountName :=
                    generateAccountName (InfrastructureName exampleInfrastructure)
                      (randString azureThirdFree 2)\<rparr>))
                 (writeStatusAzure
                   (Some (noAccount\<lparr>AccountName :=
                      generateAccountName (InfrastructureName exampleInfrastructure)
                        (randString azureThirdFree 2)\<rparr>))
                   (setStorageManaged True
                     \<lparr>cr = exampleResource,
                      dConfig = noAccount\<lparr>AccountName :=
                        generateAccountName (InfrastructureName exampleInfrastructure)
                          (randString azureThirdFree 2)\<rparr>,
                      trace = ProviderCall ''createStorageAccount'' True
                              # replicate 2 (ProviderCall ''createStorageAccount'' False)\<rparr>)))"
    by (rule az)
       (simp_all add: azureThirdFree_config azureThirdFree_fields mintedCredentials_fields
         n lt ha a2)
  have n1: "\<exists>s. azure_CreateStorage azureThirdFree noAccount exampleResource = Return (None, s)
         \<and> dConfig s = \<lparr>AccountName = ''myclusterx7k2pnpqrs'', Container = ''image-registry''\<rparr>
         \<and> StorageManaged (Status (cr s)) = True
         \<and> providerCalls (trace s) =
             [ProviderCall ''createStorageContainer'' True,
              ProviderCall ''getAccountPrimaryKey'' True,
              ProviderCall ''createStorageAccount'' True,
              ProviderCall ''createStorageAccount'' False,
              ProviderCall ''createStorageAccount'' False]"
    unfolding r1
    by (simp add: azure_CreateStorage_container_def Let_def azureThirdFree_fields
        mintedCredentials_fields example_account_names getAccountPrimaryKey_def
        createStorageContainer_def getStorageContainer_def providerCalls_def
        enter_simps updateCondition_simps called_simps writeStatusAzure_simps
        writeSpecAzure_simps setStorageManaged_simps UpdateCondition_frame noAccount_def
        numeral_2_eq_2)
  note az2 = CreateStorage_retries[where w = azureSecondFails and cfg = mintedCredentials
      and d = noAccount and infra = exampleInfrastructure and c = exampleResource and k = 1,
      THEN conjunct2, THEN conjunct2, THEN conjunct1, THEN mp, THEN conjunct2, THEN spec,
      THEN mp]
  have n2: "azure_CreateStorage azureSecondFails noAccount exampleResource =
       Return (Some (errorString
           ''storage account check-name-availability failed: too many requests''),
         \<lparr>cr = exampleResource, dConfig = noAccount,
          trace = [ProviderCall ''createStorageAccount'' False,
                   ProviderCall ''createStorageAccount'' False]\<rparr>)"
  proof -
    have "azure_CreateStorage azureSecondFails noAccount exampleResource =
       Return (Some (errorString
           ''storage account check-name-availability failed: too many requests''),
         \<lparr>cr = exampleResource, dConfig = noAccount,
          trace = replicate (1 + 1) (ProviderCall ''createStorageAccount'' False)\<rparr>)"
      by (rule az2)
         (simp_all add: azureSecondFails_config azureSecondFails_fields
           mintedCredentials_fields n f0 f1[simplified] maxAttempts_def
           isErrNameNotAvailable_def)
    then show ?thesis
      by (simp add: numeral_2_eq_2)
  qed
  have g0: "generateBucketName s3ThirdFree exampleInfrastructure 0 ?sv =
       Some ''image-registry-us-east-1-myclusterx7k2p-123e4567e89b12d3a45642''"
    and g1: "generateBucketName s3ThirdFree exampleInfrastructure 1 ?sv =
       Some ''image-registry-us-east-1-myclusterx7k2p-223e4567e89b12d3a45642''"
    and g2: "generateBucketName s3ThirdFree exampleInfrastructure 2 ?sv =
       Some ''image-registry-us-east-1-myclusterx7k2p-323e4567e89b12d3a45642''"
    and d0: "generateBucketName s3SecondDenied exampleInfrastructure 0 ?sv =
       Some ''image-registry-us-east-1-myclusterx7k2p-123e4567e89b12d3a45642''"
    and d1: "generateBucketName s3SecondDenied exampleInfrastructure 1 ?sv =
       Some ''image-registry-us-east-1-myclusterx7k2p-223e4567e89b12d3a45642''"
    by (simp_all add: generateBucketName_def exampleInfrastructure_def removeDashes_def
        ImageRegistryName_def enter_def noBucket_def s3ThirdFree_fields s3SecondDenied_fields)
  have hs: "\<forall>j<2. \<exists>n m. generateBucketName s3ThirdFree exampleInfrastructure j ?sv = Some n
              \<and> CreateBucket s3ThirdFree j n = Some (awserrError ErrCodeBucketAlreadyExists m)"
  proof (intro allI impI)
    fix j :: nat assume "j < 2"
    then have "j = 0 \<or> j = 1" by (rule two)
    then show "\<exists>n m. generateBucketName s3ThirdFree exampleInfrastructure j ?sv = Some n
              \<and> CreateBucket s3ThirdFree j n = Some (awserrError ErrCodeBucketAlreadyExists m)"
      using g0 g1 by (auto simp: s3ThirdFree_fields ErrCodeBucketAlreadyExists_def)
  qed
  have hd: "\<forall>j<1. \<exists>n m. generateBucketName s3SecondDenied exampleInfrastructure j ?sv = Some n
              \<and> CreateBucket s3SecondDenied j n
                  = Some (awserrError ErrCodeBucketAlreadyExists m)"
    using d0 by (simp add: s3SecondDenied_fields ErrCodeBucketAlreadyExists_def)
  note s3 = CreateStorage_retries[where w' = s3ThirdFree and d' = noBucket
      and infra' = exampleInfrastructure and c = exampleResource and k' = 2 and sv = ?sv
      and n = "''image-registry-us-east-1-myclusterx7k2p-323e4567e89b12d3a45642''",
      THEN conjunct2, THEN conjunct2, THEN conjunct2, THEN mp, THEN conjunct1, THEN mp]
  have r3: "s3_CreateStorage s3ThirdFree noBucket exampleResource =
             s3_CreateStorage_wait s3ThirdFree exampleInfrastructure
               (bucketCreated s3ThirdFree
                  (?sv\<lparr>dConfig := (dConfig ?sv)\<lparr>Bucket :=
                          ''image-registry-us-east-1-myclusterx7k2p-323e4567e89b12d3a45642''\<rparr>,
                      trace := ProviderCall ''CreateBucket'' True
                               # replicate 2 (ProviderCall ''CreateBucket'' False)\<rparr>))"
  proof -
    have h: "getS3Service s3ThirdFree (enter noBucket exampleResource) = Return (None, ?sv)
      \<and> GetInfrastructure s3ThirdFree = Inr exampleInfrastructure \<and> Bucket noBucket = []
      \<and> (2::nat) < 5000
      \<and> (\<forall>j<2. \<exists>n m. generateBucketName s3ThirdFree exampleInfrastructure j ?sv = Some n \<and>
             CreateBucket s3ThirdFree j n = Some (awserrError ErrCodeBucketAlreadyExists m))
      \<and> generateBucketName s3ThirdFree exampleInfrastructure 2 ?sv =
          Some ''image-registry-us-east-1-myclusterx7k2p-323e4567e89b12d3a45642''"
      by (intro conjI hs g2 b s3ThirdFree_service s3ThirdFree_fields(2)) simp
    show ?thesis
      by (rule s3[OF h]) (simp add: s3ThirdFree_fields)
  qed
  have n3: "\<exists>s. s3_CreateStorage s3ThirdFree noBucket exampleResource = Return (None, s)
         \<and> Bucket (dConfig s) =
             ''image-registry-us-east-1-myclusterx7k2p-323e4567e89b12d3a45642''
         \<and> StorageManaged (Status (cr s)) = True
         \<and> providerCalls (trace s) =
             [ProviderCall ''PutBucketLifecycleConfiguration'' True,
              ProviderCall ''PutBucketEncryption'' True,
              ProviderCall ''PutBucketTagging'' True,
              ProviderCall ''PutPublicAccessBlock'' True,
              ProviderCall ''WaitUntilBucketExists'' True,
              ProviderCall ''CreateBucket'' True,
              ProviderCall ''CreateBucket'' False,
              ProviderCall ''CreateBucket'' False]"
    unfolding r3
    by (simp add: s3_CreateStorage_wait_def Let_def s3ThirdFree_fields
        bucketCreated_def blockPublicAccess_def tagBucket_def encryptBucket_def
        enableUploadCleanup_def providerCalls_def
        enter_simps updateCondition_simps called_simps writeStatusS3_simps writeSpecS3_simps
        setStorageManaged_simps UpdateCondition_frame noBucket_def numeral_2_eq_2)
  note s3d = CreateStorage_retries[where w' = s3SecondDenied and d' = noBucket
      and infra' = exampleInfrastructure and c = exampleResource and k' = 1 and sv = ?sv
      and n = "''image-registry-us-east-1-myclusterx7k2p-223e4567e89b12d3a45642''",
      THEN conjunct2, THEN conjunct2, THEN conjunct2, THEN mp, THEN conjunct2, THEN spec,
      THEN spec, THEN mp]
  have n4: "s3_CreateStorage s3SecondDenied noBucket exampleResource =
       Return (Some (awserrError ''AccessDenied'' ''AccessDenied: Access Denied''),
         updateCondition 7 StorageExists ConditionFalse ''AccessDenied''
           ''AccessDenied: Access Denied''
           \<lparr>cr = exampleResource,
            dConfig = noBucket\<lparr>Region := ''us-east-1'',
              Bucket := ''image-registry-us-east-1-myclusterx7k2p-223e4567e89b12d3a45642''\<rparr>,
            trace = [ProviderCall ''CreateBucket'' False,
                     ProviderCall ''CreateBucket'' False]\<rparr>)"
  proof -
    have "s3_CreateStorage s3SecondDenied noBucket exampleResource =
       Return (Some (awserrError ''AccessDenied'' ''AccessDenied: Access Denied''),
         updateCondition (Now s3SecondDenied) StorageExists ConditionFalse ''AccessDenied''
           ''AccessDenied: Access Denied''
           (?sv\<lparr>dConfig := (dConfig ?sv)\<lparr>Bucket :=
                   ''image-registry-us-east-1-myclusterx7k2p-223e4567e89b12d3a45642''\<rparr>,
               trace := replicate (1 + 1) (ProviderCall ''CreateBucket'' False)\<rparr>))"
    proof -
      have h: "getS3Service s3SecondDenied (enter noBucket exampleResource)
          = Return (None, ?sv)
        \<and> GetInfrastructure s3SecondDenied = Inr exampleInfrastructure
        \<and> Bucket noBucket = [] \<and> (1::nat) < 5000
        \<and> (\<forall>j<1. \<exists>n m. generateBucketName s3SecondDenied exampleInfrastructure j ?sv
               = Some n \<and>
             CreateBucket s3SecondDenied j n
               = Some (awserrError ErrCodeBucketAlreadyExists m))
        \<and> generateBucketName s3SecondDenied exampleInfrastructure 1 ?sv =
            Some ''image-registry-us-east-1-myclusterx7k2p-223e4567e89b12d3a45642''"
        by (intro conjI hd d1 b s3SecondDenied_service s3SecondDenied_fields(2)) simp
      show ?thesis
        by (rule s3d[OF h])
           (simp add: s3SecondDenied_fields ErrCodeBucketAlreadyExists_def)
    qed
    then show ?thesis
      by (simp add: s3SecondDenied_fields enter_def numeral_2_eq_2)
  qed
  from old a0 a1 a2 n1 f1 n2 n3 n4
  show ?thesis
    by blast
qed

text \<open>
  C2 as stated fails for the S3 driver: two providers that word their refusal
  differently leave the same error and the same resource behind, so the error does not
  describe the last cause, and the reason of the condition is not a provider error.
\<close>

theorem s3_exhausted_hides_cause:
  "CreateBucket s3NamesTaken 4999 ''image-registry-us-east-1-myclusterx7k2p-123e4567e89b12d3a45642'' =
       Some (awserrError ''BucketAlreadyExists''
         ''BucketAlreadyExists: the requested bucket name is not available'')
   \<and> CreateBucket s3NamesTakenToo 4999 ''image-registry-us-east-1-myclusterx7k2p-123e4567e89b12d3a45642'' =
       Some (awserrError ''BucketAlreadyExists'' ''BucketAlreadyExists: try another name'')
   \<and> s3_CreateStorage s3NamesTaken noBucket exampleResource =
       Return (Some (errorString ''unable to generate a unique s3 bucket name''), (updateCondition 7 StorageExists ConditionFalse ''Unable to Generate Unique Bucket Name'' []
         (((enter noBucket exampleResource)\<lparr>dConfig := noBucket\<lparr>Region := ''us-east-1''\<rparr>\<rparr>)\<lparr>trace := replicate 5000 (ProviderCall ''CreateBucket'' False)\<rparr>)))
   \<and> s3_CreateStorage s3NamesTakenToo noBucket exampleResource =
       Return (Some (errorString ''unable to generate a unique s3 bucket name''), (updateCondition 7 StorageExists ConditionFalse ''Unable to Generate Unique Bucket Name'' []
         (((enter noBucket exampleResource)\<lparr>dConfig := noBucket\<lparr>Region := ''us-east-1''\<rparr>\<rparr>)\<lparr>trace := replicate 5000 (ProviderCall ''CreateBucket'' False)\<rparr>)))
   \<and> conditionIs (cr (updateCondition 7 StorageExists ConditionFalse ''Unable to Generate Unique Bucket Name'' []
         (((enter noBucket exampleResource)\<lparr>dConfig := noBucket\<lparr>Region := ''us-east-1''\<rparr>\<rparr>)\<lparr>trace := replicate 5000 (ProviderCall ''CreateBucket'' False)\<rparr>))) StorageExists ConditionFalse
       ''Unable to Generate Unique Bucket Name'' []"
proof -
  have b: "Bucket noBucket = []" by (simp add: noBucket_def)
  have g1: "\<forall>j<5000. \<exists>n m. generateBucketName s3NamesTaken exampleInfrastructure j ((enter noBucket exampleResource)\<lparr>dConfig := noBucket\<lparr>Region := ''us-east-1''\<rparr>\<rparr>) = Some n \<and>
             CreateBucket s3NamesTaken j n = Some (awserrError ErrCodeBucketAlreadyExists m)"
    by (simp add: example_bucket_name s3NamesTaken_fields ErrCodeBucketAlreadyExists_def)
  have g2: "\<forall>j<5000. \<exists>n m. generateBucketName s3NamesTakenToo exampleInfrastructure j ((enter noBucket exampleResource)\<lparr>dConfig := noBucket\<lparr>Region := ''us-east-1''\<rparr>\<rparr>) = Some n \<and>
             CreateBucket s3NamesTakenToo j n = Some (awserrError ErrCodeBucketAlreadyExists m)"
    by (simp add: example_bucket_name s3NamesTakenToo_fields ErrCodeBucketAlreadyExists_def)
  note r1 = s3_exhausted[OF s3NamesTaken_service_region s3NamesTaken_fields(5) b g1]
  note r2 = s3_exhausted[OF s3NamesTakenToo_service_region s3NamesTakenToo_fields(4) b g2]
  have c: "conditionIs (cr (updateCondition 7 StorageExists ConditionFalse ''Unable to Generate Unique Bucket Name'' []
         (((enter noBucket exampleResource)\<lparr>dConfig := noBucket\<lparr>Region := ''us-east-1''\<rparr>\<rparr>)\<lparr>trace := replicate 5000 (ProviderCall ''CreateBucket'' False)\<rparr>))) StorageExists ConditionFalse
       ''Unable to Generate Unique Bucket Name'' []"
    unfolding updateCondition_simps by (rule conditionIs_UpdateCondition)
  show ?thesis
    using r1 r2 c
    by (simp add: s3NamesTaken_fields s3NamesTakenToo_fields)
qed






















































end
